(* ===== verification/Prelude.thy ===== *)
theory Prelude
  imports Main "HOL-Library.Sublist"
begin

text \<open>
  Shared vocabulary of the development.
  \<^item> \<open>error\<close>: every exception the notebook or the pipeline core can raise, one
    constructor each: the Python built-ins the notebook's own code can hit
    (\<open>IndexError\<close> on \<open>lines[0]\<close> and \<open>documents[0]\<close>, \<open>KeyError\<close> on
    \<open>kwargs[...]\<close>, \<open>ValueError\<close> from \<open>str.format\<close>) and the error kinds of
    the pipeline core.
  \<^item> \<open>'a result\<close> = \<open>error + 'a\<close>, with \<open>Inl\<close> the raised exception, and
    \<open>ebind\<close>, the propagation of an exception through the statements after it.
  \<^item> the collection \<open>model_simps\<close> of evaluation rules the components register,
    so that a concrete run of the notebook evaluates by \<open>simp add: model_simps\<close>.
\<close>

named_theorems model_simps "evaluation rules of the notebook model"

datatype error =
    IndexError
  | KeyError string
  | ValueError string
  | DuplicateNameError string
  | NotFoundError string
  | UnknownUnitError string
  | DuplicateDestinationError string string
  | CycleError "string list"
  | UnsatisfiedInputError string string
  | MissingInputError string string
  | UnitError string
  | TypeError string

type_synonym 'a result = "error + 'a"

definition ebind :: "'a result \<Rightarrow> ('a \<Rightarrow> 'b result) \<Rightarrow> 'b result" where
  "ebind r f = (case r of Inl e \<Rightarrow> Inl e | Inr a \<Rightarrow> f a)"

lemma ebind_Inl [simp]: "ebind (Inl e) f = Inl e"
  by (simp add: ebind_def)

lemma ebind_Inr [simp]: "ebind (Inr a) f = f a"
  by (simp add: ebind_def)

lemma ebind_eq_Inr_iff: "ebind r f = Inr b \<longleftrightarrow> (\<exists>a. r = Inr a \<and> f a = Inr b)"
  by (cases r) (simp_all add: ebind_def)

lemma ebind_eq_Inl_iff:
  "ebind r f = Inl e \<longleftrightarrow> r = Inl e \<or> (\<exists>a. r = Inr a \<and> f a = Inl e)"
  by (cases r) (simp_all add: ebind_def)

lemma ebind_assoc: "ebind (ebind r f) g = ebind r (\<lambda>a. ebind (f a) g)"
  by (cases r) simp_all

text \<open>Python's \<open>dict\<close> lookup \<open>d[k]\<close> on an association list: \<open>KeyError\<close> when absent.\<close>

definition py_getitem :: "(string \<times> 'v) list \<Rightarrow> string \<Rightarrow> 'v result" where
  "py_getitem d k = (case map_of d k of None \<Rightarrow> Inl (KeyError k) | Some v \<Rightarrow> Inr v)"

lemma py_getitem_Inr_iff [simp]: "py_getitem d k = Inr v \<longleftrightarrow> map_of d k = Some v"
  by (simp add: py_getitem_def split: option.splits)

lemma py_getitem_Inl_iff [simp]: "py_getitem d k = Inl e \<longleftrightarrow> map_of d k = None \<and> e = KeyError k"
  by (auto simp add: py_getitem_def split: option.splits)

lemma py_getitem_Some [simp]: "map_of d k = Some v \<Longrightarrow> py_getitem d k = Inr v"
  by (simp add: py_getitem_def)

lemma py_getitem_present: "k \<in> fst ` set d \<Longrightarrow> \<exists>v. py_getitem d k = Inr v"
  by (cases "map_of d k") (auto simp: map_of_eq_None_iff)

declare py_getitem_def [model_simps]

end
