(* ===== verification/Py_Str.thy ===== *)
theory Py_Str
  imports Prelude
begin

text \<open>
  The Python string operations the notebook calls: \<open>str.isspace\<close> (through
  \<open>str.strip\<close>), \<open>str.split(sep)\<close>, \<open>sep.join(...)\<close> and \<open>str(int)\<close>
  as used by an f-string. A Python \<open>str\<close> is a sequence of code points; the
  model is a \<open>string\<close> whose characters are the code points 0 to 255 (Latin-1),
  on which \<open>py_isspace\<close> is exactly Python's \<open>str.isspace\<close>.
\<close>

definition py_isspace :: "char \<Rightarrow> bool" where
  "py_isspace c \<longleftrightarrow> of_char c \<in> ({9..13} \<union> {28..32} \<union> {133, 160} :: nat set)"

text \<open>\<open>s.strip()\<close>: \<open>rstrip\<close> then \<open>lstrip\<close> of whitespace.\<close>

definition py_strip :: "string \<Rightarrow> string" where
  "py_strip s = dropWhile py_isspace (rev (dropWhile py_isspace (rev s)))"

text \<open>\<open>s.split(sep)\<close> for a one-character separator: the pieces between
  separators, an empty piece for each separator at an end or next to another.\<close>

fun split_acc :: "char \<Rightarrow> string \<Rightarrow> string \<Rightarrow> string list" where
  "split_acc c cur [] = [rev cur]"
| "split_acc c cur (x # xs) =
     (if x = c then rev cur # split_acc c [] xs else split_acc c (x # cur) xs)"

definition py_split :: "char \<Rightarrow> string \<Rightarrow> string list" where
  "py_split c s = split_acc c [] s"

text \<open>\<open>sep.join(xs)\<close>.\<close>

fun py_join :: "string \<Rightarrow> string list \<Rightarrow> string" where
  "py_join sep [] = []"
| "py_join sep [x] = x"
| "py_join sep (x # y # zs) = x @ sep @ py_join sep (y # zs)"

text \<open>\<open>str(n)\<close> for a natural number: its decimal digits.\<close>

definition digit_char :: "nat \<Rightarrow> char" where
  "digit_char d = ''0123456789'' ! d"

fun py_str_nat :: "nat \<Rightarrow> string" where
  "py_str_nat n =
     (if n < 10 then [digit_char n]
      else py_str_nat (n div 10) @ [digit_char (n mod 10)])"

declare py_str_nat.simps [simp del]

lemmas py_str_simps [model_simps] =
  py_isspace_def py_strip_def py_split_def py_join.simps digit_char_def py_str_nat.simps

subsection \<open>Blank strings\<close>

lemma dropWhile_eq_Nil_iff': "dropWhile P xs = [] \<longleftrightarrow> (\<forall>x\<in>set xs. P x)"
  by (induction xs) auto

lemma dropWhile_all_iff: "(\<forall>x\<in>set (dropWhile P xs). P x) \<longleftrightarrow> (\<forall>x\<in>set xs. P x)"
  by (induction xs) auto

lemma py_strip_empty_iff: "py_strip s = [] \<longleftrightarrow> (\<forall>c\<in>set s. py_isspace c)"
  by (simp add: py_strip_def dropWhile_eq_Nil_iff' dropWhile_all_iff)

lemma py_isspace_newline [simp]: "py_isspace CHR ''\<newline>''"
  by (simp add: py_isspace_def)

subsection \<open>split and join\<close>

lemma split_acc_not_Nil [simp]: "split_acc c cur s \<noteq> []"
  by (induction c cur s rule: split_acc.induct) auto

lemma py_split_not_Nil [simp]: "py_split c s \<noteq> []"
  by (simp add: py_split_def)

lemma py_join_Cons: "ys \<noteq> [] \<Longrightarrow> py_join sep (x # ys) = x @ sep @ py_join sep ys"
  by (cases ys) auto

lemma py_join_split_acc: "py_join [c] (split_acc c cur s) = rev cur @ s"
proof (induction c cur s rule: split_acc.induct)
  case (1 c cur)
  then show ?case by simp
next
  case (2 c cur x xs)
  then show ?case by (auto simp: py_join_Cons)
qed

lemma split_acc_no_sep: "c \<notin> set cur \<Longrightarrow> l \<in> set (split_acc c cur s) \<Longrightarrow> c \<notin> set l"
  by (induction c cur s rule: split_acc.induct) (auto split: if_splits)

lemma py_split_no_sep: "l \<in> set (py_split c s) \<Longrightarrow> c \<notin> set l"
  using split_acc_no_sep [of c "[]"] by (simp add: py_split_def)

lemma split_acc_append_sep:
  "c \<notin> set l \<Longrightarrow> split_acc c cur (l @ c # s) = (rev cur @ l) # split_acc c [] s"
  by (induction l arbitrary: cur) auto

lemma split_acc_no_sep_all: "c \<notin> set l \<Longrightarrow> split_acc c cur l = [rev cur @ l]"
  by (induction l arbitrary: cur) auto

lemma py_split_join:
  "ls \<noteq> [] \<Longrightarrow> \<forall>l\<in>set ls. c \<notin> set l \<Longrightarrow> py_split c (py_join [c] ls) = ls"
proof (induction ls rule: induct_list012)
  case 1
  then show ?case by simp
next
  case (2 x)
  then show ?case by (simp add: py_split_def split_acc_no_sep_all)
next
  case (3 x y zs)
  then show ?case by (simp add: py_split_def split_acc_append_sep)
qed

end
