(* ===== verification/Doc_Cleanup.thy ===== *)
theory Doc_Cleanup
  imports Py_Str
begin

text \<open>
  The notebook's document clean-up cell (the cell after \<open>reader.load_data\<close>):
  \<^verbatim>\<open>
  lines = documents[0].text.split("\n")
  fixed_lines = [lines[0]]
  for idx in range(1, len(lines)):
      if lines[idx].strip() == "" and lines[idx - 1].strip() == "":
          continue
      fixed_lines.append(lines[idx])
  documents[0].text = "\n".join(fixed_lines)
  \<close>
  A document is a record with its text; the other fields of the library's
  \<open>Document\<close> are the record's extension and are left as they are. The loop is
  \<open>fix_loop\<close>, over the index \<open>idx\<close> with \<open>fixed_lines\<close> as accumulator;
  \<open>fix_lines\<close> adds the \<open>lines[0]\<close> read, which raises on an empty list.
  \<open>collapse_blank_runs\<close> is the structural reference the loop is proved equal to.
\<close>

record document =
  doc_text :: string

definition is_blank :: "string \<Rightarrow> bool" where
  "is_blank s \<longleftrightarrow> py_strip s = []"

function fix_loop :: "string list \<Rightarrow> nat \<Rightarrow> string list \<Rightarrow> string list" where
  "fix_loop lines idx fixed_lines =
     (if idx < length lines then
        (if is_blank (lines ! idx) \<and> is_blank (lines ! (idx - 1))
         then fix_loop lines (Suc idx) fixed_lines
         else fix_loop lines (Suc idx) (fixed_lines @ [lines ! idx]))
      else fixed_lines)"
  by pat_completeness auto
termination
  by (relation "measure (\<lambda>(lines, idx, _). length lines - idx)") auto

declare fix_loop.simps [simp del]

definition fix_lines :: "string list \<Rightarrow> string list result" where
  "fix_lines lines =
     (case lines of [] \<Rightarrow> Inl IndexError | l0 # _ \<Rightarrow> Inr (fix_loop lines 1 [l0]))"

definition clean_text :: "string \<Rightarrow> string result" where
  "clean_text s =
     ebind (fix_lines (py_split CHR ''\<newline>'' s)) (\<lambda>fixed. Inr (py_join ''\<newline>'' fixed))"

definition clean_documents :: "'a document_scheme list \<Rightarrow> 'a document_scheme list result" where
  "clean_documents documents =
     (case documents of
        [] \<Rightarrow> Inl IndexError
      | d # ds \<Rightarrow> ebind (clean_text (doc_text d)) (\<lambda>t. Inr (d\<lparr>doc_text := t\<rparr> # ds)))"

text \<open>The reference: a line is dropped exactly when it and the line before it are blank.\<close>

fun collapse_blank_runs :: "string \<Rightarrow> string list \<Rightarrow> string list" where
  "collapse_blank_runs prev [] = []"
| "collapse_blank_runs prev (x # xs) =
     (if is_blank x \<and> is_blank prev then [] else [x]) @ collapse_blank_runs x xs"

definition no_blank_pair :: "string \<Rightarrow> string \<Rightarrow> bool" where
  "no_blank_pair a b \<longleftrightarrow> \<not> (is_blank a \<and> is_blank b)"

lemmas cleanup_simps [model_simps] =
  is_blank_def fix_loop.simps fix_lines_def clean_text_def clean_documents_def

subsection \<open>The loop against the reference\<close>

lemma fix_loop_collapse:
  "0 < idx \<Longrightarrow> idx \<le> length lines \<Longrightarrow>
   fix_loop lines idx acc = acc @ collapse_blank_runs (lines ! (idx - 1)) (drop idx lines)"
proof (induction lines idx acc rule: fix_loop.induct)
  case (1 lines idx acc)
  show ?case
  proof (cases "idx < length lines")
    case True
    then have drop: "drop idx lines = lines ! idx # drop (Suc idx) lines"
      by (simp add: Cons_nth_drop_Suc)
    show ?thesis
    proof (cases "is_blank (lines ! idx) \<and> is_blank (lines ! (idx - 1))")
      case skip: True
      with True "1.IH"(1) show ?thesis
        by (simp add: fix_loop.simps [of lines idx] drop)
    next
      case keep: False
      with True "1.IH"(2) show ?thesis
        by (auto simp add: fix_loop.simps [of lines idx] drop)
    qed
  next
    case False
    with "1.prems" show ?thesis
      by (subst fix_loop.simps) simp
  qed
qed

lemma fix_lines_Cons: "fix_lines (l # ls) = Inr (l # collapse_blank_runs l ls)"
  by (simp add: fix_lines_def fix_loop_collapse)

subsection \<open>Properties of the reference\<close>

lemma collapse_subseq: "subseq (collapse_blank_runs p xs) xs"
  by (induction p xs rule: collapse_blank_runs.induct) auto

lemma collapse_keeps_nonblank:
  "filter (\<lambda>s. \<not> is_blank s) (collapse_blank_runs p xs) = filter (\<lambda>s. \<not> is_blank s) xs"
  by (induction p xs rule: collapse_blank_runs.induct) auto

lemma collapse_no_blank_pair:
  "successively no_blank_pair (p # collapse_blank_runs p xs)"
proof (induction p xs rule: collapse_blank_runs.induct)
  case (1 prev)
  then show ?case by simp
next
  case (2 prev x xs)
  then show ?case
    by (cases "collapse_blank_runs x xs") (auto simp: no_blank_pair_def successively_Cons)
qed

lemma collapse_no_pair_id:
  "successively no_blank_pair (p # xs) \<Longrightarrow> collapse_blank_runs p xs = xs"
  by (induction p xs rule: collapse_blank_runs.induct)
    (auto simp: no_blank_pair_def successively_Cons)

subsection \<open>The cleaned text, split again\<close>

lemma collapse_set: "set (collapse_blank_runs p xs) \<subseteq> set xs"
  by (induction p xs rule: collapse_blank_runs.induct) auto

lemma clean_text_lines:
  assumes "clean_text s = Inr t"
  shows "\<exists>l ls. py_split CHR ''\<newline>'' s = l # ls \<and>
           py_split CHR ''\<newline>'' t = l # collapse_blank_runs l ls"
proof -
  obtain l ls where split: "py_split CHR ''\<newline>'' s = l # ls"
    by (cases "py_split CHR ''\<newline>'' s") auto
  with assms have t: "t = py_join ''\<newline>'' (l # collapse_blank_runs l ls)"
    by (simp add: clean_text_def fix_lines_Cons)
  have "\<forall>x\<in>set (py_split CHR ''\<newline>'' s). CHR ''\<newline>'' \<notin> set x"
    using py_split_no_sep by blast
  with split collapse_set [of l ls]
  have "\<forall>x\<in>set (l # collapse_blank_runs l ls). CHR ''\<newline>'' \<notin> set x"
    by auto
  then have "py_split CHR ''\<newline>'' t = l # collapse_blank_runs l ls"
    unfolding t by (simp add: py_split_join)
  with split show ?thesis by blast
qed

lemma clean_text_Inr: "\<exists>t. clean_text s = Inr t"
proof (cases "py_split CHR ''\<newline>'' s")
  case Nil
  then show ?thesis by simp
next
  case (Cons l ls)
  then show ?thesis by (simp add: clean_text_def fix_lines_Cons)
qed

subsection \<open>Properties of the clean-up cell\<close>

text \<open>C3: The index loop of the cell computes the structural reference: for a
  non-empty list of lines it keeps the first line and then drops exactly the blank
  lines whose predecessor is blank; on an empty list the read of \<open>lines[0]\<close>
  raises \<open>IndexError\<close>.\<close>

theorem fix_lines_refines_collapse:
  "fix_lines lines =
     (case lines of [] \<Rightarrow> Inl IndexError | l # ls \<Rightarrow> Inr (l # collapse_blank_runs l ls))"
  by (cases lines) (simp add: fix_lines_def, simp add: fix_lines_Cons)


text \<open>C7: After the clean-up the document's text contains no two consecutive blank
  lines.\<close>

theorem clean_text_no_blank_run:
  assumes "clean_text s = Inr t"
  shows "successively no_blank_pair (py_split CHR ''\<newline>'' t)"
proof -
  from clean_text_lines [OF assms] obtain l ls where
    "py_split CHR ''\<newline>'' t = l # collapse_blank_runs l ls" by blast
  then show ?thesis using collapse_no_blank_pair [of l ls] by simp
qed

theorem clean_text_no_blank_run_witness:
  "clean_text ''a\<newline>\<newline>\<newline> \<newline>b'' = Inr ''a\<newline>\<newline>b'' \<and>
   successively no_blank_pair (py_split CHR ''\<newline>'' ''a\<newline>\<newline>b'')"
proof -
  have h: "clean_text ''a\<newline>\<newline>\<newline> \<newline>b'' = Inr ''a\<newline>\<newline>b''"
    by (simp add: model_simps)
  show ?thesis using h clean_text_no_blank_run [OF h] by simp
qed

text \<open>C15: The clean-up only removes blank lines: the non-blank lines of the text
  are kept, in order, and the cleaned lines are a subsequence of the original ones.\<close>

theorem clean_text_keeps_content:
  assumes "clean_text s = Inr t"
  shows "filter (\<lambda>l. \<not> is_blank l) (py_split CHR ''\<newline>'' t) =
           filter (\<lambda>l. \<not> is_blank l) (py_split CHR ''\<newline>'' s)
         \<and> subseq (py_split CHR ''\<newline>'' t) (py_split CHR ''\<newline>'' s)"
proof -
  from clean_text_lines [OF assms] obtain l ls where
    s: "py_split CHR ''\<newline>'' s = l # ls" and
    t: "py_split CHR ''\<newline>'' t = l # collapse_blank_runs l ls" by blast
  show ?thesis
    unfolding s t using collapse_keeps_nonblank [of l ls] collapse_subseq [of l ls] by simp
qed

theorem clean_text_keeps_content_witness:
  "clean_text ''x\<newline> \<newline>\<newline>y'' = Inr ''x\<newline> \<newline>y'' \<and>
   filter (\<lambda>l. \<not> is_blank l) (py_split CHR ''\<newline>'' ''x\<newline> \<newline>y'') =
     filter (\<lambda>l. \<not> is_blank l) (py_split CHR ''\<newline>'' ''x\<newline> \<newline>\<newline>y'')
   \<and> subseq (py_split CHR ''\<newline>'' ''x\<newline> \<newline>y'') (py_split CHR ''\<newline>'' ''x\<newline> \<newline>\<newline>y'')"
proof -
  have h: "clean_text ''x\<newline> \<newline>\<newline>y'' = Inr ''x\<newline> \<newline>y''"
    by (simp add: model_simps)
  show ?thesis using h clean_text_keeps_content [OF h] by blast
qed

text \<open>C22: The clean-up is idempotent: running the cell a second time on its own
  output leaves the text unchanged.\<close>

theorem clean_text_idempotent:
  assumes "clean_text s = Inr t"
  shows "clean_text t = Inr t"
proof -
  from clean_text_lines [OF assms] obtain l ls where
    t: "py_split CHR ''\<newline>'' t = l # collapse_blank_runs l ls" by blast
  have "collapse_blank_runs l (collapse_blank_runs l ls) = collapse_blank_runs l ls"
    using collapse_no_blank_pair collapse_no_pair_id by blast
  then have "clean_text t = Inr (py_join ''\<newline>'' (py_split CHR ''\<newline>'' t))"
    by (simp add: clean_text_def t fix_lines_Cons)
  also have "py_join ''\<newline>'' (py_split CHR ''\<newline>'' t) = t"
    using py_join_split_acc [of "CHR ''\<newline>''" "[]" t] by (simp add: py_split_def)
  finally show ?thesis .
qed

theorem clean_text_idempotent_witness:
  "clean_text '' \<newline>\<newline>q\<newline>\<newline>'' = Inr '' \<newline>q\<newline>'' \<and>
   clean_text '' \<newline>q\<newline>'' = Inr '' \<newline>q\<newline>''"
proof -
  have h: "clean_text '' \<newline>\<newline>q\<newline>\<newline>'' = Inr '' \<newline>q\<newline>''"
    by (simp add: model_simps)
  show ?thesis using h clean_text_idempotent [OF h] by simp
qed

text \<open>C26: The cell raises exactly when the reader returned no document
  (\<open>documents[0]\<close>); the \<open>lines[0]\<close> read never raises, since
  \<open>str.split\<close> never returns an empty list.\<close>

theorem clean_documents_error:
  "clean_documents ds = Inl e \<longleftrightarrow> ds = [] \<and> e = IndexError"
proof (cases ds)
  case Nil
  then show ?thesis by (auto simp: clean_documents_def)
next
  case (Cons d ds')
  obtain t where "clean_text (doc_text d) = Inr t" using clean_text_Inr by blast
  with Cons show ?thesis by (simp add: clean_documents_def)
qed

end
