(* ===== verification/Pipeline.thy ===== *)
theory Pipeline
  imports Prelude "HOL-Library.Multiset"
begin

text \<open>
  The query-pipeline core the notebook drives (\<open>QueryPipeline\<close> of the library, not
  under \<open>src/\<close>; modelled from the spec, sections 3, 4.1 to 4.4 and 7):
  \<^item> a module (the spec's unit) declares its required, optional and output keys and
    has a behaviour from its keyword inputs to its outputs, which may fail;
  \<^item> the pipeline holds the modules by name in registration order (\<open>register\<close>,
    \<open>DuplicateNameError\<close>; \<open>get\<close>, \<open>NotFoundError\<close>) and the links
    (\<open>add_link\<close>: \<open>UnknownUnitError\<close>, \<open>DuplicateDestinationError\<close>); a link
    without a key uses the module's single output, or single required input, key
    (\<open>ValueError\<close> when there is not exactly one);
  \<^item> \<open>validate\<close> orders the modules topologically, ties broken by registration
    order (\<open>CycleError\<close> naming the modules that could not be scheduled), then checks
    that every required input is fed by a link or by an initial input
    (\<open>UnsatisfiedInputError\<close>);
  \<^item> \<open>run\<close> validates, then runs the modules in that order: it gathers each
    module's inputs (\<open>MissingInputError\<close>), calls it (any failure aborts the run), and
    copies each output along the links leaving it; the result is the outputs of the
    modules no link leaves.
  Values are of any type \<open>'v\<close>; initial inputs are keyed by (module, input key).
\<close>

record 'v module =
  m_required :: "string list"
  m_optional :: "string list"
  m_outputs :: "string list"
  m_run :: "(string \<times> 'v) list \<Rightarrow> (string \<times> 'v) list result"

record link =
  src :: string
  src_key :: string
  dst :: string
  dst_key :: string

record 'v pipeline =
  modules :: "(string \<times> 'v module) list"
  links :: "link list"

type_synonym 'v exec_ctx = "((string \<times> string) \<times> 'v) list"

definition empty_pipeline :: "'v pipeline" where
  "empty_pipeline = \<lparr>modules = [], links = []\<rparr>"

definition names :: "'v pipeline \<Rightarrow> string list" where
  "names p = map fst (modules p)"

subsection \<open>Registry and link table\<close>

definition register :: "'v pipeline \<Rightarrow> string \<Rightarrow> 'v module \<Rightarrow> 'v pipeline result" where
  "register p n m =
     (if n \<in> set (names p) then Inl (DuplicateNameError n)
      else Inr (p\<lparr>modules := modules p @ [(n, m)]\<rparr>))"

definition get :: "'v pipeline \<Rightarrow> string \<Rightarrow> 'v module result" where
  "get p n = (case map_of (modules p) n of None \<Rightarrow> Inl (NotFoundError n) | Some m \<Rightarrow> Inr m)"

fun register_all :: "'v pipeline \<Rightarrow> (string \<times> 'v module) list \<Rightarrow> 'v pipeline result" where
  "register_all p [] = Inr p"
| "register_all p ((n, m) # ms) = ebind (register p n m) (\<lambda>p'. register_all p' ms)"

definition resolve_key :: "string list \<Rightarrow> string option \<Rightarrow> string result" where
  "resolve_key keys k =
     (case k of
        Some key \<Rightarrow> Inr key
      | None \<Rightarrow> (case keys of [key] \<Rightarrow> Inr key | _ \<Rightarrow> Inl (ValueError ''key must be given'')))"

definition add_link ::
  "'v pipeline \<Rightarrow> string \<Rightarrow> string \<Rightarrow> string option \<Rightarrow> string option \<Rightarrow> 'v pipeline result" where
  "add_link p s d sk dk =
     (case (map_of (modules p) s, map_of (modules p) d) of
        (None, _) \<Rightarrow> Inl (UnknownUnitError s)
      | (_, None) \<Rightarrow> Inl (UnknownUnitError d)
      | (Some ms, Some md) \<Rightarrow>
          ebind (resolve_key (m_outputs ms) sk) (\<lambda>k1.
          ebind (resolve_key (m_required md) dk) (\<lambda>k2.
            if list_ex (\<lambda>l. dst l = d \<and> dst_key l = k2) (links p)
            then Inl (DuplicateDestinationError d k2)
            else Inr (p\<lparr>links := links p @ [\<lparr>src = s, src_key = k1, dst = d, dst_key = k2\<rparr>]\<rparr>))))"

subsection \<open>Validation\<close>

definition edges :: "'v pipeline \<Rightarrow> (string \<times> string) list" where
  "edges p = map (\<lambda>l. (src l, dst l)) (links p)"

definition ready :: "(string \<times> string) list \<Rightarrow> string list \<Rightarrow> string \<Rightarrow> bool" where
  "ready E rem n \<longleftrightarrow> \<not> list_ex (\<lambda>(a, b). b = n \<and> a \<in> set rem) E"

function topo :: "(string \<times> string) list \<Rightarrow> string list \<Rightarrow> string list \<Rightarrow> string list result" where
  "topo E rem acc =
     (if rem = [] then Inr acc
      else (case find (ready E rem) rem of
              None \<Rightarrow> Inl (CycleError rem)
            | Some n \<Rightarrow> topo E (remove1 n rem) (acc @ [n])))"
  by pat_completeness auto
termination
proof (relation "measure (\<lambda>(E, rem, acc). length rem)")
  fix E rem acc n
  assume "find (ready E rem) rem = Some n"
  then have "n \<in> set rem" by (auto simp: find_Some_iff)
  then show "((E, remove1 n rem, acc @ [n]), E, rem, acc) \<in> measure (\<lambda>(E, rem, acc). length rem)"
    by (simp add: length_remove1) (metis One_nat_def Suc_pred length_pos_if_in_set lessI)
qed simp

declare topo.simps [simp del]

definition covered :: "'v pipeline \<Rightarrow> (string \<times> string) list \<Rightarrow> string \<Rightarrow> string \<Rightarrow> bool" where
  "covered p init n k \<longleftrightarrow>
     list_ex (\<lambda>l. dst l = n \<and> dst_key l = k) (links p) \<or> (n, k) \<in> set init"

fun first_uncovered :: "'v pipeline \<Rightarrow> (string \<times> string) list \<Rightarrow> (string \<times> 'v module) list
                          \<Rightarrow> (string \<times> string) option" where
  "first_uncovered p init [] = None"
| "first_uncovered p init ((n, m) # ms) =
     (case find (\<lambda>k. \<not> covered p init n k) (m_required m) of
        Some k \<Rightarrow> Some (n, k)
      | None \<Rightarrow> first_uncovered p init ms)"

definition validate :: "'v pipeline \<Rightarrow> (string \<times> string) list \<Rightarrow> string list result" where
  "validate p init =
     ebind (topo (edges p) (names p) []) (\<lambda>order.
       case first_uncovered p init (modules p) of
         Some (n, k) \<Rightarrow> Inl (UnsatisfiedInputError n k)
       | None \<Rightarrow> Inr order)"

subsection \<open>Execution\<close>

definition lookup_input :: "'v exec_ctx \<Rightarrow> 'v exec_ctx \<Rightarrow> string \<Rightarrow> string \<Rightarrow> 'v option" where
  "lookup_input ctx init n k =
     (case map_of ctx (n, k) of Some v \<Rightarrow> Some v | None \<Rightarrow> map_of init (n, k))"

fun gather_required :: "'v exec_ctx \<Rightarrow> 'v exec_ctx \<Rightarrow> string \<Rightarrow> string list \<Rightarrow> (string \<times> 'v) list result" where
  "gather_required ctx init n [] = Inr []"
| "gather_required ctx init n (k # ks) =
     (case lookup_input ctx init n k of
        None \<Rightarrow> Inl (MissingInputError n k)
      | Some v \<Rightarrow> ebind (gather_required ctx init n ks) (\<lambda>rest. Inr ((k, v) # rest)))"

definition gather_optional :: "'v exec_ctx \<Rightarrow> 'v exec_ctx \<Rightarrow> string \<Rightarrow> string list \<Rightarrow> (string \<times> 'v) list" where
  "gather_optional ctx init n ks =
     concat (map (\<lambda>k. case lookup_input ctx init n k of None \<Rightarrow> [] | Some v \<Rightarrow> [(k, v)]) ks)"

definition gather :: "'v exec_ctx \<Rightarrow> 'v exec_ctx \<Rightarrow> string \<Rightarrow> 'v module \<Rightarrow> (string \<times> 'v) list result" where
  "gather ctx init n m =
     ebind (gather_required ctx init n (m_required m)) (\<lambda>req.
       Inr (req @ gather_optional ctx init n (m_optional m)))"

definition propagate :: "link list \<Rightarrow> string \<Rightarrow> (string \<times> 'v) list \<Rightarrow> 'v exec_ctx \<Rightarrow> 'v exec_ctx" where
  "propagate ls n outs ctx =
     concat (map (\<lambda>l. if src l = n then
                        (case map_of outs (src_key l) of None \<Rightarrow> [] | Some v \<Rightarrow> [((dst l, dst_key l), v)])
                      else []) ls) @ ctx"

fun exec_order :: "'v pipeline \<Rightarrow> 'v exec_ctx \<Rightarrow> string list \<Rightarrow> 'v exec_ctx
                     \<Rightarrow> (string \<times> (string \<times> 'v) list) list
                     \<Rightarrow> (string \<times> (string \<times> 'v) list) list result" where
  "exec_order p init [] ctx res = Inr res"
| "exec_order p init (n # ns) ctx res =
     ebind (get p n) (\<lambda>m.
     ebind (gather ctx init n m) (\<lambda>inputs.
     ebind (m_run m inputs) (\<lambda>outs.
       exec_order p init ns (propagate (links p) n outs ctx) (res @ [(n, outs)]))))"

definition is_leaf :: "'v pipeline \<Rightarrow> string \<Rightarrow> bool" where
  "is_leaf p n \<longleftrightarrow> \<not> list_ex (\<lambda>l. src l = n) (links p)"

definition run :: "'v pipeline \<Rightarrow> 'v exec_ctx \<Rightarrow> (string \<times> (string \<times> 'v) list) list result" where
  "run p init =
     ebind (validate p (map fst init)) (\<lambda>order.
     ebind (exec_order p init order [] []) (\<lambda>res.
       Inr (filter (\<lambda>(n, _). is_leaf p n) res)))"

subsection \<open>Orders, invariant, build steps\<close>

text \<open>\<open>precedes xs a b\<close>: \<open>a\<close> comes strictly before \<open>b\<close> in \<open>xs\<close>.
  \<open>topo_sorted E xs\<close>: no element of \<open>xs\<close> has an edge from itself or from a later
  element. \<open>links_registered\<close> is the link table's invariant: module names are
  distinct, every link joins registered modules, and no input slot has two producers.
  \<open>built\<close> is the set of pipelines a program can build by \<open>register\<close> and
  \<open>add_link\<close> calls.\<close>

definition precedes :: "'a list \<Rightarrow> 'a \<Rightarrow> 'a \<Rightarrow> bool" where
  "precedes xs a b \<longleftrightarrow> (\<exists>i j. i < j \<and> j < length xs \<and> xs ! i = a \<and> xs ! j = b)"

definition topo_sorted :: "('a \<times> 'a) list \<Rightarrow> 'a list \<Rightarrow> bool" where
  "topo_sorted E xs \<longleftrightarrow> sorted_wrt (\<lambda>a b. (b, a) \<notin> set E) xs \<and> (\<forall>x\<in>set xs. (x, x) \<notin> set E)"

definition links_registered :: "'v pipeline \<Rightarrow> bool" where
  "links_registered p \<longleftrightarrow>
     distinct (names p) \<and>
     (\<forall>l\<in>set (links p). src l \<in> set (names p) \<and> dst l \<in> set (names p)) \<and>
     distinct (map (\<lambda>l. (dst l, dst_key l)) (links p))"

inductive built :: "'v pipeline \<Rightarrow> bool" where
  empty: "built empty_pipeline"
| reg: "built p \<Longrightarrow> register p n m = Inr p' \<Longrightarrow> built p'"
| link: "built p \<Longrightarrow> add_link p s d sk dk = Inr p' \<Longrightarrow> built p'"

fun add_links :: "'v pipeline \<Rightarrow> (string \<times> string \<times> string option \<times> string option) list
                   \<Rightarrow> 'v pipeline result" where
  "add_links p [] = Inr p"
| "add_links p ((s, d, sk, dk) # ls) = ebind (add_link p s d sk dk) (\<lambda>p'. add_links p' ls)"

lemmas pipeline_simps [model_simps] =
  empty_pipeline_def names_def register_def get_def resolve_key_def add_link_def
  edges_def ready_def topo.simps covered_def validate_def lookup_input_def gather_optional_def
  gather_def propagate_def is_leaf_def run_def

subsection \<open>Validation: order, coverage, cycles\<close>

lemma find_ready: "find (ready E rem) rem = Some n \<Longrightarrow> n \<in> set rem \<and> (\<forall>a. (a, n) \<in> set E \<longrightarrow> a \<notin> set rem)"
  by (auto simp: find_Some_iff ready_def list_ex_iff in_set_conv_nth)

lemma topo_Inr:
  "topo E rem acc = Inr order \<Longrightarrow>
   \<exists>os. order = acc @ os \<and> mset os = mset rem \<and> topo_sorted E os"
proof (induction E rem acc arbitrary: order rule: topo.induct)
  case (1 E rem acc)
  show ?case
  proof (cases "rem = []")
    case True
    with "1.prems" show ?thesis by (simp add: topo.simps topo_sorted_def)
  next
    case False
    then obtain n where n: "find (ready E rem) rem = Some n"
      using "1.prems" by (cases "find (ready E rem) rem") (auto simp: topo.simps)
    with False "1.prems" have rec: "topo E (remove1 n rem) (acc @ [n]) = Inr order"
      by (simp add: topo.simps)
    from "1.IH" [OF False n rec] obtain os where
      os: "order = (acc @ [n]) @ os" "mset os = mset (remove1 n rem)" "topo_sorted E os" by blast
    from find_ready [OF n] have nin: "n \<in> set rem" and rdy: "\<And>a. (a, n) \<in> set E \<Longrightarrow> a \<notin> set rem"
      by auto
    have "set os \<subseteq> set rem"
      using os(2) by (metis set_mset_mset set_remove1_subset)
    then have "topo_sorted E (n # os)"
      using os(3) rdy nin by (auto simp: topo_sorted_def)
    moreover have "mset (n # os) = mset rem"
      using os(2) nin by simp
    ultimately show ?thesis using os(1) by (intro exI [of _ "n # os"]) simp
  qed
qed

lemma topo_Inl:
  "topo E rem acc = Inl e \<Longrightarrow>
   \<exists>S. e = CycleError S \<and> S \<noteq> [] \<and> set S \<subseteq> set rem \<and> (\<forall>n\<in>set S. \<exists>a\<in>set S. (a, n) \<in> set E)"
proof (induction E rem acc rule: topo.induct)
  case (1 E rem acc)
  show ?case
  proof (cases "rem = []")
    case True
    with "1.prems" show ?thesis by (simp add: topo.simps)
  next
    case False
    show ?thesis
    proof (cases "find (ready E rem) rem")
      case None
      with False "1.prems" have "e = CycleError rem" by (simp add: topo.simps)
      moreover have "\<forall>n\<in>set rem. \<exists>a\<in>set rem. (a, n) \<in> set E"
        using None by (auto simp: find_None_iff ready_def list_ex_iff)
      ultimately show ?thesis using False by blast
    next
      case (Some n)
      with False "1.prems" have "topo E (remove1 n rem) (acc @ [n]) = Inl e"
        by (simp add: topo.simps)
      from "1.IH" [OF False Some this] show ?thesis
        using set_remove1_subset [of n rem] by blast
    qed
  qed
qed

lemma topo_sorted_precedes:
  assumes "topo_sorted E xs" "(a, b) \<in> set E" "a \<in> set xs" "b \<in> set xs"
  shows "precedes xs a b"
proof -
  obtain i j where i: "i < length xs" "xs ! i = a" and j: "j < length xs" "xs ! j = b"
    using assms(3,4) by (metis in_set_conv_nth)
  have "\<not> j < i"
  proof
    assume "j < i"
    with assms(1) i j have "(xs ! i, xs ! j) \<notin> set E"
      by (auto simp: topo_sorted_def sorted_wrt_iff_nth_less)
    with assms(2) i j show False by simp
  qed
  moreover have "i \<noteq> j"
    using assms(1,2) i j by (auto simp: topo_sorted_def)
  ultimately have "i < j" by simp
  with i j show ?thesis by (auto simp: precedes_def)
qed

lemma stuck_has_cycle:
  assumes "finite S" "S \<noteq> {}" "\<forall>n\<in>S. \<exists>a\<in>S. (a, n) \<in> R"
  shows "\<exists>x\<in>S. (x, x) \<in> (R \<inter> S \<times> S)\<^sup>+"
proof (rule ccontr)
  let ?R = "R \<inter> S \<times> S"
  assume "\<not> ?thesis"
  then have "acyclic ?R"
    by (auto simp: acyclic_def dest: tranclD)
  moreover have "finite ?R" using assms(1) by (simp add: finite_Int)
  ultimately have "wf ?R" using finite_acyclic_wf by blast
  then obtain x where "x \<in> S" "\<And>y. (y, x) \<in> ?R \<Longrightarrow> y \<notin> S"
    using wfE_min' [of ?R S] assms(2) by blast
  with assms(3) show False by blast
qed
lemma topo_sorted_Cons_trancl:
  assumes "topo_sorted E (x # ys)" "(a, b) \<in> (Restr (set E) (set (x # ys)))\<^sup>+"
  shows "b \<noteq> x \<and> (a \<noteq> x \<longrightarrow> (a, b) \<in> (Restr (set E) (set ys))\<^sup>+)"
  using assms(2)
proof (induction rule: trancl_induct)
  case (base b)
  with assms(1) show ?case by (auto simp: topo_sorted_def)
next
  case (step c b)
  with assms(1) show ?case
    by (auto simp: topo_sorted_def intro: trancl_into_trancl)
qed

lemma topo_sorted_acyclic: "topo_sorted E xs \<Longrightarrow> (x, x) \<notin> (Restr (set E) (set xs))\<^sup>+"
proof (induction xs arbitrary: x)
  case Nil
  then show ?case by simp
next
  case (Cons y ys)
  have "topo_sorted E ys" using Cons.prems by (simp add: topo_sorted_def)
  with Cons.IH have "(x, x) \<notin> (Restr (set E) (set ys))\<^sup>+" .
  with topo_sorted_Cons_trancl [OF Cons.prems, of x x] show ?case by blast
qed

lemma first_uncovered_None:
  "first_uncovered p init ms = None \<Longrightarrow> (n, m) \<in> set ms \<Longrightarrow> k \<in> set (m_required m) \<Longrightarrow> covered p init n k"
  by (induction p init ms rule: first_uncovered.induct) (auto simp: find_None_iff split: option.splits)

lemma validate_Inr:
  assumes "validate p init = Inr order"
  shows "mset order = mset (names p) \<and> topo_sorted (edges p) order \<and>
         (\<forall>(n, m)\<in>set (modules p). \<forall>k\<in>set (m_required m). covered p init n k)"
proof -
  from assms have t: "topo (edges p) (names p) [] = Inr order"
    and u: "first_uncovered p init (modules p) = None"
    by (cases "topo (edges p) (names p) []"; cases "first_uncovered p init (modules p)";
        auto simp: validate_def)+
  from topo_Inr [OF t] have "mset order = mset (names p) \<and> topo_sorted (edges p) order" by auto
  with first_uncovered_None [OF u] show ?thesis by blast
qed

lemma validate_Inl_topo:
  "validate p init = Inl e \<Longrightarrow> topo (edges p) (names p) [] = Inl e \<or>
     (\<exists>n k. e = UnsatisfiedInputError n k)"
  by (auto simp: validate_def ebind_eq_Inl_iff split: option.splits)

lemma validate_cycle_iff:
  "(\<exists>S. validate p init = Inl (CycleError S)) \<longleftrightarrow>
   (\<exists>x. (x, x) \<in> (Restr (set (edges p)) (set (names p)))\<^sup>+)"
proof
  assume "\<exists>S. validate p init = Inl (CycleError S)"
  then obtain S where "validate p init = Inl (CycleError S)" by blast
  then have "topo (edges p) (names p) [] = Inl (CycleError S)"
    using validate_Inl_topo by fastforce
  from topo_Inl [OF this] have "S \<noteq> []" "set S \<subseteq> set (names p)"
    "\<forall>n\<in>set S. \<exists>a\<in>set S. (a, n) \<in> set (edges p)" by auto
  then have "\<exists>x\<in>set S. (x, x) \<in> (set (edges p) \<inter> set S \<times> set S)\<^sup>+"
    by (intro stuck_has_cycle) auto
  moreover have "set (edges p) \<inter> set S \<times> set S \<subseteq> Restr (set (edges p)) (set (names p))"
    using \<open>set S \<subseteq> set (names p)\<close> by auto
  ultimately show "\<exists>x. (x, x) \<in> (Restr (set (edges p)) (set (names p)))\<^sup>+"
    using trancl_mono by blast
next
  assume "\<exists>x. (x, x) \<in> (Restr (set (edges p)) (set (names p)))\<^sup>+"
  then obtain x where cyc: "(x, x) \<in> (Restr (set (edges p)) (set (names p)))\<^sup>+" by blast
  show "\<exists>S. validate p init = Inl (CycleError S)"
  proof (cases "topo (edges p) (names p) []")
    case (Inl e)
    with topo_Inl show ?thesis by (fastforce simp: validate_def)
  next
    case (Inr order)
    from topo_Inr [OF Inr] have "set order = set (names p)" "topo_sorted (edges p) order"
      by (auto dest: mset_eq_setD)
    with topo_sorted_acyclic [of "edges p" order x] cyc show ?thesis by simp
  qed
qed

subsection \<open>The link table's invariant\<close>

lemma names_links_update [simp]: "names (p\<lparr>links := ls\<rparr>) = names p"
  by (simp add: names_def)

lemma map_of_Some_names: "map_of (modules p) n = Some m \<Longrightarrow> n \<in> set (names p)"
  by (force simp: names_def dest: map_of_SomeD)

lemma register_links_registered:
  "register p n m = Inr p' \<Longrightarrow> links_registered p \<Longrightarrow> links_registered p'"
  by (auto simp: register_def links_registered_def names_def split: if_splits)

lemma add_link_Inr:
  "add_link p s d sk dk = Inr p' \<Longrightarrow>
   \<exists>k1 k2. s \<in> set (names p) \<and> d \<in> set (names p) \<and>
     \<not> list_ex (\<lambda>l. dst l = d \<and> dst_key l = k2) (links p) \<and>
     p' = p\<lparr>links := links p @ [\<lparr>src = s, src_key = k1, dst = d, dst_key = k2\<rparr>]\<rparr>"
  by (auto simp: add_link_def ebind_eq_Inr_iff map_of_Some_names split: option.splits if_splits)

lemma add_link_links_registered:
  "add_link p s d sk dk = Inr p' \<Longrightarrow> links_registered p \<Longrightarrow> links_registered p'"
  by (drule add_link_Inr) (auto simp: links_registered_def list_ex_iff)

lemma built_links_registered: "built p \<Longrightarrow> links_registered p"
proof (induction rule: built.induct)
  case empty
  then show ?case by (simp add: links_registered_def empty_pipeline_def names_def)
next
  case (reg p n m p')
  then show ?case by (blast intro: register_links_registered)
next
  case (link p s d sk dk p')
  then show ?case by (blast intro: add_link_links_registered)
qed

lemma register_all_built: "built p \<Longrightarrow> register_all p ms = Inr p' \<Longrightarrow> built p'"
  by (induction p ms rule: register_all.induct) (auto simp: ebind_eq_Inr_iff intro: built.reg)

lemma add_links_built: "built p \<Longrightarrow> add_links p ls = Inr p' \<Longrightarrow> built p'"
  by (induction p ls rule: add_links.induct) (auto simp: ebind_eq_Inr_iff intro: built.link)

end
