(* ===== verification/Templates.thy ===== *)
theory Templates
  imports Py_Str
begin

text \<open>
  The notebook's two prompt texts and the formatting that fills them: the
  \<open>rewrite\<close> prompt wrapped in a \<open>PromptTemplate\<close> (the pipeline's
  \<open>rewrite_template\<close> module) and \<open>DEFAULT_CONTEXT_PROMPT\<close>, the default
  \<open>context_prompt\<close> of \<open>ResponseWithChatHistory\<close>. Both are filled by Python's
  \<open>str.format\<close>, which is modelled here for named fields: the template is parsed into
  literal pieces and fields (\<open>{{\<close> and \<open>}}\<close> are escaped braces, a lone
  \<open>}\<close>, a \<open>{\<close> inside a field and an unclosed field raise \<open>ValueError\<close>,
  a field that is empty (\<open>{}\<close>) or all digits (\<open>{0}\<close>) asks for a positional
  argument, of which the keyword-only call has none, and raises \<open>IndexError\<close>,
  a missing keyword raises \<open>KeyError\<close>), then the fields are replaced by the
  keyword arguments' text, which is inserted as it is and never parsed again.
  Format specifications and attribute access in fields (\<open>{x:>4}\<close>, \<open>{x.y}\<close>)
  are not used by the notebook and are part of the field's name here.
\<close>

datatype fmt_piece = PLit string | PField string

definition lit_pieces :: "string \<Rightarrow> fmt_piece list" where
  "lit_pieces s = (if s = [] then [] else [PLit s])"

fun fmt_lit :: "string \<Rightarrow> string \<Rightarrow> fmt_piece list result"
and fmt_field :: "string \<Rightarrow> string \<Rightarrow> fmt_piece list result" where
  "fmt_lit acc [] = Inr (lit_pieces (rev acc))"
| "fmt_lit acc (c # cs) =
     (if c = CHR ''{'' then
        (if cs = [] then Inl (ValueError ''Single { encountered in format string'')
         else if hd cs = CHR ''{'' then fmt_lit (c # acc) (tl cs)
         else ebind (fmt_field [] cs) (\<lambda>ps. Inr (lit_pieces (rev acc) @ ps)))
      else if c = CHR ''}'' then
        (if cs \<noteq> [] \<and> hd cs = CHR ''}'' then fmt_lit (c # acc) (tl cs)
         else Inl (ValueError ''Single } encountered in format string''))
      else fmt_lit (c # acc) cs)"
| "fmt_field name [] = Inl (ValueError ''expected } before end of string'')"
| "fmt_field name (c # cs) =
     (if c = CHR ''}'' then ebind (fmt_lit [] cs) (\<lambda>ps. Inr (PField (rev name) # ps))
      else if c = CHR ''{'' then Inl (ValueError ''unexpected { in field name'')
      else fmt_field (c # name) cs)"

definition parse_format :: "string \<Rightarrow> fmt_piece list result" where
  "parse_format s = fmt_lit [] s"

definition positional_field :: "string \<Rightarrow> bool" where
  "positional_field k \<longleftrightarrow> list_all (\<lambda>c. 48 \<le> (of_char c :: nat) \<and> (of_char c :: nat) \<le> 57) k"

fun render :: "fmt_piece list \<Rightarrow> (string \<times> string) list \<Rightarrow> string result" where
  "render [] kw = Inr []"
| "render (PLit s # ps) kw = ebind (render ps kw) (\<lambda>r. Inr (s @ r))"
| "render (PField k # ps) kw =
     (if positional_field k then Inl IndexError
      else ebind (py_getitem kw k) (\<lambda>v. ebind (render ps kw) (\<lambda>r. Inr (v @ r))))"

definition py_format :: "string \<Rightarrow> (string \<times> string) list \<Rightarrow> string result" where
  "py_format tmpl kw = ebind (parse_format tmpl) (\<lambda>ps. render ps kw)"

definition template_vars :: "fmt_piece list \<Rightarrow> string list" where
  "template_vars ps = concat (map (\<lambda>p. case p of PField k \<Rightarrow> [k] | PLit _ \<Rightarrow> []) ps)"

subsection \<open>The notebook's templates\<close>

record prompt_template =
  tmpl :: string

definition prompt_format :: "prompt_template \<Rightarrow> (string \<times> string) list \<Rightarrow> string result" where
  "prompt_format t kw = py_format (tmpl t) kw"

definition rewrite :: string where
  "rewrite =
     ''Please write a query to a semantic search engine using the current conversation.\<newline>''
     @ ''\<newline>'' @ ''\<newline>'' @ ''{chat_history_str}'' @ ''\<newline>'' @ ''\<newline>''
     @ ''Latest message: {query_str}\<newline>'' @ ''Query:\"\"\"\<newline>''"

definition rewrite_template :: prompt_template where
  "rewrite_template = \<lparr>tmpl = rewrite\<rparr>"

definition DEFAULT_CONTEXT_PROMPT :: string where
  "DEFAULT_CONTEXT_PROMPT =
     ''Here is some context that may be relevant:\<newline>'' @ ''-----\<newline>''
     @ ''{node_context}\<newline>'' @ ''-----\<newline>''
     @ ''Please write a response to the following question, using the above context:\<newline>''
     @ ''{query_str}\<newline>''"

lemmas template_simps [model_simps] =
  lit_pieces_def parse_format_def positional_field_def py_format_def template_vars_def prompt_format_def
  rewrite_def rewrite_template_def DEFAULT_CONTEXT_PROMPT_def

subsection \<open>Rendering\<close>

definition piece_text :: "(string \<times> string) list \<Rightarrow> fmt_piece \<Rightarrow> string" where
  "piece_text kw p = (case p of PLit s \<Rightarrow> s | PField k \<Rightarrow> the (map_of kw k))"

lemma render_complete:
  "\<forall>k\<in>set (template_vars ps). \<not> positional_field k \<and> map_of kw k \<noteq> None \<Longrightarrow>
   render ps kw = Inr (concat (map (piece_text kw) ps))"
  by (induction ps kw rule: render.induct)
    (auto simp: template_vars_def piece_text_def py_getitem_def)

lemma render_missing:
  "k \<in> set (template_vars ps) \<Longrightarrow> positional_field k \<or> map_of kw k = None \<Longrightarrow>
   \<exists>e. render ps kw = Inl e"
proof (induction ps kw rule: render.induct)
  case (1 kw)
  then show ?case by (simp add: template_vars_def)
next
  case (2 s ps kw)
  then show ?case by (auto simp: template_vars_def)
next
  case (3 k' ps kw)
  show ?case
  proof (cases "positional_field k' \<or> map_of kw k' = None")
    case True
    then show ?thesis by (auto simp: py_getitem_def)
  next
    case False
    with "3.prems" have "k \<in> set (template_vars ps)"
      by (auto simp: template_vars_def)
    with "3.IH" "3.prems"(2) False obtain e where "render ps kw = Inl e"
      by (auto simp: py_getitem_def)
    with False show ?thesis by (auto simp: py_getitem_def)
  qed
qed

subsection \<open>The notebook's two templates, filled\<close>

lemma format_rewrite_template:
  "prompt_format rewrite_template [(''chat_history_str'', hs), (''query_str'', q)] =
   Inr (''Please write a query to a semantic search engine using the current conversation.\<newline>\<newline>\<newline>''
        @ hs @ ''\<newline>\<newline>Latest message: '' @ q @ ''\<newline>Query:\"\"\"\<newline>'')"
  by (simp add: model_simps)

lemma rewrite_template_vars:
  "parse_format (tmpl rewrite_template) = Inr ps \<Longrightarrow> template_vars ps = [''chat_history_str'', ''query_str'']"
  by (auto simp: model_simps)

end
