(* ===== verification/Chat_Types.thy ===== *)
theory Chat_Types
  imports Py_Str
begin

text \<open>
  The data the pipeline moves between its modules: chat messages
  (\<open>llama_index.core.llms.ChatMessage\<close>, a role and a content), retrieved nodes
  (\<open>NodeWithScore\<close>, of which the notebook reads only the text returned by
  \<open>get_content(metadata_mode="llm")\<close> and the retriever's score), and the dynamically
  typed values a module receives as keyword arguments, as the tagged union \<open>val\<close>.
  \<open>message_str\<close> is \<open>str(ChatMessage)\<close>, the \<open>"role: content"\<close> line printed
  by the notebook's session cell; \<open>history_str\<close> is the \<open>chat_history_str\<close> the
  session cell builds from the memory.
\<close>

datatype message_role = System | User | Assistant

record chat_message =
  role :: message_role
  content :: string

record node_with_score =
  node_text :: string
  node_score :: int

datatype val =
    VStr string
  | VMsgs "chat_message list"
  | VNodes "node_with_score list"
  | VResp chat_message

fun role_value :: "message_role \<Rightarrow> string" where
  "role_value System = ''system''"
| "role_value User = ''user''"
| "role_value Assistant = ''assistant''"

definition message_str :: "chat_message \<Rightarrow> string" where
  "message_str m = role_value (role m) @ '': '' @ content m"

definition history_str :: "chat_message list \<Rightarrow> string" where
  "history_str hist = py_join ''\<newline>'' (map message_str hist)"

text \<open>The string a module that expects text makes of its input: a string as it is,
  a chat response as its \<open>str\<close>.\<close>

fun stringify :: "val \<Rightarrow> string result" where
  "stringify (VStr s) = Inr s"
| "stringify (VResp m) = Inr (message_str m)"
| "stringify (VMsgs _) = Inl (TypeError ''expected a string'')"
| "stringify (VNodes _) = Inl (TypeError ''expected a string'')"

definition as_msgs :: "val \<Rightarrow> chat_message list result" where
  "as_msgs v = (case v of VMsgs ms \<Rightarrow> Inr ms | _ \<Rightarrow> Inl (TypeError ''expected a list of ChatMessage''))"

definition as_nodes :: "val \<Rightarrow> node_with_score list result" where
  "as_nodes v = (case v of VNodes ns \<Rightarrow> Inr ns | _ \<Rightarrow> Inl (TypeError ''expected a list of NodeWithScore''))"

lemmas chat_types_simps [model_simps] =
  message_str_def history_str_def as_msgs_def as_nodes_def

lemma as_msgs_VMsgs [simp]: "as_msgs (VMsgs ms) = Inr ms"
  by (simp add: as_msgs_def)

lemma as_nodes_VNodes [simp]: "as_nodes (VNodes ns) = Inr ns"
  by (simp add: as_nodes_def)

subsection \<open>The history text\<close>

lemma role_value_no_newline: "CHR ''\<newline>'' \<notin> set (role_value r)"
  by (cases r) simp_all

text \<open>C18: The \<open>chat_history_str\<close> the session builds is a faithful transcript as
  long as no message contains a newline: splitting it at newlines gives back the
  \<open>str\<close> of each message of the history, one per line, in order. (A message whose
  content has a newline, as the LLM's answers usually do, spreads over several
  lines, and the message boundaries are lost.)\<close>

theorem history_str_split:
  assumes "h \<noteq> []" and "\<forall>m\<in>set h. CHR ''\<newline>'' \<notin> set (content m)"
  shows "py_split CHR ''\<newline>'' (history_str h) = map message_str h"
proof -
  have "\<forall>l\<in>set (map message_str h). CHR ''\<newline>'' \<notin> set l"
    using assms(2) role_value_no_newline by (auto simp: message_str_def)
  with assms(1) show ?thesis
    unfolding history_str_def by (simp add: py_split_join [of _ "CHR ''\<newline>''", simplified])
qed

theorem history_str_split_witness:
  "[\<lparr>role = User, content = ''Hello!''\<rparr>, \<lparr>role = Assistant, content = ''Hi''\<rparr>] \<noteq> [] \<and>
   py_split CHR ''\<newline>'' (history_str [\<lparr>role = User, content = ''Hello!''\<rparr>, \<lparr>role = Assistant, content = ''Hi''\<rparr>]) =
     [''user: Hello!'', ''assistant: Hi'']"
proof -
  have a: "[\<lparr>role = User, content = ''Hello!''\<rparr>, \<lparr>role = Assistant, content = ''Hi''\<rparr>] \<noteq> []" by simp
  have b: "\<forall>m\<in>set [\<lparr>role = User, content = ''Hello!''\<rparr>, \<lparr>role = Assistant, content = ''Hi''\<rparr>].
      CHR ''\<newline>'' \<notin> set (content m)" by simp
  show ?thesis using a b history_str_split [OF a b] by (simp add: message_str_def)
qed

end
