(* ===== verification/Response_Component.thy ===== *)
theory Response_Component
  imports Templates Chat_Types
begin

text \<open>
  The notebook's custom component \<open>ResponseWithChatHistory\<close>: its fields (\<open>llm\<close>,
  \<open>system_prompt\<close>, \<open>context_prompt\<close>) as a record, its declared input and output
  keys, \<open>_validate_component_inputs\<close>, \<open>_prepare_context\<close> and the two run
  methods, and the instance \<open>response_component\<close> the notebook builds.
  The LLM is an opaque collaborator with a blocking (\<open>chat\<close>) and an asynchronous
  (\<open>achat\<close>) entry point, each returning the response message or failing.
  \<open>_prepare_context\<close> appends to the list it is given (\<open>chat_history.append\<close>):
  the model returns the prepared messages together with the state of that argument
  list after the call. The run methods call the module-level variable \<open>llm\<close>, not
  the component's field; the model takes that global as its own argument.
\<close>

record llm_client =
  llm_chat :: "chat_message list \<Rightarrow> chat_message result"
  llm_achat :: "chat_message list \<Rightarrow> chat_message result"

record response_with_chat_history =
  rc_llm :: llm_client
  system_prompt :: "string option"
  context_prompt :: string

definition rc_input_keys :: "string set" where
  "rc_input_keys = {''chat_history'', ''nodes'', ''query_str''}"

definition rc_output_keys :: "string set" where
  "rc_output_keys = {''response''}"

definition validate_component_inputs :: "(string \<times> val) list \<Rightarrow> (string \<times> val) list" where
  "validate_component_inputs input = input"

fun node_context_loop :: "nat \<Rightarrow> node_with_score list \<Rightarrow> string \<Rightarrow> string" where
  "node_context_loop idx [] node_context = node_context"
| "node_context_loop idx (node # nodes) node_context =
     node_context_loop (Suc idx) nodes
       (node_context @ ''Context Chunk '' @ py_str_nat idx @ '':\<newline>''
          @ node_text node @ ''\<newline>\<newline>'')"

definition prepare_context ::
  "response_with_chat_history \<Rightarrow> chat_message list \<Rightarrow> node_with_score list \<Rightarrow> string
   \<Rightarrow> (chat_message list \<times> chat_message list) result" where
  "prepare_context self chat_history nodes query_str =
     (let node_context = node_context_loop 0 nodes [] in
      ebind (py_format (context_prompt self)
               [(''node_context'', node_context), (''query_str'', query_str)])
        (\<lambda>formatted_context.
           let user_message = \<lparr>role = User, content = formatted_context\<rparr>;
               appended = chat_history @ [user_message]
           in Inr (case system_prompt self of
                     None \<Rightarrow> appended
                   | Some sp \<Rightarrow> \<lparr>role = System, content = sp\<rparr> # appended,
                   appended)))"

definition component_args ::
  "(string \<times> val) list \<Rightarrow> (chat_message list \<times> node_with_score list \<times> string) result" where
  "component_args kwargs =
     ebind (py_getitem kwargs ''chat_history'') (\<lambda>c. ebind (as_msgs c) (\<lambda>chat_history.
     ebind (py_getitem kwargs ''nodes'') (\<lambda>n. ebind (as_nodes n) (\<lambda>nodes.
     ebind (py_getitem kwargs ''query_str'') (\<lambda>q. ebind (stringify q) (\<lambda>query_str.
     Inr (chat_history, nodes, query_str)))))))"

definition run_with ::
  "(chat_message list \<Rightarrow> chat_message result) \<Rightarrow> response_with_chat_history
   \<Rightarrow> (string \<times> val) list \<Rightarrow> (string \<times> val) list result" where
  "run_with call self kwargs =
     ebind (component_args kwargs) (\<lambda>(chat_history, nodes, query_str).
     ebind (prepare_context self chat_history nodes query_str) (\<lambda>(prepared_context, _).
     ebind (call prepared_context) (\<lambda>response.
     Inr [(''response'', VResp response)])))"

definition run_component ::
  "llm_client \<Rightarrow> response_with_chat_history \<Rightarrow> (string \<times> val) list \<Rightarrow> (string \<times> val) list result" where
  "run_component llm self kwargs = run_with (llm_chat llm) self kwargs"

definition arun_component ::
  "llm_client \<Rightarrow> response_with_chat_history \<Rightarrow> (string \<times> val) list \<Rightarrow> (string \<times> val) list result" where
  "arun_component llm self kwargs = run_with (llm_achat llm) self kwargs"

definition qa_system_prompt :: string where
  "qa_system_prompt =
     ''You are a Q&A system. You will be provided with the previous chat history, ''
     @ ''as well as possibly relevant context, to assist in answering a user message.''"

definition response_component :: "llm_client \<Rightarrow> response_with_chat_history" where
  "response_component llm =
     \<lparr>rc_llm = llm, system_prompt = Some qa_system_prompt,
      context_prompt = DEFAULT_CONTEXT_PROMPT\<rparr>"

lemmas response_simps [model_simps] =
  rc_input_keys_def rc_output_keys_def validate_component_inputs_def
  prepare_context_def component_args_def run_with_def run_component_def
  arun_component_def qa_system_prompt_def response_component_def

subsection \<open>Filling the context prompt; the chunk loop\<close>

lemma format_context_prompt:
  "py_format DEFAULT_CONTEXT_PROMPT [(''node_context'', nc), (''query_str'', q)] =
   Inr (''Here is some context that may be relevant:\<newline>-----\<newline>'' @ nc
        @ ''\<newline>-----\<newline>Please write a response to the following question, using the above context:\<newline>''
        @ q @ ''\<newline>'')"
  by (simp add: model_simps)

lemma node_context_loop_enumerate:
  "node_context_loop i ns acc =
     acc @ concat (map (\<lambda>(k, n). ''Context Chunk '' @ py_str_nat k @ '':\<newline>''
                                  @ node_text n @ ''\<newline>\<newline>'') (enumerate i ns))"
  by (induction ns arbitrary: i acc) auto

lemma prepare_context_Inr_iff:
  "prepare_context self h ns q = Inr (msgs, h') \<longleftrightarrow>
   (\<exists>fc. py_format (context_prompt self) [(''node_context'', node_context_loop 0 ns []), (''query_str'', q)] = Inr fc
        \<and> h' = h @ [\<lparr>role = User, content = fc\<rparr>]
        \<and> msgs = (case system_prompt self of None \<Rightarrow> h' | Some sp \<Rightarrow> \<lparr>role = System, content = sp\<rparr> # h'))"
  by (auto simp: prepare_context_def Let_def ebind_eq_Inr_iff)

lemma component_args_Inr:
  "map_of kw ''chat_history'' = Some (VMsgs h) \<Longrightarrow> map_of kw ''nodes'' = Some (VNodes ns) \<Longrightarrow>
   map_of kw ''query_str'' = Some (VStr q) \<Longrightarrow> component_args kw = Inr (h, ns, q)"
  by (simp add: component_args_def)

lemma component_args_missing:
  "k \<in> rc_input_keys \<Longrightarrow> map_of kw k = None \<Longrightarrow> \<exists>e. component_args kw = Inl e"
  by (auto simp: component_args_def rc_input_keys_def ebind_def split: sum.splits)

subsection \<open>Properties of the component\<close>

text \<open>C13: With the notebook's instance, \<open>_prepare_context\<close> returns the system
  prompt, then the chat history, then one user message holding the filled context
  prompt: the text of the nodes as numbered context chunks, in retrieval order, and the
  query; the history list passed in has that user message appended.\<close>

theorem prepare_context_notebook:
  "let ctx = ''Here is some context that may be relevant:\<newline>-----\<newline>''
        @ concat (map (\<lambda>(k, n). ''Context Chunk '' @ py_str_nat k @ '':\<newline>'' @ node_text n @ ''\<newline>\<newline>'')
                     (enumerate 0 ns))
        @ ''\<newline>-----\<newline>Please write a response to the following question, using the above context:\<newline>''
        @ q @ ''\<newline>''
   in prepare_context (response_component llm) h ns q =
      Inr (\<lparr>role = System, content = qa_system_prompt\<rparr> # h @ [\<lparr>role = User, content = ctx\<rparr>],
           h @ [\<lparr>role = User, content = ctx\<rparr>])"
  by (simp add: prepare_context_def response_component_def format_context_prompt
      node_context_loop_enumerate Let_def)

text \<open>C21: A run of the component with a required input missing (\<open>chat_history\<close>,
  \<open>nodes\<close> or \<open>query_str\<close>) raises before the LLM is called: the run fails, and its
  outcome is the same whatever the LLM would have answered.\<close>

theorem run_component_missing_input:
  assumes "k \<in> rc_input_keys" and "map_of kw k = None"
  shows "(\<exists>e. run_component llm self kw = Inl e) \<and>
         run_component llm self kw = run_component llm' self kw"
proof -
  from component_args_missing [OF assms] obtain e where "component_args kw = Inl e" by blast
  then show ?thesis by (simp add: run_component_def run_with_def)
qed

theorem run_component_missing_input_witness:
  "''nodes'' \<in> rc_input_keys \<and> map_of [(''query_str'', VStr ''q'')] ''nodes'' = None \<and>
   (\<exists>e. run_component \<lparr>llm_chat = \<lambda>_. Inr \<lparr>role = Assistant, content = ''a''\<rparr>,
                        llm_achat = \<lambda>_. Inr \<lparr>role = Assistant, content = ''a''\<rparr>\<rparr>
          (response_component \<lparr>llm_chat = \<lambda>_. Inl (UnitError ''down''), llm_achat = \<lambda>_. Inl (UnitError ''down'')\<rparr>)
          [(''query_str'', VStr ''q'')] = Inl e) \<and>
   run_component \<lparr>llm_chat = \<lambda>_. Inr \<lparr>role = Assistant, content = ''a''\<rparr>,
                 llm_achat = \<lambda>_. Inr \<lparr>role = Assistant, content = ''a''\<rparr>\<rparr>
     (response_component \<lparr>llm_chat = \<lambda>_. Inl (UnitError ''down''), llm_achat = \<lambda>_. Inl (UnitError ''down'')\<rparr>)
     [(''query_str'', VStr ''q'')] =
   run_component \<lparr>llm_chat = \<lambda>_. Inr \<lparr>role = Assistant, content = ''b''\<rparr>,
                 llm_achat = \<lambda>_. Inr \<lparr>role = Assistant, content = ''b''\<rparr>\<rparr>
     (response_component \<lparr>llm_chat = \<lambda>_. Inl (UnitError ''down''), llm_achat = \<lambda>_. Inl (UnitError ''down'')\<rparr>)
     [(''query_str'', VStr ''q'')]"
proof -
  have k: "''nodes'' \<in> rc_input_keys" by (simp add: rc_input_keys_def)
  have m: "map_of [(''query_str'', VStr ''q'')] ''nodes'' = None" by simp
  show ?thesis using k m run_component_missing_input [OF k m] by blast
qed

text \<open>C27: The run methods call the notebook's module-level \<open>llm\<close>, not the
  component's own \<open>llm\<close> field: changing the field does not change a run.\<close>

theorem run_component_ignores_llm_field:
  "run_component llm (self\<lparr>rc_llm := other\<rparr>) kw = run_component llm self kw"
  by (simp add: run_component_def run_with_def prepare_context_def Let_def)

text \<open>C25: \<open>_prepare_context\<close> appends the formatted user message to the list it
  receives instead of to a copy; without a system prompt the list it returns is that
  same list.\<close>

theorem prepare_context_mutates_argument:
  assumes "prepare_context self h ns q = Inr (msgs, h')"
  shows "h' = h @ [last msgs] \<and> role (last msgs) = User \<and>
         (system_prompt self = None \<longrightarrow> msgs = h')"
  using assms by (auto simp: prepare_context_Inr_iff split: option.splits)

theorem prepare_context_mutates_argument_witness:
  "prepare_context \<lparr>rc_llm = \<lparr>llm_chat = \<lambda>_. Inl (UnitError ''down''), llm_achat = \<lambda>_. Inl (UnitError ''down'')\<rparr>,
                    system_prompt = None, context_prompt = ''{query_str}''\<rparr> [] [] ''q'' =
     Inr ([\<lparr>role = User, content = ''q''\<rparr>], [\<lparr>role = User, content = ''q''\<rparr>]) \<and>
   [\<lparr>role = User, content = ''q''\<rparr>] = [] @ [last [\<lparr>role = User, content = ''q''\<rparr>]] \<and>
   role (last [\<lparr>role = User, content = ''q''\<rparr>]) = User \<and>
   (system_prompt \<lparr>rc_llm = \<lparr>llm_chat = \<lambda>_. Inl (UnitError ''down''), llm_achat = \<lambda>_. Inl (UnitError ''down'')\<rparr>,
                    system_prompt = None, context_prompt = ''{query_str}''\<rparr> = None)"
proof -
  have h: "prepare_context \<lparr>rc_llm = \<lparr>llm_chat = \<lambda>_. Inl (UnitError ''down''), llm_achat = \<lambda>_. Inl (UnitError ''down'')\<rparr>,
                    system_prompt = None, context_prompt = ''{query_str}''\<rparr> [] [] ''q'' =
     Inr ([\<lparr>role = User, content = ''q''\<rparr>], [\<lparr>role = User, content = ''q''\<rparr>])"
    by (simp add: model_simps Let_def)
  show ?thesis using prepare_context_mutates_argument [OF h] h by simp
qed

end
