(* ===== verification/Notebook_Pipeline.thy ===== *)
theory Notebook_Pipeline
  imports Pipeline Response_Component
begin

text \<open>
  The notebook's query pipeline: the eight modules of the \<open>QueryPipeline(modules=...)\<close>
  call, registered in the dictionary's order, and the twelve \<open>add_link\<close> calls, in the
  order of the cell. The external services are opaque collaborators: the LLM
  (\<open>llm_client\<close>), the index's retriever (\<open>index.as_retriever(similarity_top_k=k)\<close>,
  a function of \<open>k\<close> and the query) and the reranker (\<open>ColbertRerank(top_n=n)\<close>,
  a function of \<open>n\<close>, the query and the candidate nodes); each call may fail.
  The library's built-in modules are given the fixed key contract the spec asks for:
  \<^item> \<open>InputComponent\<close> passes the keyword arguments of \<open>pipeline.run\<close> through;
  \<^item> the \<open>PromptTemplate\<close> module requires its template's variables and outputs
    \<open>prompt\<close>;
  \<^item> the LLM module sends its input as one user message and outputs the response;
  \<^item> a retriever module turns its input into a query string and outputs the nodes;
  \<^item> \<open>ArgPackComponent\<close> declares no required input (its \<open>input_keys\<close> are
    empty): the keys linked into it are optional here, and it outputs the
    concatenation of the node lists it receives, in the order of its keys;
  \<^item> the reranker (the library's \<open>PostprocessorComponent\<close>) requires \<open>nodes\<close>,
    takes \<open>query_str\<close> as optional and outputs \<open>nodes\<close>; without a query,
    \<open>ColbertRerank\<close> raises \<open>ValueError("Missing query bundle in extra info.")\<close>;
  \<^item> \<open>response_component\<close> is the notebook's \<open>ResponseWithChatHistory\<close> instance.
\<close>

record collaborators =
  c_llm :: llm_client
  c_retrieve :: "nat \<Rightarrow> string \<Rightarrow> node_with_score list result"
  c_rerank :: "nat \<Rightarrow> string \<Rightarrow> node_with_score list \<Rightarrow> node_with_score list result"

definition input_component :: "string list \<Rightarrow> val module" where
  "input_component keys =
     \<lparr>m_required = keys, m_optional = [], m_outputs = keys, m_run = (\<lambda>ins. Inr ins)\<rparr>"

fun stringify_all :: "(string \<times> val) list \<Rightarrow> (string \<times> string) list result" where
  "stringify_all [] = Inr []"
| "stringify_all ((k, v) # kvs) =
     ebind (stringify v) (\<lambda>s. ebind (stringify_all kvs) (\<lambda>rest. Inr ((k, s) # rest)))"

definition prompt_vars :: "prompt_template \<Rightarrow> string list" where
  "prompt_vars t = (case parse_format (tmpl t) of Inl _ \<Rightarrow> [] | Inr ps \<Rightarrow> template_vars ps)"

definition prompt_module :: "prompt_template \<Rightarrow> val module" where
  "prompt_module t =
     \<lparr>m_required = prompt_vars t, m_optional = [], m_outputs = [''prompt''],
      m_run = (\<lambda>ins. ebind (stringify_all ins) (\<lambda>kw.
                     ebind (prompt_format t kw) (\<lambda>s. Inr [(''prompt'', VStr s)])))\<rparr>"

definition llm_module :: "llm_client \<Rightarrow> val module" where
  "llm_module llm =
     \<lparr>m_required = [''messages''], m_optional = [], m_outputs = [''output''],
      m_run = (\<lambda>ins. ebind (py_getitem ins ''messages'') (\<lambda>v. ebind (stringify v) (\<lambda>s.
                     ebind (llm_chat llm [\<lparr>role = User, content = s\<rparr>]) (\<lambda>m.
                       Inr [(''output'', VResp m)]))))\<rparr>"

definition retriever_module ::
  "(nat \<Rightarrow> string \<Rightarrow> node_with_score list result) \<Rightarrow> nat \<Rightarrow> val module" where
  "retriever_module retrieve similarity_top_k =
     \<lparr>m_required = [''input''], m_optional = [], m_outputs = [''output''],
      m_run = (\<lambda>ins. ebind (py_getitem ins ''input'') (\<lambda>v. ebind (stringify v) (\<lambda>q.
                     ebind (retrieve similarity_top_k q) (\<lambda>ns. Inr [(''output'', VNodes ns)]))))\<rparr>"

fun pack_nodes :: "val list \<Rightarrow> node_with_score list result" where
  "pack_nodes [] = Inr []"
| "pack_nodes (v # vs) = ebind (as_nodes v) (\<lambda>ns. ebind (pack_nodes vs) (\<lambda>rest. Inr (ns @ rest)))"

definition argpack_module :: "string list \<Rightarrow> val module" where
  "argpack_module keys =
     \<lparr>m_required = [], m_optional = keys, m_outputs = [''output''],
      m_run = (\<lambda>ins. ebind (pack_nodes (map snd ins)) (\<lambda>ns. Inr [(''output'', VNodes ns)]))\<rparr>"

definition reranker_module ::
  "(nat \<Rightarrow> string \<Rightarrow> node_with_score list \<Rightarrow> node_with_score list result) \<Rightarrow> nat \<Rightarrow> val module" where
  "reranker_module rerank top_n =
     \<lparr>m_required = [''nodes''], m_optional = [''query_str''], m_outputs = [''nodes''],
      m_run = (\<lambda>ins. ebind (py_getitem ins ''nodes'') (\<lambda>nv. ebind (as_nodes nv) (\<lambda>ns.
                     case map_of ins ''query_str'' of
                       None \<Rightarrow> Inl (ValueError ''Missing query bundle in extra info.'')
                     | Some qv \<Rightarrow> ebind (stringify qv) (\<lambda>q.
                         ebind (rerank top_n q ns) (\<lambda>ns'. Inr [(''nodes'', VNodes ns')])))))\<rparr>"

definition response_module :: "llm_client \<Rightarrow> val module" where
  "response_module llm =
     \<lparr>m_required = [''chat_history'', ''nodes'', ''query_str''], m_optional = [],
      m_outputs = [''response''], m_run = run_component llm (response_component llm)\<rparr>"

definition notebook_modules :: "collaborators \<Rightarrow> (string \<times> val module) list" where
  "notebook_modules c =
     [(''input'', input_component [''query_str'', ''chat_history'', ''chat_history_str'']),
      (''rewrite_template'', prompt_module rewrite_template),
      (''llm'', llm_module (c_llm c)),
      (''rewrite_retriever'', retriever_module (c_retrieve c) 6),
      (''query_retriever'', retriever_module (c_retrieve c) 6),
      (''join'', argpack_module [''rewrite_nodes'', ''query_nodes'']),
      (''reranker'', reranker_module (c_rerank c) 3),
      (''response_component'', response_module (c_llm c))]"

definition notebook_links :: "(string \<times> string \<times> string option \<times> string option) list" where
  "notebook_links =
     [(''input'', ''rewrite_template'', Some ''query_str'', Some ''query_str''),
      (''input'', ''rewrite_template'', Some ''chat_history_str'', Some ''chat_history_str''),
      (''rewrite_template'', ''llm'', None, None),
      (''llm'', ''rewrite_retriever'', None, None),
      (''input'', ''query_retriever'', Some ''query_str'', None),
      (''rewrite_retriever'', ''join'', None, Some ''rewrite_nodes''),
      (''query_retriever'', ''join'', None, Some ''query_nodes''),
      (''join'', ''reranker'', None, Some ''nodes''),
      (''input'', ''reranker'', Some ''query_str'', Some ''query_str''),
      (''reranker'', ''response_component'', None, Some ''nodes''),
      (''input'', ''response_component'', Some ''query_str'', Some ''query_str''),
      (''input'', ''response_component'', Some ''chat_history'', Some ''chat_history'')]"

definition notebook_pipeline :: "collaborators \<Rightarrow> val pipeline result" where
  "notebook_pipeline c =
     ebind (register_all empty_pipeline (notebook_modules c)) (\<lambda>p. add_links p notebook_links)"

definition run_inputs :: "string \<Rightarrow> chat_message list \<Rightarrow> string \<Rightarrow> val exec_ctx" where
  "run_inputs query_str chat_history chat_history_str =
     [((''input'', ''query_str''), VStr query_str),
      ((''input'', ''chat_history''), VMsgs chat_history),
      ((''input'', ''chat_history_str''), VStr chat_history_str)]"

definition notebook_run ::
  "collaborators \<Rightarrow> string \<Rightarrow> chat_message list \<Rightarrow> string
   \<Rightarrow> (string \<times> (string \<times> val) list) list result" where
  "notebook_run c query_str chat_history chat_history_str =
     ebind (notebook_pipeline c) (\<lambda>p. run p (run_inputs query_str chat_history chat_history_str))"

lemmas notebook_simps [model_simps] =
  input_component_def prompt_vars_def prompt_module_def llm_module_def retriever_module_def
  argpack_module_def reranker_module_def response_module_def notebook_modules_def
  notebook_links_def notebook_pipeline_def run_inputs_def notebook_run_def

subsection \<open>The pipeline the cell builds\<close>

text \<open>The link table the twelve \<open>add_link\<close> calls produce, with the default keys
  resolved to the modules' single keys.\<close>

definition resolved_links :: "link list" where
  "resolved_links =
     [\<lparr>src = ''input'', src_key = ''query_str'', dst = ''rewrite_template'', dst_key = ''query_str''\<rparr>,
      \<lparr>src = ''input'', src_key = ''chat_history_str'', dst = ''rewrite_template'', dst_key = ''chat_history_str''\<rparr>,
      \<lparr>src = ''rewrite_template'', src_key = ''prompt'', dst = ''llm'', dst_key = ''messages''\<rparr>,
      \<lparr>src = ''llm'', src_key = ''output'', dst = ''rewrite_retriever'', dst_key = ''input''\<rparr>,
      \<lparr>src = ''input'', src_key = ''query_str'', dst = ''query_retriever'', dst_key = ''input''\<rparr>,
      \<lparr>src = ''rewrite_retriever'', src_key = ''output'', dst = ''join'', dst_key = ''rewrite_nodes''\<rparr>,
      \<lparr>src = ''query_retriever'', src_key = ''output'', dst = ''join'', dst_key = ''query_nodes''\<rparr>,
      \<lparr>src = ''join'', src_key = ''output'', dst = ''reranker'', dst_key = ''nodes''\<rparr>,
      \<lparr>src = ''input'', src_key = ''query_str'', dst = ''reranker'', dst_key = ''query_str''\<rparr>,
      \<lparr>src = ''reranker'', src_key = ''nodes'', dst = ''response_component'', dst_key = ''nodes''\<rparr>,
      \<lparr>src = ''input'', src_key = ''query_str'', dst = ''response_component'', dst_key = ''query_str''\<rparr>,
      \<lparr>src = ''input'', src_key = ''chat_history'', dst = ''response_component'', dst_key = ''chat_history''\<rparr>]"

text \<open>Collaborators for concrete runs: every service call fails.\<close>

abbreviation down_llm :: llm_client where
  "down_llm \<equiv> \<lparr>llm_chat = \<lambda>_. Inl (UnitError ''llm down''), llm_achat = \<lambda>_. Inl (UnitError ''llm down'')\<rparr>"

abbreviation down_services :: collaborators where
  "down_services \<equiv> \<lparr>c_llm = down_llm, c_retrieve = \<lambda>_ _. Inl (UnitError ''index down''),
                     c_rerank = \<lambda>_ _ _. Inl (UnitError ''reranker down'')\<rparr>"

lemma prompt_vars_rewrite: "prompt_vars rewrite_template = [''chat_history_str'', ''query_str'']"
  by (simp add: prompt_vars_def model_simps)

lemmas module_defs =
  input_component_def prompt_module_def prompt_vars_rewrite llm_module_def retriever_module_def
  argpack_module_def reranker_module_def response_module_def notebook_modules_def

lemma notebook_pipeline_built:
  "notebook_pipeline c = Inr \<lparr>modules = notebook_modules c, links = resolved_links\<rparr>"
  by (simp add: notebook_pipeline_def notebook_links_def resolved_links_def register_def names_def
      add_link_def resolve_key_def empty_pipeline_def module_defs)

lemma notebook_registered:
  "register_all empty_pipeline (notebook_modules c) = Inr \<lparr>modules = notebook_modules c, links = []\<rparr>"
  by (simp add: notebook_modules_def register_def names_def empty_pipeline_def)

lemma notebook_validate:
  "validate \<lparr>modules = notebook_modules c, links = resolved_links\<rparr> (map fst (run_inputs q h hs)) =
   Inr [''input'', ''rewrite_template'', ''llm'', ''rewrite_retriever'', ''query_retriever'',
        ''join'', ''reranker'', ''response_component'']"
  by (simp add: run_inputs_def validate_def resolved_links_def edges_def names_def topo.simps
      ready_def covered_def module_defs)

lemma notebook_run_built:
  "run \<lparr>modules = notebook_modules c, links = resolved_links\<rparr> (run_inputs q h hs) =
   ebind (llm_chat (c_llm c) [\<lparr>role = User, content =
      ''Please write a query to a semantic search engine using the current conversation.\<newline>\<newline>\<newline>''
      @ hs @ ''\<newline>\<newline>Latest message: '' @ q @ ''\<newline>Query:\"\"\"\<newline>''\<rparr>]) (\<lambda>m.
   ebind (c_retrieve c 6 (message_str m)) (\<lambda>ns1.
   ebind (c_retrieve c 6 q) (\<lambda>ns2.
   ebind (c_rerank c 3 q (ns1 @ ns2)) (\<lambda>ns3.
   ebind (llm_chat (c_llm c) (\<lparr>role = System, content = qa_system_prompt\<rparr> # h @
      [\<lparr>role = User, content = ''Here is some context that may be relevant:\<newline>-----\<newline>''
         @ node_context_loop 0 ns3 []
         @ ''\<newline>-----\<newline>Please write a response to the following question, using the above context:\<newline>''
         @ q @ ''\<newline>''\<rparr>])) (\<lambda>r.
   Inr [(''response_component'', [(''response'', VResp r)])])))))"
  unfolding run_def notebook_validate ebind_Inr
  by (simp add: resolved_links_def get_def gather_def lookup_input_def gather_optional_def
      propagate_def run_inputs_def module_defs format_rewrite_template run_component_def run_with_def
      component_args_def prepare_context_def response_component_def format_context_prompt Let_def
      is_leaf_def ebind_assoc)

lemma notebook_pipeline_is_built:
  assumes "notebook_pipeline c = Inr p"
  shows "built p"
proof -
  from assms obtain a where ra: "register_all empty_pipeline (notebook_modules c) = Inr a"
    and al: "add_links a notebook_links = Inr p"
    by (auto simp: notebook_pipeline_def ebind_eq_Inr_iff)
  show ?thesis by (rule add_links_built [OF register_all_built [OF built.empty ra] al])
qed

lemma edges_registered_Restr:
  "links_registered p \<Longrightarrow> Restr (set (edges p)) (set (names p)) = set (edges p)"
  by (auto simp: links_registered_def edges_def)

subsection \<open>Properties of the notebook's pipeline\<close>

text \<open>C1: Running the notebook's pipeline with a query, the chat history and its
  string form is the direct composition of the service calls the cell wires up: the
  LLM rewrites the filled rewrite prompt into a search query; the retriever is asked
  with that response (as text) and with the raw query, six nodes each; the reranker
  keeps three of the concatenated candidates for the raw query; the LLM answers the
  system prompt, the history and the context message built from those nodes. The
  run's result is the response of \<open>response_component\<close>, its only leaf; a failing
  service call fails the run with that error.\<close>

theorem notebook_run_refines:
  "notebook_run c q h hs =
   ebind (llm_chat (c_llm c) [\<lparr>role = User, content =
      ''Please write a query to a semantic search engine using the current conversation.\<newline>\<newline>\<newline>''
      @ hs @ ''\<newline>\<newline>Latest message: '' @ q @ ''\<newline>Query:\"\"\"\<newline>''\<rparr>]) (\<lambda>m.
   ebind (c_retrieve c 6 (message_str m)) (\<lambda>ns1.
   ebind (c_retrieve c 6 q) (\<lambda>ns2.
   ebind (c_rerank c 3 q (ns1 @ ns2)) (\<lambda>ns3.
   ebind (llm_chat (c_llm c) (\<lparr>role = System, content = qa_system_prompt\<rparr> # h @
      [\<lparr>role = User, content = ''Here is some context that may be relevant:\<newline>-----\<newline>''
         @ node_context_loop 0 ns3 []
         @ ''\<newline>-----\<newline>Please write a response to the following question, using the above context:\<newline>''
         @ q @ ''\<newline>''\<rparr>])) (\<lambda>r.
   Inr [(''response_component'', [(''response'', VResp r)])])))))"
  unfolding notebook_run_def notebook_pipeline_built ebind_Inr by (rule notebook_run_built)

text \<open>C10: Adding to the notebook's pipeline any link that closes a cycle (from a
  module back to one that already feeds it, a self-link included) makes validation fail
  with \<open>CycleError\<close>.\<close>

theorem notebook_cycle_rejected:
  assumes "notebook_pipeline c = Inr p"
    and "(d, s) \<in> (set (edges p))\<^sup>*" and "d \<in> set (names p)"
    and "add_link p s d sk dk = Inr p'"
  shows "\<exists>S. validate p' init = Inl (CycleError S)"
proof -
  have reg: "links_registered p"
    using notebook_pipeline_is_built [OF assms(1)] by (rule built_links_registered)
  have reg': "links_registered p'"
    using add_link_links_registered [OF assms(4) reg] .
  from add_link_Inr [OF assms(4)] obtain k1 k2 where
    p': "p' = p\<lparr>links := links p @ [\<lparr>src = s, src_key = k1, dst = d, dst_key = k2\<rparr>]\<rparr>" by blast
  have "set (edges p') = insert (s, d) (set (edges p))"
    by (simp add: p' edges_def)
  with assms(2) have "(d, d) \<in> (set (edges p'))\<^sup>+"
    by (metis insertI1 rtrancl_into_trancl1 rtrancl_mono subset_insertI subsetD)
  then have "(d, d) \<in> (Restr (set (edges p')) (set (names p')))\<^sup>+"
    by (simp add: edges_registered_Restr [OF reg'])
  then show ?thesis using validate_cycle_iff by blast
qed

theorem notebook_cycle_rejected_witness:
  "notebook_pipeline down_services = Inr \<lparr>modules = notebook_modules down_services, links = resolved_links\<rparr> \<and>
   (''input'', ''response_component'') \<in> (set (edges \<lparr>modules = notebook_modules down_services, links = resolved_links\<rparr>))\<^sup>* \<and>
   ''input'' \<in> set (names \<lparr>modules = notebook_modules down_services, links = resolved_links\<rparr>) \<and>
   add_link \<lparr>modules = notebook_modules down_services, links = resolved_links\<rparr>
     ''response_component'' ''input'' (Some ''response'') (Some ''query_str'') =
     Inr \<lparr>modules = notebook_modules down_services, links = resolved_links @
       [\<lparr>src = ''response_component'', src_key = ''response'', dst = ''input'', dst_key = ''query_str''\<rparr>]\<rparr> \<and>
   (\<exists>S. validate \<lparr>modules = notebook_modules down_services, links = resolved_links @
       [\<lparr>src = ''response_component'', src_key = ''response'', dst = ''input'', dst_key = ''query_str''\<rparr>]\<rparr> [] =
       Inl (CycleError S))"
proof -
  have b: "notebook_pipeline down_services = Inr \<lparr>modules = notebook_modules down_services, links = resolved_links\<rparr>"
    by (rule notebook_pipeline_built)
  have e: "(''input'', ''response_component'') \<in> (set (edges \<lparr>modules = notebook_modules down_services, links = resolved_links\<rparr>))\<^sup>*"
    by (rule r_into_rtrancl) (simp add: edges_def resolved_links_def)
  have n: "''input'' \<in> set (names \<lparr>modules = notebook_modules down_services, links = resolved_links\<rparr>)"
    by (simp add: names_def notebook_modules_def)
  have a: "add_link \<lparr>modules = notebook_modules down_services, links = resolved_links\<rparr>
     ''response_component'' ''input'' (Some ''response'') (Some ''query_str'') =
     Inr \<lparr>modules = notebook_modules down_services, links = resolved_links @
       [\<lparr>src = ''response_component'', src_key = ''response'', dst = ''input'', dst_key = ''query_str''\<rparr>]\<rparr>"
    by (simp add: add_link_def resolve_key_def resolved_links_def module_defs)
  show ?thesis using b e n a notebook_cycle_rejected [OF b e n a] by blast
qed

text \<open>C16: Which of the twelve \<open>add_link\<close> calls validation depends on: leaving out
  the \<open>i\<close>-th call (the others kept, in order) still builds the pipeline; for the nine
  links into a required key, validation with the session's keyword arguments then
  fails with \<open>UnsatisfiedInputError\<close> naming the module and the key that link fed;
  for the two links into \<open>join\<close> (\<open>ArgPackComponent\<close> requires nothing) and the
  \<open>query_str\<close> link into the reranker (optional for a postprocessor), validation
  succeeds with the same schedule.\<close>

theorem notebook_links_necessary:
  assumes "i < length notebook_links"
  shows "\<exists>p. ebind (register_all empty_pipeline (notebook_modules c))
               (\<lambda>p. add_links p (take i notebook_links @ drop (Suc i) notebook_links)) = Inr p \<and>
             validate p (map fst (run_inputs q h hs)) =
               (if i \<in> {5, 6, 8}
                then Inr [''input'', ''rewrite_template'', ''llm'', ''rewrite_retriever'', ''query_retriever'',
                          ''join'', ''reranker'', ''response_component'']
                else Inl (UnsatisfiedInputError (dst (resolved_links ! i)) (dst_key (resolved_links ! i))))"
proof -
  have "i < 12" using assms by (simp add: notebook_links_def)
  then have "i = 0 \<or> i = 1 \<or> i = 2 \<or> i = 3 \<or> i = 4 \<or> i = 5 \<or> i = 6 \<or> i = 7 \<or> i = 8 \<or> i = 9 \<or>
             i = 10 \<or> i = 11" by presburger
  then show ?thesis
    unfolding notebook_registered ebind_Inr
    by (elim disjE; simp add: notebook_links_def resolved_links_def names_def add_link_def resolve_key_def
        module_defs run_inputs_def validate_def edges_def topo.simps ready_def covered_def)
qed

theorem notebook_links_necessary_witness:
  "11 < length notebook_links \<and> 8 < length notebook_links \<and>
   (\<exists>p. ebind (register_all empty_pipeline (notebook_modules down_services))
          (\<lambda>p. add_links p (take 11 notebook_links @ drop (Suc 11) notebook_links)) = Inr p \<and>
        validate p (map fst (run_inputs ''Hello!'' [] '''')) =
          Inl (UnsatisfiedInputError ''response_component'' ''chat_history'')) \<and>
   (\<exists>p. ebind (register_all empty_pipeline (notebook_modules down_services))
          (\<lambda>p. add_links p (take 8 notebook_links @ drop (Suc 8) notebook_links)) = Inr p \<and>
        validate p (map fst (run_inputs ''Hello!'' [] '''')) =
          Inr [''input'', ''rewrite_template'', ''llm'', ''rewrite_retriever'', ''query_retriever'',
               ''join'', ''reranker'', ''response_component''])"
proof -
  have h: "11 < length notebook_links" "8 < length notebook_links" by (simp_all add: notebook_links_def)
  have r: "dst (resolved_links ! 11) = ''response_component''" "dst_key (resolved_links ! 11) = ''chat_history''"
    by (simp_all add: resolved_links_def)
  show ?thesis
    using h notebook_links_necessary [OF h(1), of down_services "''Hello!''" "[]" "''''"]
      notebook_links_necessary [OF h(2), of down_services "''Hello!''" "[]" "''''"]
    unfolding r by simp
qed

text \<open>C17: Leaving out the \<open>query_str\<close> link into the reranker is not caught before
  any service is called, as the spec's fixed-shape contracts intend: the pipeline
  validates, the run calls the LLM for the rewrite and the retriever twice, and only
  then \<open>ColbertRerank\<close> raises \<open>ValueError\<close> for the missing query.\<close>

theorem notebook_run_without_reranker_query:
  "ebind (ebind (register_all empty_pipeline (notebook_modules c))
            (\<lambda>p. add_links p (take 8 notebook_links @ drop 9 notebook_links)))
     (\<lambda>p. run p (run_inputs q h hs)) =
   ebind (llm_chat (c_llm c) [\<lparr>role = User, content =
      ''Please write a query to a semantic search engine using the current conversation.\<newline>\<newline>\<newline>''
      @ hs @ ''\<newline>\<newline>Latest message: '' @ q @ ''\<newline>Query:\"\"\"\<newline>''\<rparr>]) (\<lambda>m.
   ebind (c_retrieve c 6 (message_str m)) (\<lambda>ns1.
   ebind (c_retrieve c 6 q) (\<lambda>ns2.
   Inl (ValueError ''Missing query bundle in extra info.''))))"
  unfolding notebook_registered ebind_Inr
  by (simp add: notebook_links_def names_def add_link_def resolve_key_def run_def validate_def
      edges_def topo.simps ready_def covered_def get_def gather_def lookup_input_def gather_optional_def
      propagate_def run_inputs_def module_defs format_rewrite_template Let_def is_leaf_def ebind_assoc)

text \<open>C19: A run of the notebook's pipeline fails only when one of the services
  fails, with that service's error: the pipeline itself raises no missing-input,
  cycle or type error for the inputs the session passes.\<close>

theorem notebook_run_errors_from_services:
  assumes "notebook_run c q h hs = Inl e"
  shows "(\<exists>ms. llm_chat (c_llm c) ms = Inl e) \<or> (\<exists>s. c_retrieve c 6 s = Inl e) \<or>
         (\<exists>ns. c_rerank c 3 q ns = Inl e)"
  using assms
  unfolding notebook_run_def notebook_pipeline_built ebind_Inr notebook_run_built
  by (auto simp: ebind_eq_Inl_iff)

theorem notebook_run_errors_from_services_witness:
  "notebook_run down_services ''q'' [] '''' = Inl (UnitError ''llm down'') \<and>
   ((\<exists>ms. llm_chat (c_llm down_services) ms = Inl (UnitError ''llm down'')) \<or>
    (\<exists>s. c_retrieve down_services 6 s = Inl (UnitError ''llm down'')) \<or>
    (\<exists>ns. c_rerank down_services 3 ''q'' ns = Inl (UnitError ''llm down'')))"
proof -
  have r: "notebook_run down_services ''q'' [] '''' = Inl (UnitError ''llm down'')"
    unfolding notebook_run_def notebook_pipeline_built ebind_Inr notebook_run_built by simp
  show ?thesis using r notebook_run_errors_from_services [OF r] by blast
qed

end
