(* ===== verification/Memory.thy ===== *)
theory Memory
  imports Prelude
begin

text \<open>
  The conversation memory of the notebook, \<open>pipeline_memory =
  ChatMemoryBuffer.from_defaults(token_limit=8000)\<close>, with the contract of the
  Memory Buffer of the spec: \<open>put\<close> appends an entry at the tail and then evicts
  entries from the head while the total size (an injected sizing function, the
  tokenizer's count in the notebook) exceeds the budget and more than one entry is
  left, so the entry just appended is never evicted; \<open>get\<close> returns the entries
  without changing them. The buffer's class lives in the library, not in the
  repository: the definitions follow the spec's contract.
  The lemmas show the bound (the buffer is within budget or holds a single entry),
  that eviction removes the shortest prefix it must, that evicting at every
  \<open>put\<close> is the same as evicting once from the whole conversation log, and the
  entry-count budget of the spec's scenario.
\<close>

record 'e memory_buffer =
  mem_entries :: "'e list"
  token_limit :: nat
  mem_size :: "'e \<Rightarrow> nat"

definition total_size :: "('e \<Rightarrow> nat) \<Rightarrow> 'e list \<Rightarrow> nat" where
  "total_size f xs = sum_list (map f xs)"

text \<open>Eviction from the head: stop when the entries fit or one entry is left.\<close>

fun evict :: "('e \<Rightarrow> nat) \<Rightarrow> nat \<Rightarrow> 'e list \<Rightarrow> 'e list" where
  "evict f B [] = []"
| "evict f B [x] = [x]"
| "evict f B (x # y # ys) =
     (if B < total_size f (x # y # ys) then evict f B (y # ys) else x # y # ys)"

definition from_defaults :: "('e \<Rightarrow> nat) \<Rightarrow> nat \<Rightarrow> 'e memory_buffer" where
  "from_defaults f limit = \<lparr>mem_entries = [], token_limit = limit, mem_size = f\<rparr>"

definition mem_put :: "'e memory_buffer \<Rightarrow> 'e \<Rightarrow> 'e memory_buffer" where
  "mem_put m e = m\<lparr>mem_entries := evict (mem_size m) (token_limit m) (mem_entries m @ [e])\<rparr>"

definition mem_get :: "'e memory_buffer \<Rightarrow> 'e list" where
  "mem_get m = mem_entries m"

definition within_budget :: "('e \<Rightarrow> nat) \<Rightarrow> nat \<Rightarrow> 'e list \<Rightarrow> bool" where
  "within_budget f B xs \<longleftrightarrow> total_size f xs \<le> B \<or> length xs \<le> 1"

definition mem_ok :: "'e memory_buffer \<Rightarrow> bool" where
  "mem_ok m \<longleftrightarrow> within_budget (mem_size m) (token_limit m) (mem_entries m)"

lemmas memory_simps [model_simps] =
  total_size_def from_defaults_def mem_put_def mem_get_def within_budget_def mem_ok_def

subsection \<open>Eviction\<close>

lemma total_size_Cons [simp]: "total_size f (x # xs) = f x + total_size f xs"
  by (simp add: total_size_def)

lemma total_size_append [simp]: "total_size f (xs @ ys) = total_size f xs + total_size f ys"
  by (simp add: total_size_def)

lemma total_size_Nil [simp]: "total_size f [] = 0"
  by (simp add: total_size_def)

lemma evict_suffix: "suffix (evict f B xs) xs"
  by (induction f B xs rule: evict.induct) (auto intro: suffix_ConsI)

lemma evict_Nil_iff [simp]: "evict f B xs = [] \<longleftrightarrow> xs = []"
  by (induction f B xs rule: evict.induct) auto

lemma evict_last: "xs \<noteq> [] \<Longrightarrow> last (evict f B xs) = last xs"
  by (induction f B xs rule: evict.induct) auto

lemma evict_within_budget: "within_budget f B (evict f B xs)"
  by (induction f B xs rule: evict.induct) (auto simp: within_budget_def)

lemma evict_fits: "total_size f xs \<le> B \<Longrightarrow> evict f B xs = xs"
  by (induction f B xs rule: evict.induct) auto

text \<open>Only as many entries are evicted as the budget forces: every suffix longer than
  the result is over budget.\<close>

lemma evict_least:
  "suffix ys xs \<Longrightarrow> length (evict f B xs) < length ys \<Longrightarrow> B < total_size f ys"
proof (induction f B xs arbitrary: ys rule: evict.induct)
  case (1 f B)
  then show ?case by simp
next
  case (2 f B x)
  then show ?case by (auto simp: suffix_Cons)
next
  case (3 f B x y zs)
  show ?case
  proof (cases "B < total_size f (x # y # zs)")
    case True
    from "3.prems"(1) consider "ys = x # y # zs" | "suffix ys (y # zs)"
      by (auto simp: suffix_Cons)
    then show ?thesis
    proof cases
      case 1
      with True show ?thesis by simp
    next
      case 2
      with True "3.IH" "3.prems"(2) show ?thesis by simp
    qed
  next
    case False
    with "3.prems" have "length (x # y # zs) < length ys" by simp
    with "3.prems"(1) show ?thesis by (auto dest: suffix_length_le)
  qed
qed

lemma evict_evict_append:
  "ys \<noteq> [] \<Longrightarrow> evict f B (evict f B xs @ ys) = evict f B (xs @ ys)"
proof (induction f B xs rule: evict.induct)
  case (3 f B x y zs)
  show ?case
  proof (cases "B < total_size f (x # y # zs)")
    case True
    then have "B < total_size f (x # y # zs @ ys)" by simp
    with True "3.IH" "3.prems" show ?thesis by simp
  next
    case False
    then show ?thesis by simp
  qed
qed auto

lemma foldl_mem_put:
  "es \<noteq> [] \<Longrightarrow>
   foldl mem_put m es = m\<lparr>mem_entries := evict (mem_size m) (token_limit m) (mem_entries m @ es)\<rparr>"
proof (induction es arbitrary: m rule: rev_nonempty_induct)
  case (single e)
  then show ?case by (simp add: mem_put_def)
next
  case (snoc e es)
  then show ?case
    by (simp add: mem_put_def evict_evict_append [where ys = "[e]", simplified])
qed

lemma evict_count:
  "evict (\<lambda>_. 1) B xs = drop (length xs - max 1 B) xs"
proof (induction "\<lambda>_::'a. 1::nat" B xs rule: evict.induct)
  case (3 B x y zs)
  have sz: "total_size (\<lambda>_. 1::nat) xs = length xs" for xs :: "'a list"
    by (induction xs) auto
  show ?case
  proof (cases "B < length (x # y # zs)")
    case True
    with 3 sz show ?thesis by (simp add: Suc_diff_le)
  next
    case False
    with sz show ?thesis by simp
  qed
qed auto

subsection \<open>Properties of the buffer\<close>

text \<open>After \<open>put(e)\<close> the buffer is within its budget or holds only one entry, its
  last entry is \<open>e\<close>, and it is a suffix of the old entries followed by \<open>e\<close>.\<close>

lemma mem_put_bounded:
  "mem_ok (mem_put m e) \<and> last (mem_get (mem_put m e)) = e \<and>
   suffix (mem_get (mem_put m e)) (mem_get m @ [e])"
proof -
  have "suffix (evict (mem_size m) (token_limit m) (mem_entries m @ [e])) (mem_entries m @ [e])"
    by (rule evict_suffix)
  then show ?thesis
    by (simp add: mem_ok_def mem_get_def mem_put_def evict_within_budget evict_last)
qed

text \<open>With the entry count as the size and budget \<open>B\<close>, a fresh buffer holds the
  last \<open>max 1 B\<close> entries appended.\<close>

lemma mem_count_budget:
  "mem_get (foldl mem_put (from_defaults (\<lambda>_. 1) B) es) = drop (length es - max 1 B) es"
proof (cases "es = []")
  case True
  then show ?thesis by (simp add: mem_get_def from_defaults_def)
next
  case False
  then show ?thesis
    using evict_count [of B es] by (simp add: foldl_mem_put mem_get_def from_defaults_def)
qed

text \<open>The spec's scenario: budget of two entries, appends \<open>m1, m2, m3\<close>.\<close>

lemma mem_scenario:
  "mem_get (foldl mem_put (from_defaults (\<lambda>_. 1) 2) [m1, m2, m3]) = [m2, m3]"
  using mem_count_budget [of 2 "[m1, m2, m3]"] by simp

end
