(* ===== verification/Chat_Session.thy ===== *)
theory Chat_Session
  imports Notebook_Pipeline Memory
begin

text \<open>
  The notebook's chat loop (the last cell): for each of the four \<open>user_inputs\<close>,
  read the memory (\<open>pipeline_memory.get()\<close>), join its messages' \<open>str\<close> with
  newlines, run the pipeline with the query, the history and its text, then put the
  user's message and the response's message into the memory, printing both and an
  empty line. The session state is the memory buffer and the lines printed so far.
  An exception of \<open>pipeline.run\<close> ends the loop: the turn that raised it has not
  touched the memory, the earlier turns' updates stay. \<open>pipeline.run\<close> of a pipeline
  with a single leaf returns that leaf's single output, the response, whose
  \<open>.message\<close> the loop reads (\<open>leaf_response\<close>).
  The abstract session keeps the whole conversation log, without eviction, and
  passes the pipeline what eviction leaves of it; the loop refines it.
\<close>

fun leaf_response :: "(string \<times> (string \<times> val) list) list \<Rightarrow> chat_message result" where
  "leaf_response [(_, [(_, VResp r)])] = Inr r"
| "leaf_response _ = Inl (TypeError ''pipeline output is not a single response'')"

record session =
  pipeline_memory :: "chat_message memory_buffer"
  stdout :: "string list"

definition user_inputs :: "string list" where
  "user_inputs =
     [''Hello!'', ''How does tool-use work with Claude-3 work?'', ''What models support it?'',
      ''Thanks, that what I needed to know!'']"

definition initial_session :: "(chat_message \<Rightarrow> nat) \<Rightarrow> session" where
  "initial_session tok = \<lparr>pipeline_memory = from_defaults tok 8000, stdout = []\<rparr>"

definition chat_turn :: "collaborators \<Rightarrow> session \<Rightarrow> string \<Rightarrow> session result" where
  "chat_turn c st msg =
     (let chat_history = mem_get (pipeline_memory st);
          chat_history_str = history_str chat_history
      in ebind (notebook_run c msg chat_history chat_history_str) (\<lambda>outs.
         ebind (leaf_response outs) (\<lambda>response.
         let user_msg = \<lparr>role = User, content = msg\<rparr>;
             m1 = mem_put (pipeline_memory st) user_msg;
             out1 = stdout st @ [message_str user_msg];
             m2 = mem_put m1 response;
             out2 = out1 @ [message_str response, '''']
         in Inr \<lparr>pipeline_memory = m2, stdout = out2\<rparr>)))"

fun chat_loop :: "collaborators \<Rightarrow> session \<Rightarrow> string list \<Rightarrow> error option \<times> session" where
  "chat_loop c st [] = (None, st)"
| "chat_loop c st (msg # msgs) =
     (case chat_turn c st msg of
        Inl e \<Rightarrow> (Some e, st)
      | Inr st' \<Rightarrow> chat_loop c st' msgs)"

definition notebook_session :: "collaborators \<Rightarrow> (chat_message \<Rightarrow> nat) \<Rightarrow> error option \<times> session" where
  "notebook_session c tok = chat_loop c (initial_session tok) user_inputs"

subsection \<open>The abstract session\<close>

definition turn_reply :: "collaborators \<Rightarrow> chat_message list \<Rightarrow> string \<Rightarrow> chat_message result" where
  "turn_reply c h q = ebind (notebook_run c q h (history_str h)) leaf_response"

fun spec_loop ::
  "collaborators \<Rightarrow> (chat_message \<Rightarrow> nat) \<Rightarrow> nat \<Rightarrow> chat_message list \<Rightarrow> string list
   \<Rightarrow> error option \<times> chat_message list" where
  "spec_loop c f B log [] = (None, log)"
| "spec_loop c f B log (q # qs) =
     (case turn_reply c (evict f B log) q of
        Inl e \<Rightarrow> (Some e, log)
      | Inr r \<Rightarrow> spec_loop c f B (log @ [\<lparr>role = User, content = q\<rparr>, r]) qs)"

inductive reachable :: "collaborators \<Rightarrow> (chat_message \<Rightarrow> nat) \<Rightarrow> session \<Rightarrow> bool"
  for c tok where
  start: "reachable c tok (initial_session tok)"
| turn: "reachable c tok st \<Longrightarrow> chat_turn c st q = Inr st' \<Longrightarrow> reachable c tok st'"

text \<open>Collaborators for concrete runs: every service answers.\<close>

abbreviation ok_services :: collaborators where
  "ok_services \<equiv> \<lparr>c_llm = \<lparr>llm_chat = \<lambda>_. Inr \<lparr>role = Assistant, content = ''ok''\<rparr>,
                                 llm_achat = \<lambda>_. Inr \<lparr>role = Assistant, content = ''ok''\<rparr>\<rparr>,
                   c_retrieve = \<lambda>_ _. Inr [], c_rerank = \<lambda>_ _ ns. Inr ns\<rparr>"

lemmas session_simps [model_simps] =
  user_inputs_def initial_session_def chat_turn_def notebook_session_def turn_reply_def

subsection \<open>One turn\<close>

lemma chat_turn_Inr:
  "chat_turn c st msg =
   ebind (turn_reply c (mem_get (pipeline_memory st)) msg) (\<lambda>r.
     Inr \<lparr>pipeline_memory = (pipeline_memory st)\<lparr>mem_entries :=
            evict (mem_size (pipeline_memory st)) (token_limit (pipeline_memory st))
              (mem_get (pipeline_memory st) @ [\<lparr>role = User, content = msg\<rparr>, r])\<rparr>,
          stdout = stdout st @ [message_str \<lparr>role = User, content = msg\<rparr>, message_str r, '''']\<rparr>)"
  using foldl_mem_put [of "[\<lparr>role = User, content = msg\<rparr>, _]" "pipeline_memory st"]
  by (cases "notebook_run c msg (mem_get (pipeline_memory st)) (history_str (mem_get (pipeline_memory st)))")
    (auto simp: chat_turn_def turn_reply_def Let_def mem_get_def ebind_eq_Inr_iff
      split: sum.splits)

lemma chat_turn_fields:
  assumes "chat_turn c st msg = Inr st'"
  shows "mem_size (pipeline_memory st') = mem_size (pipeline_memory st)"
    and "token_limit (pipeline_memory st') = token_limit (pipeline_memory st)"
    and "length (stdout st') = length (stdout st) + 3"
    and "mem_ok (pipeline_memory st')"
  using assms evict_within_budget
  by (auto simp: chat_turn_Inr ebind_eq_Inr_iff mem_ok_def)

lemma chat_loop_reachable:
  "reachable c tok st \<Longrightarrow> reachable c tok (snd (chat_loop c st qs))"
  by (induction qs arbitrary: st) (auto intro: reachable.turn split: sum.splits)

lemma reachable_inv:
  "reachable c tok st \<Longrightarrow>
   mem_ok (pipeline_memory st) \<and> token_limit (pipeline_memory st) = 8000 \<and>
   mem_size (pipeline_memory st) = tok \<and> 3 dvd length (stdout st)"
proof (induction rule: reachable.induct)
  case start
  then show ?case by (simp add: initial_session_def from_defaults_def mem_ok_def within_budget_def)
next
  case (turn st q st')
  then show ?case using chat_turn_fields [OF turn.hyps(2)] by simp
qed

lemma turn_reply_Inr:
  assumes "\<forall>ms. \<exists>r. llm_chat (c_llm c) ms = Inr r"
    and "\<forall>k q. \<exists>ns. c_retrieve c k q = Inr ns"
    and "\<forall>k q ns. \<exists>ns'. c_rerank c k q ns = Inr ns'"
  shows "\<exists>r. turn_reply c h q = Inr r"
proof -
  obtain m where m: "llm_chat (c_llm c) [\<lparr>role = User, content =
      ''Please write a query to a semantic search engine using the current conversation.\<newline>\<newline>\<newline>''
      @ history_str h @ ''\<newline>\<newline>Latest message: '' @ q @ ''\<newline>Query:\"\"\"\<newline>''\<rparr>] = Inr m"
    using assms(1) by blast
  obtain ns1 where n1: "c_retrieve c 6 (message_str m) = Inr ns1" using assms(2) by blast
  obtain ns2 where n2: "c_retrieve c 6 q = Inr ns2" using assms(2) by blast
  obtain ns3 where n3: "c_rerank c 3 q (ns1 @ ns2) = Inr ns3" using assms(3) by blast
  obtain r where "llm_chat (c_llm c) (\<lparr>role = System, content = qa_system_prompt\<rparr> # h @
      [\<lparr>role = User, content = ''Here is some context that may be relevant:\<newline>-----\<newline>''
         @ node_context_loop 0 ns3 []
         @ ''\<newline>-----\<newline>Please write a response to the following question, using the above context:\<newline>''
         @ q @ ''\<newline>''\<rparr>]) = Inr r"
    using assms(1) by blast
  with m n1 n2 n3 show ?thesis
    unfolding turn_reply_def notebook_run_def notebook_pipeline_built ebind_Inr notebook_run_built
    by simp
qed

lemma chat_loop_completes:
  assumes "\<And>h q. \<exists>r. turn_reply c h q = Inr r"
  shows "fst (chat_loop c st qs) = None \<and>
         length (stdout (snd (chat_loop c st qs))) = length (stdout st) + 3 * length qs"
proof (induction qs arbitrary: st)
  case Nil
  then show ?case by simp
next
  case (Cons q qs)
  obtain r where "turn_reply c (mem_get (pipeline_memory st)) q = Inr r" using assms by blast
  then obtain st' where "chat_turn c st q = Inr st'" by (simp add: chat_turn_Inr)
  with Cons.IH [of st'] chat_turn_fields(3) [of c st q st'] show ?case by simp
qed

lemma chat_loop_stdout_le:
  "length (stdout (snd (chat_loop c st qs))) \<le> length (stdout st) + 3 * length qs"
proof (induction qs arbitrary: st)
  case (Cons q qs)
  show ?case
  proof (cases "chat_turn c st q")
    case (Inl e)
    then show ?thesis by simp
  next
    case (Inr st')
    with Cons.IH [of st'] chat_turn_fields(3) [OF Inr] show ?thesis by simp
  qed
qed simp

lemma evict_length_le: "length (evict f B xs) \<le> length xs"
  using evict_suffix suffix_length_le by blast

lemma reachable_mem_length:
  "reachable c tok st \<Longrightarrow> 3 * length (mem_get (pipeline_memory st)) \<le> 2 * length (stdout st)"
proof (induction rule: reachable.induct)
  case start
  then show ?case by (simp add: initial_session_def from_defaults_def mem_get_def)
next
  case (turn st q st')
  then obtain r where "turn_reply c (mem_get (pipeline_memory st)) q = Inr r"
    and m: "mem_get (pipeline_memory st') =
           evict (mem_size (pipeline_memory st)) (token_limit (pipeline_memory st))
             (mem_get (pipeline_memory st) @ [\<lparr>role = User, content = q\<rparr>, r])"
    and o: "length (stdout st') = length (stdout st) + 3"
    by (auto simp: chat_turn_Inr ebind_eq_Inr_iff mem_get_def)
  have "length (mem_get (pipeline_memory st')) \<le> length (mem_get (pipeline_memory st)) + 2"
    unfolding m using evict_length_le [of "mem_size (pipeline_memory st)" "token_limit (pipeline_memory st)"
      "mem_get (pipeline_memory st) @ [\<lparr>role = User, content = q\<rparr>, r]"] by simp
  with turn.IH o show ?case by linarith
qed

subsection \<open>Properties of the session\<close>

text \<open>C6: After a successful turn the notebook's memory is within its token budget
  or holds a single message, its last message is the response of the turn (never
  evicted, even when it alone exceeds the budget), and it is a suffix of the old
  memory followed by the user's message and the response: only the oldest messages
  are evicted, in order.\<close>

theorem chat_turn_memory_bounded:
  assumes "turn_reply c (mem_get (pipeline_memory st)) msg = Inr r"
    and "chat_turn c st msg = Inr st'"
  shows "mem_ok (pipeline_memory st') \<and> last (mem_get (pipeline_memory st')) = r \<and>
         suffix (mem_get (pipeline_memory st'))
           (mem_get (pipeline_memory st) @ [\<lparr>role = User, content = msg\<rparr>, r])"
proof -
  let ?xs = "mem_get (pipeline_memory st) @ [\<lparr>role = User, content = msg\<rparr>, r]"
  have m: "mem_get (pipeline_memory st') =
             evict (mem_size (pipeline_memory st)) (token_limit (pipeline_memory st)) ?xs"
    and f: "mem_size (pipeline_memory st') = mem_size (pipeline_memory st)"
           "token_limit (pipeline_memory st') = token_limit (pipeline_memory st)"
    using assms by (auto simp: chat_turn_Inr mem_get_def)
  have "suffix (evict (mem_size (pipeline_memory st)) (token_limit (pipeline_memory st)) ?xs) ?xs"
    by (rule evict_suffix)
  moreover have "last (evict (mem_size (pipeline_memory st)) (token_limit (pipeline_memory st)) ?xs) = r"
    by (simp add: evict_last)
  moreover have "within_budget (mem_size (pipeline_memory st)) (token_limit (pipeline_memory st))
                   (evict (mem_size (pipeline_memory st)) (token_limit (pipeline_memory st)) ?xs)"
    by (rule evict_within_budget)
  ultimately show ?thesis using m f by (simp add: mem_ok_def mem_get_def)
qed

theorem chat_turn_memory_bounded_witness:
  "turn_reply ok_services (mem_get (pipeline_memory (initial_session (\<lambda>_. 5000)))) ''Hello!'' =
     Inr \<lparr>role = Assistant, content = ''ok''\<rparr> \<and>
   chat_turn ok_services (initial_session (\<lambda>_. 5000)) ''Hello!'' = Inr
     \<lparr>pipeline_memory = \<lparr>mem_entries = [\<lparr>role = Assistant, content = ''ok''\<rparr>], token_limit = 8000,
        mem_size = \<lambda>_. 5000\<rparr>, stdout = [''user: Hello!'', ''assistant: ok'', '''']\<rparr> \<and>
   mem_ok \<lparr>mem_entries = [\<lparr>role = Assistant, content = ''ok''\<rparr>], token_limit = 8000, mem_size = \<lambda>_. 5000\<rparr>"
proof -
  have h: "turn_reply ok_services (mem_get (pipeline_memory (initial_session (\<lambda>_. 5000)))) ''Hello!'' =
     Inr \<lparr>role = Assistant, content = ''ok''\<rparr>"
    unfolding turn_reply_def notebook_run_def notebook_pipeline_built ebind_Inr notebook_run_built
    by simp
  have t: "chat_turn ok_services (initial_session (\<lambda>_. 5000)) ''Hello!'' = Inr
     \<lparr>pipeline_memory = \<lparr>mem_entries = [\<lparr>role = Assistant, content = ''ok''\<rparr>], token_limit = 8000,
        mem_size = \<lambda>_. 5000\<rparr>, stdout = [''user: Hello!'', ''assistant: ok'', '''']\<rparr>"
    using h by (simp add: chat_turn_Inr initial_session_def from_defaults_def mem_get_def message_str_def)
  show ?thesis using h t chat_turn_memory_bounded [OF h t] by simp
qed

text \<open>C20: A turn evicts no more history than the budget forces: every suffix of the
  old memory followed by the user's message and the response that is longer than what
  the memory keeps exceeds the token budget.\<close>

theorem chat_turn_keeps_most_history:
  assumes "turn_reply c (mem_get (pipeline_memory st)) msg = Inr r"
    and "chat_turn c st msg = Inr st'"
    and "suffix ys (mem_get (pipeline_memory st) @ [\<lparr>role = User, content = msg\<rparr>, r])"
    and "length (mem_get (pipeline_memory st')) < length ys"
  shows "token_limit (pipeline_memory st) < total_size (mem_size (pipeline_memory st)) ys"
proof -
  have "mem_get (pipeline_memory st') =
          evict (mem_size (pipeline_memory st)) (token_limit (pipeline_memory st))
            (mem_get (pipeline_memory st) @ [\<lparr>role = User, content = msg\<rparr>, r])"
    using assms(1,2) by (auto simp: chat_turn_Inr mem_get_def)
  with assms(3,4) show ?thesis by (simp add: evict_least)
qed

theorem chat_turn_keeps_most_history_witness:
  "turn_reply ok_services (mem_get (pipeline_memory (initial_session (\<lambda>_. 5000)))) ''Hello!'' =
     Inr \<lparr>role = Assistant, content = ''ok''\<rparr> \<and>
   chat_turn ok_services (initial_session (\<lambda>_. 5000)) ''Hello!'' = Inr
     \<lparr>pipeline_memory = \<lparr>mem_entries = [\<lparr>role = Assistant, content = ''ok''\<rparr>], token_limit = 8000,
        mem_size = \<lambda>_. 5000\<rparr>, stdout = [''user: Hello!'', ''assistant: ok'', '''']\<rparr> \<and>
   suffix [\<lparr>role = User, content = ''Hello!''\<rparr>, \<lparr>role = Assistant, content = ''ok''\<rparr>]
     (mem_get (pipeline_memory (initial_session (\<lambda>_. 5000))) @
      [\<lparr>role = User, content = ''Hello!''\<rparr>, \<lparr>role = Assistant, content = ''ok''\<rparr>]) \<and>
   length (mem_get (pipeline_memory \<lparr>pipeline_memory = \<lparr>mem_entries = [\<lparr>role = Assistant, content = ''ok''\<rparr>],
     token_limit = 8000, mem_size = \<lambda>_. 5000\<rparr>, stdout = [''user: Hello!'', ''assistant: ok'', '''']\<rparr>)) <
     length [\<lparr>role = User, content = ''Hello!''\<rparr>, \<lparr>role = Assistant, content = ''ok''\<rparr>] \<and>
   token_limit (pipeline_memory (initial_session (\<lambda>_. 5000))) <
     total_size (mem_size (pipeline_memory (initial_session (\<lambda>_. 5000))))
       [\<lparr>role = User, content = ''Hello!''\<rparr>, \<lparr>role = Assistant, content = ''ok''\<rparr>]"
proof -
  have h: "turn_reply ok_services (mem_get (pipeline_memory (initial_session (\<lambda>_. 5000)))) ''Hello!'' =
     Inr \<lparr>role = Assistant, content = ''ok''\<rparr>"
    unfolding turn_reply_def notebook_run_def notebook_pipeline_built ebind_Inr notebook_run_built
    by simp
  have t: "chat_turn ok_services (initial_session (\<lambda>_. 5000)) ''Hello!'' = Inr
     \<lparr>pipeline_memory = \<lparr>mem_entries = [\<lparr>role = Assistant, content = ''ok''\<rparr>], token_limit = 8000,
        mem_size = \<lambda>_. 5000\<rparr>, stdout = [''user: Hello!'', ''assistant: ok'', '''']\<rparr>"
    using h by (simp add: chat_turn_Inr initial_session_def from_defaults_def mem_get_def message_str_def)
  have s: "suffix [\<lparr>role = User, content = ''Hello!''\<rparr>, \<lparr>role = Assistant, content = ''ok''\<rparr>]
     (mem_get (pipeline_memory (initial_session (\<lambda>_. 5000))) @
      [\<lparr>role = User, content = ''Hello!''\<rparr>, \<lparr>role = Assistant, content = ''ok''\<rparr>])"
    by (simp add: initial_session_def from_defaults_def mem_get_def)
  have l: "length (mem_get (pipeline_memory \<lparr>pipeline_memory = \<lparr>mem_entries = [\<lparr>role = Assistant, content = ''ok''\<rparr>],
     token_limit = 8000, mem_size = \<lambda>_. 5000\<rparr>, stdout = [''user: Hello!'', ''assistant: ok'', '''']\<rparr>)) <
     length [\<lparr>role = User, content = ''Hello!''\<rparr>, \<lparr>role = Assistant, content = ''ok''\<rparr>]"
    by (simp add: mem_get_def)
  show ?thesis using h t s l chat_turn_keeps_most_history [OF h t s l] by blast
qed

text \<open>C28: With a tokenizer that counts every message as one token, the notebook's
  buffer (\<open>token_limit=8000\<close>) keeps, after any sequence of \<open>put\<close>s, exactly the last
  8000 messages, in the order they were put.\<close>

theorem notebook_memory_keeps_last:
  "mem_get (foldl mem_put (pipeline_memory (initial_session (\<lambda>_. 1))) es) = drop (length es - 8000) es"
  using mem_count_budget [of 8000 es] by (simp add: initial_session_def)

text \<open>C14: A successful turn puts the user's message and then the response's message
  into the memory, in that order, after what it held, with the buffer's eviction
  applied, and prints \<open>user: msg\<close>, the response's \<open>str\<close> and an empty line.\<close>

theorem chat_turn_puts_in_order:
  assumes "turn_reply c (mem_get (pipeline_memory st)) msg = Inr r"
  shows "\<exists>st'. chat_turn c st msg = Inr st' \<and>
           mem_get (pipeline_memory st') =
             evict (mem_size (pipeline_memory st)) (token_limit (pipeline_memory st))
               (mem_get (pipeline_memory st) @ [\<lparr>role = User, content = msg\<rparr>, r]) \<and>
           stdout st' = stdout st @ [''user: '' @ msg, message_str r, '''']"
  using assms by (simp add: chat_turn_Inr mem_get_def message_str_def)

theorem chat_turn_puts_in_order_witness:
  "turn_reply ok_services (mem_get (pipeline_memory (initial_session (\<lambda>_. 1)))) ''Hello!'' =
     Inr \<lparr>role = Assistant, content = ''ok''\<rparr> \<and>
   (\<exists>st'. chat_turn ok_services (initial_session (\<lambda>_. 1)) ''Hello!'' = Inr st' \<and>
      mem_get (pipeline_memory st') =
        evict (\<lambda>_. 1) 8000 ([] @ [\<lparr>role = User, content = ''Hello!''\<rparr>, \<lparr>role = Assistant, content = ''ok''\<rparr>]) \<and>
      stdout st' = [] @ [''user: '' @ ''Hello!'', message_str \<lparr>role = Assistant, content = ''ok''\<rparr>, ''''])"
proof -
  have h: "turn_reply ok_services (mem_get (pipeline_memory (initial_session (\<lambda>_. 1)))) ''Hello!'' =
     Inr \<lparr>role = Assistant, content = ''ok''\<rparr>"
    unfolding turn_reply_def notebook_run_def notebook_pipeline_built ebind_Inr notebook_run_built
    by simp
  have e: "mem_get (pipeline_memory (initial_session (\<lambda>_. 1))) = []"
          "stdout (initial_session (\<lambda>_. 1)) = []"
          "mem_size (pipeline_memory (initial_session (\<lambda>_. 1))) = (\<lambda>_. 1)"
          "token_limit (pipeline_memory (initial_session (\<lambda>_. 1))) = 8000"
    by (simp_all add: initial_session_def from_defaults_def mem_get_def)
  show ?thesis using h chat_turn_puts_in_order [OF h] unfolding e by blast
qed

text \<open>C2: The chat loop refines the abstract session that keeps the whole
  conversation log: when the memory holds what eviction leaves of a log, the loop
  stops with the same error (or none) as the abstract session, and its memory is
  what eviction leaves of the abstract session's final log, the user's messages
  and the responses interleaved in the order of the turns.\<close>

theorem chat_loop_refines:
  assumes "mem_get (pipeline_memory st) =
             evict (mem_size (pipeline_memory st)) (token_limit (pipeline_memory st)) log"
  shows "fst (chat_loop c st qs) =
           fst (spec_loop c (mem_size (pipeline_memory st)) (token_limit (pipeline_memory st)) log qs) \<and>
         mem_get (pipeline_memory (snd (chat_loop c st qs))) =
           evict (mem_size (pipeline_memory st)) (token_limit (pipeline_memory st))
             (snd (spec_loop c (mem_size (pipeline_memory st)) (token_limit (pipeline_memory st)) log qs))"
  using assms
proof (induction qs arbitrary: st log)
  case Nil
  then show ?case by simp
next
  case (Cons q qs)
  let ?m = "pipeline_memory st"
  show ?case
  proof (cases "turn_reply c (mem_get ?m) q")
    case (Inl e)
    with Cons.prems show ?thesis by (simp add: chat_turn_Inr)
  next
    case (Inr r)
    then obtain st' where t: "chat_turn c st q = Inr st'"
      and m': "mem_get (pipeline_memory st') =
                 evict (mem_size ?m) (token_limit ?m) (mem_get ?m @ [\<lparr>role = User, content = q\<rparr>, r])"
      by (simp add: chat_turn_Inr mem_get_def)
    note f = chat_turn_fields(1,2) [OF t]
    have "mem_get (pipeline_memory st') =
            evict (mem_size ?m) (token_limit ?m) (log @ [\<lparr>role = User, content = q\<rparr>, r])"
      using m' Cons.prems by (simp add: evict_evict_append)
    with f have "mem_get (pipeline_memory st') =
            evict (mem_size (pipeline_memory st')) (token_limit (pipeline_memory st'))
              (log @ [\<lparr>role = User, content = q\<rparr>, r])" by simp
    from Cons.IH [OF this] f Inr t Cons.prems show ?thesis by simp
  qed
qed

theorem chat_loop_refines_witness:
  "mem_get (pipeline_memory (initial_session (\<lambda>_. 1))) =
     evict (mem_size (pipeline_memory (initial_session (\<lambda>_. 1))))
       (token_limit (pipeline_memory (initial_session (\<lambda>_. 1)))) [] \<and>
   fst (chat_loop ok_services (initial_session (\<lambda>_. 1)) user_inputs) =
     fst (spec_loop ok_services (\<lambda>_. 1) 8000 [] user_inputs) \<and>
   mem_get (pipeline_memory (snd (chat_loop ok_services (initial_session (\<lambda>_. 1)) user_inputs))) =
     evict (\<lambda>_. 1) 8000 (snd (spec_loop ok_services (\<lambda>_. 1) 8000 [] user_inputs))"
proof -
  have h: "mem_get (pipeline_memory (initial_session (\<lambda>_. 1))) =
     evict (mem_size (pipeline_memory (initial_session (\<lambda>_. 1))))
       (token_limit (pipeline_memory (initial_session (\<lambda>_. 1)))) []"
    by (simp add: initial_session_def from_defaults_def mem_get_def)
  have e: "mem_size (pipeline_memory (initial_session (\<lambda>_. 1))) = (\<lambda>_. 1)"
          "token_limit (pipeline_memory (initial_session (\<lambda>_. 1))) = 8000"
    by (simp_all add: initial_session_def from_defaults_def)
  show ?thesis using h chat_loop_refines [OF h, of ok_services user_inputs] unfolding e by blast
qed

text \<open>C23: Whatever the services answer and whatever the tokenizer counts, at the
  end of the notebook's session the memory is within its 8000-token budget or holds
  a single message, the budget is still 8000, and the loop has printed three lines
  per completed turn (an invariant of every reachable session state, by rule
  induction on \<open>reachable\<close>).\<close>

theorem notebook_session_bounded:
  "mem_ok (pipeline_memory (snd (notebook_session c tok))) \<and>
   token_limit (pipeline_memory (snd (notebook_session c tok))) = 8000 \<and>
   3 dvd length (stdout (snd (notebook_session c tok)))"
  using reachable_inv [OF chat_loop_reachable [OF reachable.start]]
  by (simp add: notebook_session_def)

end
