(* ===== verification/Notebook_Main.thy ===== *)
theory Notebook_Main
  imports Complex_Main Doc_Cleanup Chat_Session
begin

text \<open>
  The notebook as one program, its cells in order: load the web page into documents
  (\<open>BeautifulSoupWebReader().load_data([...])\<close>), clean the first document's text,
  build the vector index over the documents with the OpenAI embedding model
  (\<open>VectorStoreIndex.from_documents(documents, embed_model=OpenAIEmbedding(...))\<close>),
  create the LLM (\<open>OpenAI(model=..., temperature=0.2)\<close>) and the reranker, then run the
  chat session over the index's retriever (\<open>index.as_retriever(similarity_top_k=k)\<close>).
  The reader, the embedding service with the index, the OpenAI client, the ColBERT
  reranker and the tokenizer of the memory are opaque services (\<open>services\<close>); each
  call may fail, and an exception ends the program. Constructing the OpenAI client
  and the ColBERT reranker (which loads its checkpoint) may fail as well
  (\<open>s_openai_init\<close>, \<open>s_colbert_init\<close>), after the index is built, as in the
  pipeline cell. The index is modelled by the
  retriever it yields, a function of \<open>k\<close> and the query.
\<close>

record embed_model =
  embed_model_name :: string
  embed_batch_size :: nat

record openai_llm =
  llm_model_name :: string
  llm_temperature :: rat

record services =
  s_load_data :: "string list \<Rightarrow> document list result"
  s_from_documents :: "embed_model \<Rightarrow> document list \<Rightarrow> (nat \<Rightarrow> string \<Rightarrow> node_with_score list result) result"
  s_openai_init :: "openai_llm \<Rightarrow> unit result"
  s_openai :: "openai_llm \<Rightarrow> llm_client"
  s_colbert_init :: "nat \<Rightarrow> unit result"
  s_colbert :: "nat \<Rightarrow> string \<Rightarrow> node_with_score list \<Rightarrow> node_with_score list result"
  s_tokenizer :: "chat_message \<Rightarrow> nat"

definition tool_use_urls :: "string list" where
  "tool_use_urls = [''https://docs.anthropic.com/claude/docs/tool-use'']"

definition load_documents :: "services \<Rightarrow> document list result" where
  "load_documents sv = s_load_data sv tool_use_urls"

definition notebook_embed_model :: embed_model where
  "notebook_embed_model = \<lparr>embed_model_name = ''text-embedding-3-large'', embed_batch_size = 256\<rparr>"

definition build_index ::
  "services \<Rightarrow> document list \<Rightarrow> (nat \<Rightarrow> string \<Rightarrow> node_with_score list result) result" where
  "build_index sv documents = s_from_documents sv notebook_embed_model documents"

definition notebook_llm :: openai_llm where
  "notebook_llm = \<lparr>llm_model_name = ''gpt-4-turbo-preview'', llm_temperature = 1 / 5\<rparr>"

definition notebook_collaborators ::
  "services \<Rightarrow> (nat \<Rightarrow> string \<Rightarrow> node_with_score list result) \<Rightarrow> collaborators" where
  "notebook_collaborators sv index =
     \<lparr>c_llm = s_openai sv notebook_llm, c_retrieve = index, c_rerank = s_colbert sv\<rparr>"

definition notebook_main :: "services \<Rightarrow> (error option \<times> session) result" where
  "notebook_main sv =
     ebind (load_documents sv) (\<lambda>documents.
     ebind (clean_documents documents) (\<lambda>documents.
     ebind (build_index sv documents) (\<lambda>index.
     ebind (s_openai_init sv notebook_llm) (\<lambda>_.
     ebind (s_colbert_init sv 3) (\<lambda>_.
     Inr (notebook_session (notebook_collaborators sv index) (s_tokenizer sv)))))))"

text \<open>Services for concrete runs: the page has one blank run, every call answers.\<close>

abbreviation demo_services :: services where
  "demo_services \<equiv>
     \<lparr>s_load_data = \<lambda>_. Inr [\<lparr>doc_text = ''a\<newline>\<newline>\<newline>b''\<rparr>],
      s_from_documents = \<lambda>_ _. Inr (\<lambda>_ _. Inr []),
      s_openai_init = \<lambda>_. Inr (),
      s_openai = \<lambda>_. \<lparr>llm_chat = \<lambda>_. Inr \<lparr>role = Assistant, content = ''ok''\<rparr>,
                      llm_achat = \<lambda>_. Inr \<lparr>role = Assistant, content = ''ok''\<rparr>\<rparr>,
      s_colbert_init = \<lambda>_. Inr (), s_colbert = \<lambda>_ _ ns. Inr ns, s_tokenizer = \<lambda>_. 1\<rparr>"

lemmas main_simps [model_simps] =
  tool_use_urls_def load_documents_def notebook_embed_model_def build_index_def
  notebook_llm_def notebook_collaborators_def notebook_main_def

subsection \<open>The cells composed\<close>

lemma notebook_main_Inr:
  assumes "notebook_main sv = Inr r"
  obtains d ds t index where "load_documents sv = Inr (d # ds)"
    and "clean_text (doc_text d) = Inr t"
    and "build_index sv (d\<lparr>doc_text := t\<rparr> # ds) = Inr index"
    and "s_openai_init sv notebook_llm = Inr ()" and "s_colbert_init sv 3 = Inr ()"
    and "r = notebook_session (notebook_collaborators sv index) (s_tokenizer sv)"
proof -
  from assms obtain docs where l: "load_documents sv = Inr docs"
    and r: "ebind (clean_documents docs) (\<lambda>documents. ebind (build_index sv documents) (\<lambda>index.
              ebind (s_openai_init sv notebook_llm) (\<lambda>_. ebind (s_colbert_init sv 3) (\<lambda>_.
              Inr (notebook_session (notebook_collaborators sv index) (s_tokenizer sv)))))) = Inr r"
    by (auto simp: notebook_main_def ebind_eq_Inr_iff)
  then obtain d ds where "docs = d # ds"
    by (cases docs) (auto simp: clean_documents_def)
  with l r show thesis
    by (auto simp: clean_documents_def ebind_eq_Inr_iff intro: that)
qed

subsection \<open>Properties of the program\<close>

text \<open>C5: When the program gets through its set-up cells, the index was built from the
  documents the reader returned with the first document's text cleaned: that text has
  no two consecutive blank lines, keeps every non-blank line of the page in order,
  and the chat session runs over that index's retriever.\<close>

theorem notebook_main_indexes_clean_text:
  assumes "notebook_main sv = Inr r"
  shows "\<exists>d ds t index. load_documents sv = Inr (d # ds) \<and>
           build_index sv (d\<lparr>doc_text := t\<rparr> # ds) = Inr index \<and>
           successively no_blank_pair (py_split CHR ''\<newline>'' t) \<and>
           filter (\<lambda>l. \<not> is_blank l) (py_split CHR ''\<newline>'' t) =
             filter (\<lambda>l. \<not> is_blank l) (py_split CHR ''\<newline>'' (doc_text d)) \<and>
           r = notebook_session (notebook_collaborators sv index) (s_tokenizer sv)"
proof -
  obtain d ds t index where l: "load_documents sv = Inr (d # ds)"
    and c: "clean_text (doc_text d) = Inr t"
    and b: "build_index sv (d\<lparr>doc_text := t\<rparr> # ds) = Inr index"
    and "s_openai_init sv notebook_llm = Inr ()" and "s_colbert_init sv 3 = Inr ()"
    and r: "r = notebook_session (notebook_collaborators sv index) (s_tokenizer sv)"
    by (rule notebook_main_Inr [OF assms])
  from clean_text_lines [OF c] obtain l ls where
    s: "py_split CHR ''\<newline>'' (doc_text d) = l # ls" and
    t: "py_split CHR ''\<newline>'' t = l # collapse_blank_runs l ls" by blast
  have "successively no_blank_pair (py_split CHR ''\<newline>'' t)"
    using collapse_no_blank_pair [of l ls] t by simp
  moreover have "filter (\<lambda>l. \<not> is_blank l) (py_split CHR ''\<newline>'' t) =
                   filter (\<lambda>l. \<not> is_blank l) (py_split CHR ''\<newline>'' (doc_text d))"
    using collapse_keeps_nonblank [of l ls] s t by simp
  ultimately show ?thesis using l b r by blast
qed

theorem notebook_main_indexes_clean_text_witness:
  "notebook_main demo_services =
     Inr (notebook_session (notebook_collaborators demo_services (\<lambda>_ _. Inr [])) (\<lambda>_. 1)) \<and>
   (\<exists>d ds t index. load_documents demo_services = Inr (d # ds) \<and>
      build_index demo_services (d\<lparr>doc_text := t\<rparr> # ds) = Inr index \<and>
      successively no_blank_pair (py_split CHR ''\<newline>'' t) \<and>
      filter (\<lambda>l. \<not> is_blank l) (py_split CHR ''\<newline>'' t) =
        filter (\<lambda>l. \<not> is_blank l) (py_split CHR ''\<newline>'' (doc_text d)) \<and>
      notebook_session (notebook_collaborators demo_services (\<lambda>_ _. Inr [])) (\<lambda>_. 1) =
        notebook_session (notebook_collaborators demo_services index) (s_tokenizer demo_services))"
proof -
  have h: "notebook_main demo_services =
     Inr (notebook_session (notebook_collaborators demo_services (\<lambda>_ _. Inr [])) (\<lambda>_. 1))"
    by (simp add: notebook_main_def load_documents_def build_index_def tool_use_urls_def
        clean_documents_def clean_text_def fix_lines_def fix_loop.simps is_blank_def py_str_simps)
  show ?thesis using h notebook_main_indexes_clean_text [OF h] by simp
qed

text \<open>C24: When the reader returns no document, the program raises \<open>IndexError\<close> at
  \<open>documents[0]\<close>, before the index, the LLM or the session is used.\<close>

theorem notebook_main_no_documents:
  assumes "load_documents sv = Inr []"
  shows "notebook_main sv = Inl IndexError"
  using assms by (simp add: notebook_main_def clean_documents_def)

theorem notebook_main_no_documents_witness:
  "load_documents (demo_services\<lparr>s_load_data := \<lambda>_. Inr []\<rparr>) = Inr [] \<and>
   notebook_main (demo_services\<lparr>s_load_data := \<lambda>_. Inr []\<rparr>) = Inl IndexError"
proof -
  have h: "load_documents (demo_services\<lparr>s_load_data := \<lambda>_. Inr []\<rparr>) = Inr []"
    by (simp add: load_documents_def)
  show ?thesis using h notebook_main_no_documents [OF h] by simp
qed

end
