(* ===== verification/Pipeline_Types.thy ===== *)
theory Pipeline_Types
  imports Notebook_Pipeline
begin

text \<open>
  Types of the values that flow through the notebook's pipeline, and the static
  check the spec's design notes ask for: each module has a fixed-shape contract, its
  input and output keys with a type, and a link is well typed when its source key's
  type fits its destination key's type. The types are the Python types the code
  annotates or returns: \<open>str\<close>, \<open>List[ChatMessage]\<close>, \<open>List[NodeWithScore]\<close>
  and the LLM's chat response; a chat response may stand where a string is
  expected, since a module that needs text takes \<open>str\<close> of it (\<open>stringify\<close>).
  This subtyping is the order of the type class \<open>order\<close> on \<open>vtype\<close>.
  As in a typed language (preservation), each module of the notebook, given inputs of
  its declared types, returns outputs of its declared types, or fails with an error
  of one of the services it calls.
\<close>

datatype vtype = TStr | TMsgs | TNodes | TResp

fun type_of :: "val \<Rightarrow> vtype" where
  "type_of (VStr _) = TStr"
| "type_of (VMsgs _) = TMsgs"
| "type_of (VNodes _) = TNodes"
| "type_of (VResp _) = TResp"

instantiation vtype :: order
begin

definition less_eq_vtype :: "vtype \<Rightarrow> vtype \<Rightarrow> bool" where
  "less_eq_vtype t t' \<longleftrightarrow> t = t' \<or> (t = TResp \<and> t' = TStr)"

definition less_vtype :: "vtype \<Rightarrow> vtype \<Rightarrow> bool" where
  "less_vtype t t' \<longleftrightarrow> t \<le> t' \<and> t \<noteq> t'"

instance
  by standard (auto simp: less_eq_vtype_def less_vtype_def)

end

record signature =
  sig_in :: "(string \<times> vtype) list"
  sig_out :: "(string \<times> vtype) list"

definition input_sig :: signature where
  "input_sig =
     \<lparr>sig_in = [(''query_str'', TStr), (''chat_history'', TMsgs), (''chat_history_str'', TStr)],
      sig_out = [(''query_str'', TStr), (''chat_history'', TMsgs), (''chat_history_str'', TStr)]\<rparr>"

definition prompt_sig :: signature where
  "prompt_sig = \<lparr>sig_in = [(''chat_history_str'', TStr), (''query_str'', TStr)], sig_out = [(''prompt'', TStr)]\<rparr>"

definition llm_sig :: signature where
  "llm_sig = \<lparr>sig_in = [(''messages'', TStr)], sig_out = [(''output'', TResp)]\<rparr>"

definition retriever_sig :: signature where
  "retriever_sig = \<lparr>sig_in = [(''input'', TStr)], sig_out = [(''output'', TNodes)]\<rparr>"

definition argpack_sig :: "string list \<Rightarrow> signature" where
  "argpack_sig keys = \<lparr>sig_in = map (\<lambda>k. (k, TNodes)) keys, sig_out = [(''output'', TNodes)]\<rparr>"

definition reranker_sig :: signature where
  "reranker_sig = \<lparr>sig_in = [(''nodes'', TNodes), (''query_str'', TStr)], sig_out = [(''nodes'', TNodes)]\<rparr>"

definition response_sig :: signature where
  "response_sig =
     \<lparr>sig_in = [(''chat_history'', TMsgs), (''nodes'', TNodes), (''query_str'', TStr)],
      sig_out = [(''response'', TResp)]\<rparr>"

definition notebook_sigs :: "(string \<times> signature) list" where
  "notebook_sigs =
     [(''input'', input_sig), (''rewrite_template'', prompt_sig), (''llm'', llm_sig),
      (''rewrite_retriever'', retriever_sig), (''query_retriever'', retriever_sig),
      (''join'', argpack_sig [''rewrite_nodes'', ''query_nodes'']), (''reranker'', reranker_sig),
      (''response_component'', response_sig)]"

definition vals_typed :: "(string \<times> vtype) list \<Rightarrow> (string \<times> val) list \<Rightarrow> bool" where
  "vals_typed sig kvs \<longleftrightarrow> list_all2 (\<lambda>(k, t) (k', v). k = k' \<and> type_of v \<le> t) sig kvs"

definition link_typed :: "(string \<times> signature) list \<Rightarrow> link \<Rightarrow> bool" where
  "link_typed sigs l \<longleftrightarrow>
     (case (map_of sigs (src l), map_of sigs (dst l)) of
        (Some s, Some d) \<Rightarrow>
          (case (map_of (sig_out s) (src_key l), map_of (sig_in d) (dst_key l)) of
             (Some t, Some t') \<Rightarrow> t \<le> t'
           | _ \<Rightarrow> False)
      | _ \<Rightarrow> False)"

definition module_fits :: "(string \<times> signature) list \<Rightarrow> string \<times> 'v module \<Rightarrow> bool" where
  "module_fits sigs nm \<longleftrightarrow>
     (case map_of sigs (fst nm) of
        Some s \<Rightarrow> map fst (sig_in s) = m_required (snd nm) @ m_optional (snd nm)
                  \<and> map fst (sig_out s) = m_outputs (snd nm)
      | None \<Rightarrow> False)"

definition pipeline_typed :: "(string \<times> signature) list \<Rightarrow> 'v pipeline \<Rightarrow> bool" where
  "pipeline_typed sigs p \<longleftrightarrow> list_all (module_fits sigs) (modules p) \<and> list_all (link_typed sigs) (links p)"

lemmas types_simps [model_simps] =
  input_sig_def prompt_sig_def llm_sig_def retriever_sig_def argpack_sig_def reranker_sig_def
  response_sig_def notebook_sigs_def vals_typed_def link_typed_def module_fits_def pipeline_typed_def

subsection \<open>Typing lemmas\<close>

lemma type_of_le_TStr [simp]: "type_of v \<le> TStr \<longleftrightarrow> (\<exists>s. v = VStr s) \<or> (\<exists>m. v = VResp m)"
  by (cases v) (auto simp: less_eq_vtype_def)

lemma type_of_le_TMsgs [simp]: "type_of v \<le> TMsgs \<longleftrightarrow> (\<exists>ms. v = VMsgs ms)"
  by (cases v) (auto simp: less_eq_vtype_def)

lemma type_of_le_TNodes [simp]: "type_of v \<le> TNodes \<longleftrightarrow> (\<exists>ns. v = VNodes ns)"
  by (cases v) (auto simp: less_eq_vtype_def)

lemma type_of_le_TResp [simp]: "type_of v \<le> TResp \<longleftrightarrow> (\<exists>m. v = VResp m)"
  by (cases v) (auto simp: less_eq_vtype_def)

lemma stringify_typed: "type_of v \<le> TStr \<Longrightarrow> \<exists>s. stringify v = Inr s"
  by auto

lemma vals_typed_Cons [simp]:
  "vals_typed ((k, t) # sig) kvs \<longleftrightarrow>
   (\<exists>v kvs'. kvs = (k, v) # kvs' \<and> type_of v \<le> t \<and> vals_typed sig kvs')"
  by (cases kvs) (auto simp: vals_typed_def)

lemma vals_typed_Nil [simp]: "vals_typed [] kvs \<longleftrightarrow> kvs = []"
  by (simp add: vals_typed_def)

lemma pack_nodes_typed:
  "list_all (\<lambda>v. type_of v \<le> TNodes) vs \<Longrightarrow> \<exists>ns. pack_nodes vs = Inr ns"
  by (induction vs) (auto simp: as_nodes_def)

subsection \<open>Each module preserves types\<close>

lemma input_preserves:
  "vals_typed (sig_in input_sig) ins \<Longrightarrow>
   m_run (input_component [''query_str'', ''chat_history'', ''chat_history_str'']) ins = Inr ins \<and>
   vals_typed (sig_out input_sig) ins"
  by (simp add: input_component_def input_sig_def)

lemma prompt_preserves:
  "vals_typed (sig_in prompt_sig) ins \<Longrightarrow>
   \<exists>outs. m_run (prompt_module rewrite_template) ins = Inr outs \<and> vals_typed (sig_out prompt_sig) outs"
  by (auto simp: prompt_module_def prompt_sig_def format_rewrite_template)

lemma llm_preserves:
  "vals_typed (sig_in llm_sig) ins \<Longrightarrow>
   (\<exists>outs. m_run (llm_module llm) ins = Inr outs \<and> vals_typed (sig_out llm_sig) outs) \<or>
   (\<exists>e ms. m_run (llm_module llm) ins = Inl e \<and> llm_chat llm ms = Inl e)"
  by (auto simp: llm_module_def llm_sig_def ebind_def split: sum.splits)

lemma retriever_preserves:
  "vals_typed (sig_in retriever_sig) ins \<Longrightarrow>
   (\<exists>outs. m_run (retriever_module retrieve k) ins = Inr outs \<and> vals_typed (sig_out retriever_sig) outs) \<or>
   (\<exists>e q. m_run (retriever_module retrieve k) ins = Inl e \<and> retrieve k q = Inl e)"
  by (auto simp: retriever_module_def retriever_sig_def ebind_def split: sum.splits)

lemma argpack_preserves:
  "vals_typed (sig_in (argpack_sig keys)) ins \<Longrightarrow>
   \<exists>outs. m_run (argpack_module keys) ins = Inr outs \<and> vals_typed (sig_out (argpack_sig keys)) outs"
proof -
  assume "vals_typed (sig_in (argpack_sig keys)) ins"
  then have "list_all (\<lambda>v. type_of v \<le> TNodes) (map snd ins)"
    by (induction keys arbitrary: ins) (auto simp: argpack_sig_def)
  then obtain ns where "pack_nodes (map snd ins) = Inr ns" using pack_nodes_typed by blast
  then show ?thesis by (simp add: argpack_module_def argpack_sig_def)
qed

lemma reranker_preserves:
  "vals_typed (sig_in reranker_sig) ins \<Longrightarrow>
   (\<exists>outs. m_run (reranker_module rerank k) ins = Inr outs \<and> vals_typed (sig_out reranker_sig) outs) \<or>
   (\<exists>e q ns. m_run (reranker_module rerank k) ins = Inl e \<and> rerank k q ns = Inl e)"
  by (auto simp: reranker_module_def reranker_sig_def ebind_def split: sum.splits)

lemma response_preserves:
  "vals_typed (sig_in response_sig) ins \<Longrightarrow>
   (\<exists>outs. m_run (response_module llm) ins = Inr outs \<and> vals_typed (sig_out response_sig) outs) \<or>
   (\<exists>e ms. m_run (response_module llm) ins = Inl e \<and> llm_chat llm ms = Inl e)"
  by (auto simp: response_module_def response_sig_def run_component_def run_with_def
      component_args_def prepare_context_def response_component_def format_context_prompt
      Let_def ebind_def split: sum.splits)

subsection \<open>Properties of the typing\<close>

text \<open>C11: The pipeline the notebook builds is well typed: every module's declared
  keys are its signature's keys, every link joins an output to an input whose type
  accepts it, and the keyword arguments of \<open>pipeline.run\<close> have the input module's
  types.\<close>

theorem notebook_pipeline_well_typed:
  assumes "notebook_pipeline c = Inr p"
  shows "pipeline_typed notebook_sigs p \<and>
         vals_typed (sig_in input_sig) (map (\<lambda>((_, k), v). (k, v)) (run_inputs q h hs))"
proof -
  have p: "p = \<lparr>modules = notebook_modules c, links = resolved_links\<rparr>"
    using assms notebook_pipeline_built [of c] by simp
  show ?thesis
    unfolding p
    by (simp add: pipeline_typed_def module_fits_def link_typed_def notebook_sigs_def resolved_links_def
        input_sig_def prompt_sig_def llm_sig_def retriever_sig_def argpack_sig_def reranker_sig_def
        response_sig_def run_inputs_def module_defs less_eq_vtype_def)
qed

theorem notebook_pipeline_well_typed_witness:
  "notebook_pipeline down_services = Inr \<lparr>modules = notebook_modules down_services, links = resolved_links\<rparr> \<and>
   pipeline_typed notebook_sigs \<lparr>modules = notebook_modules down_services, links = resolved_links\<rparr> \<and>
   vals_typed (sig_in input_sig) (map (\<lambda>((_, k), v). (k, v)) (run_inputs ''Hello!'' [] ''''))"
proof -
  have b: "notebook_pipeline down_services = Inr \<lparr>modules = notebook_modules down_services, links = resolved_links\<rparr>"
    by (rule notebook_pipeline_built)
  show ?thesis using b notebook_pipeline_well_typed [OF b, of "''Hello!''" "[]" "''''"] by simp
qed

text \<open>C12: Preservation: each module of the notebook's pipeline, given inputs of the
  types of its signature, returns outputs of its signature's types, or raises an error
  that one of the services (the LLM, the retriever, the reranker) returned; no module
  raises a type or key error on well-typed inputs.\<close>

theorem notebook_modules_preserve_types:
  assumes "(n, m) \<in> set (notebook_modules c)"
    and "map_of notebook_sigs n = Some s"
    and "vals_typed (sig_in s) ins"
  shows "(\<exists>outs. m_run m ins = Inr outs \<and> vals_typed (sig_out s) outs) \<or>
         (\<exists>e. m_run m ins = Inl e \<and>
            ((\<exists>ms. llm_chat (c_llm c) ms = Inl e) \<or> (\<exists>k q. c_retrieve c k q = Inl e) \<or>
             (\<exists>k q ns. c_rerank c k q ns = Inl e)))"
  using assms unfolding notebook_modules_def notebook_sigs_def
  by (auto dest!: input_preserves prompt_preserves llm_preserves retriever_preserves
      argpack_preserves reranker_preserves response_preserves)

theorem notebook_modules_preserve_types_witness:
  "(''llm'', llm_module (c_llm down_services)) \<in> set (notebook_modules down_services) \<and>
   map_of notebook_sigs ''llm'' = Some llm_sig \<and>
   vals_typed (sig_in llm_sig) [(''messages'', VStr ''q'')] \<and>
   ((\<exists>outs. m_run (llm_module (c_llm down_services)) [(''messages'', VStr ''q'')] = Inr outs \<and>
       vals_typed (sig_out llm_sig) outs) \<or>
    (\<exists>e. m_run (llm_module (c_llm down_services)) [(''messages'', VStr ''q'')] = Inl e \<and>
       ((\<exists>ms. llm_chat (c_llm down_services) ms = Inl e) \<or> (\<exists>k q. c_retrieve down_services k q = Inl e) \<or>
        (\<exists>k q ns. c_rerank down_services k q ns = Inl e))))"
proof -
  have a: "(''llm'', llm_module (c_llm down_services)) \<in> set (notebook_modules down_services)"
    by (simp add: notebook_modules_def)
  have b: "map_of notebook_sigs ''llm'' = Some llm_sig" by (simp add: notebook_sigs_def)
  have t: "vals_typed (sig_in llm_sig) [(''messages'', VStr ''q'')]" by (simp add: llm_sig_def)
  show ?thesis using a b t notebook_modules_preserve_types [OF a b t] by blast
qed

end
