(* ===== verification/Executor_Orders.thy ===== *)
theory Executor_Orders
  imports Pipeline
begin

text \<open>
  The executor's concurrency-aware mode (spec, section 4.4 and 5): independent
  units, with no link between them, may be invoked in either order or at once, each
  \<open>(unit, key)\<close> slot of the execution context having a single writer. The
  sequential executor \<open>exec_order\<close> is run here on any order of the units, and
  \<open>same_outcome\<close> compares two runs: both fail (with the error of whichever unit
  failed first), or both succeed with the same outputs per unit, as a multiset of
  (unit, outputs) pairs. The main lemma: for a pipeline whose link table has one
  producer per input slot, all topologically sorted orders of its units have the
  same outcome; so a schedule that runs independent units concurrently, which is a
  topological order once serialised, computes what the sequential \<open>run\<close>
  computes.
\<close>

definition independent :: "link list \<Rightarrow> string \<Rightarrow> string \<Rightarrow> bool" where
  "independent ls a b \<longleftrightarrow> \<not> list_ex (\<lambda>l. (src l = a \<and> dst l = b) \<or> (src l = b \<and> dst l = a)) ls"

definition same_outcome :: "('a list) result \<Rightarrow> ('a list) result \<Rightarrow> bool" where
  "same_outcome r r' \<longleftrightarrow>
     (case (r, r') of
        (Inr x, Inr y) \<Rightarrow> mset x = mset y
      | (Inl _, Inl _) \<Rightarrow> True
      | _ \<Rightarrow> False)"

definition step :: "'v pipeline \<Rightarrow> 'v exec_ctx \<Rightarrow> string \<Rightarrow> 'v exec_ctx \<Rightarrow> (string \<times> 'v) list result" where
  "step p init n ctx = ebind (get p n) (\<lambda>m. ebind (gather ctx init n m) (\<lambda>inputs. m_run m inputs))"

subsection \<open>The execution context is read through its map\<close>

lemma exec_order_Cons_step:
  "exec_order p init (n # ns) ctx res =
   ebind (step p init n ctx) (\<lambda>outs. exec_order p init ns (propagate (links p) n outs ctx) (res @ [(n, outs)]))"
  by (simp add: step_def ebind_assoc)

lemma gather_required_slot:
  assumes "\<And>k. map_of ctx (n, k) = map_of ctx' (n, k)"
  shows "gather_required ctx init n ks = gather_required ctx' init n ks"
proof (induction ks)
  case (Cons k ks)
  have "lookup_input ctx init n k = lookup_input ctx' init n k"
    unfolding lookup_input_def assms by (rule refl)
  with Cons.IH show ?case by (simp split: option.split)
qed simp

lemma gather_slot:
  assumes "\<And>k. map_of ctx (n, k) = map_of ctx' (n, k)"
  shows "gather ctx init n m = gather ctx' init n m"
proof -
  have "gather_optional ctx init n ks = gather_optional ctx' init n ks" for ks
    unfolding gather_optional_def lookup_input_def assms by (rule refl)
  then show ?thesis unfolding gather_def gather_required_slot [OF assms] by simp
qed

lemma step_slot:
  assumes "\<And>k. map_of ctx (n, k) = map_of ctx' (n, k)"
  shows "step p init n ctx = step p init n ctx'"
  unfolding step_def gather_slot [OF assms] by (rule refl)

lemma map_of_propagate:
  "map_of (propagate ls n outs ctx) =
   map_of ctx ++ map_of (concat (map (\<lambda>l. if src l = n then
                        (case map_of outs (src_key l) of None \<Rightarrow> [] | Some v \<Rightarrow> [((dst l, dst_key l), v)])
                      else []) ls))"
  by (simp only: propagate_def map_of_append)

lemma propagate_cong:
  "map_of ctx = map_of ctx' \<Longrightarrow> map_of (propagate ls n outs ctx) = map_of (propagate ls n outs ctx')"
  by (simp only: map_of_propagate)

lemma exec_order_cong:
  "map_of ctx = map_of ctx' \<Longrightarrow> exec_order p init ns ctx res = exec_order p init ns ctx' res"
proof (induction ns arbitrary: ctx ctx' res)
  case (Cons n ns)
  have s: "step p init n ctx = step p init n ctx'" by (rule step_slot) (simp add: Cons.prems)
  have "map_of (propagate (links p) n outs ctx) = map_of (propagate (links p) n outs ctx')" for outs
    using Cons.prems by (rule propagate_cong)
  then have "exec_order p init ns (propagate (links p) n outs ctx) r =
             exec_order p init ns (propagate (links p) n outs ctx') r" for outs r
    by (rule Cons.IH)
  then show ?case by (simp add: exec_order_Cons_step s del: exec_order.simps(2))
qed simp

lemma exec_order_acc:
  "exec_order p init ns ctx res = map_sum id ((@) res) (exec_order p init ns ctx [])"
proof (induction ns arbitrary: ctx res)
  case Nil
  then show ?case by simp
next
  case (Cons n ns)
  show ?case
  proof (cases "step p init n ctx")
    case (Inl e)
    then show ?thesis by (simp add: exec_order_Cons_step del: exec_order.simps(2))
  next
    case (Inr outs)
    let ?c = "propagate (links p) n outs ctx"
    have a: "exec_order p init ns ?c (res @ [(n, outs)]) =
             map_sum id ((@) (res @ [(n, outs)])) (exec_order p init ns ?c [])"
      by (rule Cons.IH)
    have b: "exec_order p init ns ?c [(n, outs)] = map_sum id ((@) [(n, outs)]) (exec_order p init ns ?c [])"
      by (rule Cons.IH)
    show ?thesis
      using Inr a b by (cases "exec_order p init ns ?c []")
        (simp_all add: exec_order_Cons_step del: exec_order.simps(2))
  qed
qed

subsection \<open>Outcomes\<close>

lemma same_outcome_refl [simp]: "same_outcome r r"
  by (cases r) (auto simp: same_outcome_def)

lemma same_outcome_sym: "same_outcome r r' \<Longrightarrow> same_outcome r' r"
  by (auto simp: same_outcome_def split: sum.splits)

lemma same_outcome_trans: "same_outcome r r' \<Longrightarrow> same_outcome r' r'' \<Longrightarrow> same_outcome r r''"
  by (auto simp: same_outcome_def split: sum.splits)

lemma same_outcome_prefix:
  "mset xs = mset ys \<Longrightarrow> same_outcome (map_sum id ((@) xs) r) (map_sum id ((@) ys) r)"
  by (cases r) (auto simp: same_outcome_def)

subsection \<open>Independent units commute\<close>

definition sent :: "link list \<Rightarrow> string \<Rightarrow> (string \<times> 'v) list \<Rightarrow> 'v exec_ctx" where
  "sent ls n outs = concat (map (\<lambda>l. if src l = n then
                        (case map_of outs (src_key l) of None \<Rightarrow> [] | Some v \<Rightarrow> [((dst l, dst_key l), v)])
                      else []) ls)"

lemma propagate_sent: "propagate ls n outs ctx = sent ls n outs @ ctx"
  by (simp add: propagate_def sent_def)

lemma sent_keys: "fst ` set (sent ls n outs) \<subseteq> (\<lambda>l. (dst l, dst_key l)) ` {l \<in> set ls. src l = n}"
  by (auto simp: sent_def split: if_splits option.splits)

lemma propagate_other_slot:
  assumes "\<forall>l\<in>set ls. src l = a \<longrightarrow> dst l \<noteq> n"
  shows "map_of (propagate ls a outs ctx) (n, k) = map_of ctx (n, k)"
proof -
  have "(n, k) \<notin> fst ` set (sent ls a outs)" using sent_keys [of ls a outs] assms by auto
  then show ?thesis by (simp add: propagate_sent map_of_eq_None_iff [symmetric] map_add_def)
qed

lemma propagate_commute:
  assumes "distinct (map (\<lambda>l. (dst l, dst_key l)) ls)" and "a \<noteq> b"
  shows "map_of (propagate ls b ob (propagate ls a oa ctx)) = map_of (propagate ls a oa (propagate ls b ob ctx))"
proof -
  have inj: "inj_on (\<lambda>l. (dst l, dst_key l)) (set ls)" using assms(1) by (simp add: distinct_map)
  have "(\<lambda>l. (dst l, dst_key l)) ` {l \<in> set ls. src l = a} \<inter>
        (\<lambda>l. (dst l, dst_key l)) ` {l \<in> set ls. src l = b} = {}"
    using inj assms(2) unfolding inj_on_def by blast
  moreover have "fst ` set (sent ls a oa) \<inter> fst ` set (sent ls b ob) \<subseteq>
        (\<lambda>l. (dst l, dst_key l)) ` {l \<in> set ls. src l = a} \<inter>
        (\<lambda>l. (dst l, dst_key l)) ` {l \<in> set ls. src l = b}"
    using sent_keys [of ls a oa] sent_keys [of ls b ob] by (rule Int_mono)
  ultimately have "fst ` set (sent ls a oa) \<inter> fst ` set (sent ls b ob) = {}"
    by (simp only: subset_empty)
  then have "map_of (sent ls a oa) ++ map_of (sent ls b ob) = map_of (sent ls b ob) ++ map_of (sent ls a oa)"
    by (intro map_add_comm) (simp add: dom_map_of_conv_image_fst)
  then have "map_of ctx ++ (map_of (sent ls a oa) ++ map_of (sent ls b ob)) =
             map_of ctx ++ (map_of (sent ls b ob) ++ map_of (sent ls a oa))"
    by (simp only:)
  then have "map_of ctx ++ map_of (sent ls a oa) ++ map_of (sent ls b ob) =
             map_of ctx ++ map_of (sent ls b ob) ++ map_of (sent ls a oa)"
    by simp
  then show ?thesis unfolding propagate_sent map_of_append .
qed

lemma independent_no_link:
  "independent ls a b \<Longrightarrow> \<forall>l\<in>set ls. src l = a \<longrightarrow> dst l \<noteq> b"
  "independent ls a b \<Longrightarrow> \<forall>l\<in>set ls. src l = b \<longrightarrow> dst l \<noteq> a"
  by (auto simp: independent_def list_ex_iff)

lemma step_after_independent:
  "independent (links p) a b \<Longrightarrow>
   step p init b (propagate (links p) a outs ctx) = step p init b ctx"
  by (rule step_slot) (rule propagate_other_slot, rule independent_no_link(1))

lemma independent_sym: "independent ls a b \<Longrightarrow> independent ls b a"
  by (auto simp: independent_def list_ex_iff)

lemma exec_order_swap:
  assumes reg: "distinct (map (\<lambda>l. (dst l, dst_key l)) (links p))"
    and ind: "independent (links p) a b" and ab: "a \<noteq> b"
  shows "same_outcome (exec_order p init (a # b # ns) ctx res) (exec_order p init (b # a # ns) ctx res)"
proof (cases "step p init a ctx")
  case (Inl e)
  then show ?thesis
    using step_after_independent [OF independent_sym [OF ind], of init]
    by (cases "step p init b ctx") (simp_all add: exec_order_Cons_step same_outcome_def del: exec_order.simps(2))
next
  case (Inr oa)
  note sa = Inr
  show ?thesis
  proof (cases "step p init b ctx")
    case (Inl e)
    then show ?thesis
      using sa step_after_independent [OF ind, of init]
      by (simp add: exec_order_Cons_step same_outcome_def del: exec_order.simps(2))
  next
    case (Inr ob)
    let ?c1 = "propagate (links p) b ob (propagate (links p) a oa ctx)"
    let ?c2 = "propagate (links p) a oa (propagate (links p) b ob ctx)"
    have c: "exec_order p init ns ?c1 r = exec_order p init ns ?c2 r" for r
      by (rule exec_order_cong) (rule propagate_commute [OF reg ab])
    have l: "exec_order p init (a # b # ns) ctx res = exec_order p init ns ?c1 (res @ [(a, oa), (b, ob)])"
      using sa Inr step_after_independent [OF ind, of init]
      by (simp add: exec_order_Cons_step del: exec_order.simps(2))
    have r: "exec_order p init (b # a # ns) ctx res = exec_order p init ns ?c2 (res @ [(b, ob), (a, oa)])"
      using sa Inr step_after_independent [OF independent_sym [OF ind], of init]
      by (simp add: exec_order_Cons_step del: exec_order.simps(2))
    have a1: "exec_order p init ns ?c2 (res @ [(a, oa), (b, ob)]) =
              map_sum id ((@) (res @ [(a, oa), (b, ob)])) (exec_order p init ns ?c2 [])"
      by (rule exec_order_acc)
    have a2: "exec_order p init ns ?c2 (res @ [(b, ob), (a, oa)]) =
              map_sum id ((@) (res @ [(b, ob), (a, oa)])) (exec_order p init ns ?c2 [])"
      by (rule exec_order_acc)
    show ?thesis
      unfolding l r c a1 a2 by (rule same_outcome_prefix) simp
  qed
qed

lemma same_outcome_Cons:
  assumes "\<And>ctx res. same_outcome (exec_order p init L ctx res) (exec_order p init L' ctx res)"
  shows "same_outcome (exec_order p init (x # L) ctx res) (exec_order p init (x # L') ctx res)"
  using assms by (cases "step p init x ctx") (simp_all add: exec_order_Cons_step del: exec_order.simps(2))

lemma exec_order_bubble:
  assumes reg: "distinct (map (\<lambda>l. (dst l, dst_key l)) (links p))"
    and ind: "\<forall>x\<in>set pre. independent (links p) x a \<and> x \<noteq> a"
  shows "same_outcome (exec_order p init (pre @ a # post) ctx res) (exec_order p init (a # pre @ post) ctx res)"
  using ind
proof (induction pre arbitrary: ctx res)
  case (Cons x pre)
  have "same_outcome (exec_order p init (x # pre @ a # post) ctx res) (exec_order p init (x # a # pre @ post) ctx res)"
    by (rule same_outcome_Cons) (use Cons in simp)
  moreover have "same_outcome (exec_order p init (x # a # pre @ post) ctx res) (exec_order p init (a # x # pre @ post) ctx res)"
    using Cons.prems by (intro exec_order_swap [OF reg]) simp_all
  ultimately show ?case by (simp add: same_outcome_trans)
qed simp

subsection \<open>All topological orders have the same outcome\<close>

lemma topo_sorted_tl: "topo_sorted E (a # xs) \<Longrightarrow> topo_sorted E xs"
  by (simp add: topo_sorted_def)

lemma topo_sorted_remove: "topo_sorted E (pre @ a # post) \<Longrightarrow> topo_sorted E (pre @ post)"
  by (auto simp: topo_sorted_def sorted_wrt_append)

lemma topo_sorted_head: "topo_sorted E (a # xs) \<Longrightarrow> x \<in> set xs \<Longrightarrow> (x, a) \<notin> set E"
  by (simp add: topo_sorted_def)

lemma topo_sorted_before: "topo_sorted E (pre @ a # post) \<Longrightarrow> x \<in> set pre \<Longrightarrow> (a, x) \<notin> set E"
  by (auto simp: topo_sorted_def sorted_wrt_append)

lemma independent_edges:
  "(x, a) \<notin> set (edges p) \<Longrightarrow> (a, x) \<notin> set (edges p) \<Longrightarrow> independent (links p) x a"
  by (force simp: independent_def edges_def list_ex_iff)

lemma topo_orders_same_outcome:
  assumes reg: "distinct (map (\<lambda>l. (dst l, dst_key l)) (links p))"
  shows "distinct ns \<Longrightarrow> mset ns = mset ns' \<Longrightarrow> topo_sorted (edges p) ns \<Longrightarrow> topo_sorted (edges p) ns' \<Longrightarrow>
         same_outcome (exec_order p init ns ctx res) (exec_order p init ns' ctx res)"
proof (induction ns arbitrary: ns' ctx res)
  case Nil
  then show ?case by simp
next
  case (Cons a ns1)
  have s: "set (a # ns1) = set ns'" by (rule mset_eq_setD [OF Cons.prems(2)])
  have "a \<in> set ns'" unfolding s [symmetric] by simp
  then obtain pre post where ns': "ns' = pre @ a # post" by (meson split_list)
  have "distinct ns'" using Cons.prems(1,2) mset_eq_imp_distinct_iff by blast
  then have apre: "a \<notin> set pre" by (simp add: ns')
  have m: "mset ns1 = mset (pre @ post)" using Cons.prems(2) by (simp add: ns')
  have ind: "\<forall>x\<in>set pre. independent (links p) x a \<and> x \<noteq> a"
  proof
    fix x assume x: "x \<in> set pre"
    then have "x \<in> set (a # ns1)" unfolding s ns' by simp
    with x apre have "x \<in> set ns1" by auto
    then have "(x, a) \<notin> set (edges p)" using topo_sorted_head [OF Cons.prems(3)] by blast
    moreover have "(a, x) \<notin> set (edges p)" using topo_sorted_before Cons.prems(4) x by (simp add: ns')
    ultimately show "independent (links p) x a \<and> x \<noteq> a" using apre x by (auto intro: independent_edges)
  qed
  have ih: "same_outcome (exec_order p init ns1 c r) (exec_order p init (pre @ post) c r)" for c r
  proof (rule Cons.IH)
    show "distinct ns1" using Cons.prems(1) by simp
    show "mset ns1 = mset (pre @ post)" by (rule m)
    show "topo_sorted (edges p) ns1" using Cons.prems(3) by (rule topo_sorted_tl)
    show "topo_sorted (edges p) (pre @ post)" using Cons.prems(4) unfolding ns' by (rule topo_sorted_remove)
  qed
  have 1: "same_outcome (exec_order p init (a # ns1) ctx res) (exec_order p init (a # pre @ post) ctx res)"
    by (rule same_outcome_Cons) (rule ih)
  have 2: "same_outcome (exec_order p init (pre @ a # post) ctx res) (exec_order p init (a # pre @ post) ctx res)"
    by (rule exec_order_bubble [OF reg ind])
  show ?case unfolding ns' using 1 same_outcome_sym [OF 2] by (rule same_outcome_trans)
qed

lemma same_outcome_filter:
  "same_outcome r r' \<Longrightarrow> same_outcome (map_sum id (filter P) r) (map_sum id (filter P) r')"
  by (auto simp: same_outcome_def split: sum.splits)

lemma run_any_topological_order:
  assumes reg: "links_registered p"
    and v: "validate p (map fst init) = Inr order"
    and m: "mset ns = mset (names p)" and t: "topo_sorted (edges p) ns"
  shows "same_outcome (map_sum id (filter (\<lambda>(n, _). is_leaf p n)) (exec_order p init ns [] [])) (run p init)"
proof -
  from validate_Inr [OF v] have mo: "mset order = mset (names p)" and to: "topo_sorted (edges p) order"
    by auto
  have d: "distinct ns" using reg m mset_eq_imp_distinct_iff by (auto simp: links_registered_def)
  have "distinct (map (\<lambda>l. (dst l, dst_key l)) (links p))" using reg by (simp add: links_registered_def)
  then have "same_outcome (exec_order p init ns [] []) (exec_order p init order [] [])"
    using d m mo t to by (intro topo_orders_same_outcome) simp_all
  then have "same_outcome (map_sum id (filter (\<lambda>(n, _). is_leaf p n)) (exec_order p init ns [] []))
               (map_sum id (filter (\<lambda>(n, _). is_leaf p n)) (exec_order p init order [] []))"
    by (rule same_outcome_filter)
  moreover have "run p init = map_sum id (filter (\<lambda>(n, _). is_leaf p n)) (exec_order p init order [] [])"
    using v by (cases "exec_order p init order [] []") (simp_all add: run_def)
  ultimately show ?thesis by simp
qed

end
