(* ===== verification/Notebook_Transcript.thy ===== *)
theory Notebook_Transcript
  imports Chat_Session
begin

text \<open>
  The notebook's last cell was saved with its output: the \<open>stdout\<close> stream of the
  chat session, the four questions of \<open>user_inputs\<close> and the answers the OpenAI
  model gave. This theory holds that output as data and checks the session model
  against it: with an LLM that gives the recorded answers, the session prints the
  recorded text exactly, whatever the memory's tokenizer counts. \<open>print(s)\<close> writes
  \<open>s\<close> and a newline, so the stream is \<open>print_lines\<close> of the session's printed lines.
\<close>

definition print_lines :: "string list \<Rightarrow> string" where
  "print_lines ls = concat (map (\<lambda>s. s @ ''\<newline>'') ls)"

definition recorded_output :: string where
  "recorded_output = concat
     [''user: Hello!\<newline>'',
      ''assistant: Hello! How can I assist you today?\<newline>'',
      ''\<newline>'',
      ''user: How does tool-use work with Claude-3 work?\<newline>'',
      ''assistant: Tool use with Claude-3 operates under a framework designed to extend the model's capabilities by integrating it with external data sources and functionalities through user-provided tools. This process involves several key steps and considerations to ensure effective tool integration and utilization. Here's a breakdown of how tool use works with Claude-3:\<newline>'',
      ''\<newline>'',
      ''1. **Tool Specification**: Users define tools in the API request, specifying the tool's name, a detailed description of its purpose and behavior, and an input schema that outlines the expected parameters. This schema is crucial for Claude to understand when and how to use the tool correctly.\<newline>'',
      ''\<newline>'',
      ''2. **Decision to Use a Tool**: When Claude-3 receives a user prompt that may benefit from tool use, it assesses whether any available tools can assist with the query or task. This decision is based on the context provided by the user and the detailed descriptions of the tools.\<newline>'',
      ''\<newline>'',
      ''3. **Tool Use Request Formation**: If Claude decides to use a tool, it constructs a properly formatted tool use request. This includes selecting the appropriate tool(s) and determining the necessary inputs based on the user's prompt and the tool's input schema.\<newline>'',
      ''\<newline>'',
      ''4. **Execution of Tool Code**: The actual execution of the tool code occurs on the client side. The system extracts the tool name and input from Claude's tool use request, runs the tool code, and then returns the results to Claude.\<newline>'',
      ''\<newline>'',
      ''5. **Formulating a Response**: After receiving the tool results, Claude uses this information to formulate its final response to the user's original prompt. This step may involve interpreting the tool's output and integrating it into a coherent and informative answer.\<newline>'',
      ''\<newline>'',
      ''6. **Sequential Tool Use**: Claude generally prefers using one tool at a time, using the output of one tool to inform its next action. This sequential approach helps manage dependencies between tools and simplifies the tool use process.\<newline>'',
      ''\<newline>'',
      ''7. **Error Handling and Retries**: If a tool use request is invalid or missing required parameters, Claude can retry the request with the missing information filled in, based on error responses from the client side. However, after a few failed attempts, Claude may stop trying and apologize to the user.\<newline>'',
      ''\<newline>'',
      ''8. **Debugging and Improvement**: Developers are encouraged to debug unexpected tool use behavior by examining Claude's chain of thought output and refining tool descriptions and schemas for clarity and comprehensiveness.\<newline>'',
      ''\<newline>'',
      ''By adhering to these steps and best practices, developers can effectively integrate and utilize tools with Claude-3, significantly expanding its capabilities beyond its base knowledge. This framework allows for the creation of complex, agentic orchestrations where Claude can perform a wide variety of tasks, from simple data retrieval to more complex problem-solving scenarios.\<newline>'',
      ''\<newline>'',
      ''user: What models support it?\<newline>'',
      ''assistant: The tool use feature, as described in the provided context, is supported by Claude-3 models, including specific versions like Claude-3 Opus and Haiku. These models are designed to interact with external client-side tools and functions, allowing for a wide variety of tasks to be performed by equipping Claude with custom tools. The context specifically mentions Claude-3 Opus as being capable of handling more complex tool use scenarios, including managing multiple tools simultaneously and better catching missing arguments. Haiku is mentioned for dealing with more straightforward tools, inferring missing parameters when they are not explicitly given.\<newline>'',
      ''\<newline>'',
      ''user: Thanks, that what I needed to know!\<newline>'',
      ''assistant: You're welcome! If you have any more questions or need further assistance, feel free to ask. Happy to help!\<newline>'',
      ''\<newline>'']"

definition recorded_answers :: "(string \<times> string) list" where
  "recorded_answers =
     [(''Hello!'',
       ''Hello! How can I assist you today?''),
      (''How does tool-use work with Claude-3 work?'',
       ''Tool use with Claude-3 operates under a framework designed to extend the model's capabilities by integrating it with external data sources and functionalities through user-provided tools. This process involves several key steps and considerations to ensure effective tool integration and utilization. Here's a breakdown of how tool use works with Claude-3:\<newline>''
       @ ''\<newline>''
       @ ''1. **Tool Specification**: Users define tools in the API request, specifying the tool's name, a detailed description of its purpose and behavior, and an input schema that outlines the expected parameters. This schema is crucial for Claude to understand when and how to use the tool correctly.\<newline>''
       @ ''\<newline>''
       @ ''2. **Decision to Use a Tool**: When Claude-3 receives a user prompt that may benefit from tool use, it assesses whether any available tools can assist with the query or task. This decision is based on the context provided by the user and the detailed descriptions of the tools.\<newline>''
       @ ''\<newline>''
       @ ''3. **Tool Use Request Formation**: If Claude decides to use a tool, it constructs a properly formatted tool use request. This includes selecting the appropriate tool(s) and determining the necessary inputs based on the user's prompt and the tool's input schema.\<newline>''
       @ ''\<newline>''
       @ ''4. **Execution of Tool Code**: The actual execution of the tool code occurs on the client side. The system extracts the tool name and input from Claude's tool use request, runs the tool code, and then returns the results to Claude.\<newline>''
       @ ''\<newline>''
       @ ''5. **Formulating a Response**: After receiving the tool results, Claude uses this information to formulate its final response to the user's original prompt. This step may involve interpreting the tool's output and integrating it into a coherent and informative answer.\<newline>''
       @ ''\<newline>''
       @ ''6. **Sequential Tool Use**: Claude generally prefers using one tool at a time, using the output of one tool to inform its next action. This sequential approach helps manage dependencies between tools and simplifies the tool use process.\<newline>''
       @ ''\<newline>''
       @ ''7. **Error Handling and Retries**: If a tool use request is invalid or missing required parameters, Claude can retry the request with the missing information filled in, based on error responses from the client side. However, after a few failed attempts, Claude may stop trying and apologize to the user.\<newline>''
       @ ''\<newline>''
       @ ''8. **Debugging and Improvement**: Developers are encouraged to debug unexpected tool use behavior by examining Claude's chain of thought output and refining tool descriptions and schemas for clarity and comprehensiveness.\<newline>''
       @ ''\<newline>''
       @ ''By adhering to these steps and best practices, developers can effectively integrate and utilize tools with Claude-3, significantly expanding its capabilities beyond its base knowledge. This framework allows for the creation of complex, agentic orchestrations where Claude can perform a wide variety of tasks, from simple data retrieval to more complex problem-solving scenarios.''),
      (''What models support it?'',
       ''The tool use feature, as described in the provided context, is supported by Claude-3 models, including specific versions like Claude-3 Opus and Haiku. These models are designed to interact with external client-side tools and functions, allowing for a wide variety of tasks to be performed by equipping Claude with custom tools. The context specifically mentions Claude-3 Opus as being capable of handling more complex tool use scenarios, including managing multiple tools simultaneously and better catching missing arguments. Haiku is mentioned for dealing with more straightforward tools, inferring missing parameters when they are not explicitly given.''),
      (''Thanks, that what I needed to know!'',
       ''You're welcome! If you have any more questions or need further assistance, feel free to ask. Happy to help!'')]"


definition ends_with :: "string \<Rightarrow> string \<Rightarrow> bool" where
  "ends_with s t \<longleftrightarrow> drop (length s - length t) s = t"

definition recorded_reply :: "chat_message list \<Rightarrow> chat_message" where
  "recorded_reply ms =
     \<lparr>role = Assistant,
      content = (case find (\<lambda>(q, a). ends_with (content (last ms)) (q @ ''\<newline>'')) recorded_answers of
                   Some (q, a) \<Rightarrow> a
                 | None \<Rightarrow> content (last ms))\<rparr>"

definition recorded_collaborators :: collaborators where
  "recorded_collaborators =
     \<lparr>c_llm = \<lparr>llm_chat = \<lambda>ms. Inr (recorded_reply ms), llm_achat = \<lambda>ms. Inr (recorded_reply ms)\<rparr>,
      c_retrieve = \<lambda>_ _. Inr [], c_rerank = \<lambda>_ _ ns. Inr ns\<rparr>"

subsection \<open>Sessions whose replies do not depend on the history\<close>

lemma chat_loop_fixed_replies:
  assumes "\<forall>q\<in>set qs. \<forall>h. turn_reply c h q = Inr (reply q)"
  shows "fst (chat_loop c st qs) = None \<and>
         stdout (snd (chat_loop c st qs)) =
           stdout st @ concat (map (\<lambda>q. [message_str \<lparr>role = User, content = q\<rparr>, message_str (reply q), '''']) qs)"
  using assms
proof (induction qs arbitrary: st)
  case (Cons q qs)
  then show ?case by (simp add: chat_turn_Inr)
qed simp

lemma recorded_turn_reply:
  "\<forall>q\<in>set user_inputs. \<forall>h. turn_reply recorded_collaborators h q =
     Inr \<lparr>role = Assistant, content = the (map_of recorded_answers q)\<rparr>"
  by (simp add: user_inputs_def turn_reply_def notebook_run_def notebook_pipeline_built
      notebook_run_built recorded_collaborators_def recorded_reply_def recorded_answers_def
      ends_with_def node_context_loop.simps)


subsection \<open>The recorded run\<close>

text \<open>C29: With an LLM that answers each of the notebook's four questions with the
  answer saved in the cell's output (and retrieval and reranking that succeed), the
  chat session completes all four turns and its standard output is, character for
  character, the output recorded in the notebook, whatever the memory's tokenizer
  counts: each turn prints \<open>user: \<close> and the question, \<open>assistant: \<close> and the
  answer, and an empty line.\<close>

theorem notebook_session_prints_recorded_output:
  "fst (notebook_session recorded_collaborators tok) = None \<and>
   print_lines (stdout (snd (notebook_session recorded_collaborators tok))) = recorded_output"
proof -
  let ?reply = "\<lambda>q. \<lparr>role = Assistant, content = the (map_of recorded_answers q)\<rparr>"
  have l: "fst (notebook_session recorded_collaborators tok) = None \<and>
        stdout (snd (notebook_session recorded_collaborators tok)) =
        [] @ concat (map (\<lambda>q. [message_str \<lparr>role = User, content = q\<rparr>, message_str (?reply q), '''']) user_inputs)"
    using chat_loop_fixed_replies [OF recorded_turn_reply, of "initial_session tok"]
    by (simp add: notebook_session_def initial_session_def)
  have "print_lines (stdout (snd (notebook_session recorded_collaborators tok))) = recorded_output"
    unfolding conjunct2 [OF l] print_lines_def
    by (simp add: recorded_output_def user_inputs_def recorded_answers_def message_str_def)
  with conjunct1 [OF l] show ?thesis ..
qed

end
