(* ===== verification/Compose_Service.thy ===== *)
theory Compose_Service
  imports Py_Str
begin

text \<open>
  The compose file appended to the notebook declares one service, \<open>elasticsearch\<close>:
  its image, three environment entries, one published port and a health check. The
  model holds the file as data (a \<open>record\<close> per YAML mapping, the values as the
  strings and numbers YAML reads; the YAML comment after \<open>xpack.security.enabled=false\<close>
  is not part of the value) and gives each field the meaning the container engine
  gives it:
  \<^item> a port entry \<open>"HOST:CONTAINER"\<close> or \<open>"CONTAINER"\<close> is read with \<open>parse_port\<close>
    into decimal port numbers in 1..65535;
  \<^item> the health test \<open>["CMD-SHELL", cmd]\<close> runs \<open>cmd\<close> in \<open>/bin/sh -c\<close>; the model
    interprets the commands this file uses: simple commands separated by \<open>||\<close>,
    \<open>curl\<close> with its \<open>--fail\<close> flag and one URL, and \<open>exit n\<close>;
  \<^item> the engine probes every \<open>interval\<close>; exit status 0 marks the container healthy
    and resets the failing streak, any other outcome adds a failure, and \<open>retries\<close>
    consecutive failures mark it unhealthy.
  The HTTP answer of the search engine at each probe is an input of the model.
  Only the records and their values (\<open>elasticsearch\<close>, \<open>compose\<close>) translate
  the file; the readers of the port and duration strings, the shell, \<open>curl\<close> and
  the health state machine are the documented behaviour of the engine and the tools
  the file relies on, written here so that the file's values can be given a meaning.
\<close>

subsection \<open>The file\<close>

record healthcheck =
  hc_test :: "string list"
  hc_interval :: string
  hc_retries :: nat

record service =
  svc_image :: string
  svc_environment :: "string list"
  svc_ports :: "string list"
  svc_healthcheck :: healthcheck

record compose_file =
  compose_version :: string
  compose_services :: "(string \<times> service) list"

definition elasticsearch :: service where
  "elasticsearch =
     \<lparr>svc_image = ''docker.elastic.co/elasticsearch/elasticsearch:8.13.2'',
      svc_environment = [''discovery.type=single-node'', ''xpack.license.self_generated.type=trial'',
                         ''xpack.security.enabled=false''],
      svc_ports = [''9200:9200''],
      svc_healthcheck =
        \<lparr>hc_test = [''CMD-SHELL'', ''curl --silent --fail http://localhost:9200/_cluster/health || exit 1''],
         hc_interval = ''10s'', hc_retries = 60\<rparr>\<rparr>"

definition compose :: compose_file where
  "compose = \<lparr>compose_version = ''3'', compose_services = [(''elasticsearch'', elasticsearch)]\<rparr>"

subsection \<open>Decimal numbers, ports, durations and the environment\<close>

definition digit_val :: "char \<Rightarrow> nat option" where
  "digit_val c = (let n = of_char c in if 48 \<le> n \<and> n \<le> 57 then Some (n - 48) else None)"

fun read_digits :: "nat \<Rightarrow> string \<Rightarrow> nat option" where
  "read_digits acc [] = Some acc"
| "read_digits acc (c # cs) =
     (case digit_val c of None \<Rightarrow> None | Some d \<Rightarrow> read_digits (10 * acc + d) cs)"

definition read_nat :: "string \<Rightarrow> nat option" where
  "read_nat s = (if s = [] then None else read_digits 0 s)"

definition valid_port :: "nat \<Rightarrow> bool" where
  "valid_port p \<longleftrightarrow> 1 \<le> p \<and> p \<le> 65535"

definition read_port :: "string \<Rightarrow> nat option" where
  "read_port s = (case read_nat s of Some p \<Rightarrow> if valid_port p then Some p else None | None \<Rightarrow> None)"

record port_mapping =
  pm_published :: "nat option"
  pm_target :: nat

definition parse_port :: "string \<Rightarrow> port_mapping result" where
  "parse_port s =
     (case py_split CHR '':'' s of
        [t] \<Rightarrow> (case read_port t of
                 Some tp \<Rightarrow> Inr \<lparr>pm_published = None, pm_target = tp\<rparr>
               | None \<Rightarrow> Inl (ValueError s))
      | [h, t] \<Rightarrow> (case (read_port h, read_port t) of
                    (Some hp, Some tp) \<Rightarrow> Inr \<lparr>pm_published = Some hp, pm_target = tp\<rparr>
                  | _ \<Rightarrow> Inl (ValueError s))
      | _ \<Rightarrow> Inl (ValueError s))"

definition parse_duration :: "string \<Rightarrow> nat option" where
  "parse_duration s =
     (if s = [] then None
      else let u = last s; n = read_nat (butlast s) in
        if u = CHR ''s'' then n
        else if u = CHR ''m'' then map_option (\<lambda>k. 60 * k) n
        else if u = CHR ''h'' then map_option (\<lambda>k. 3600 * k) n
        else None)"

definition env_entry :: "string \<Rightarrow> (string \<times> string) option" where
  "env_entry e =
     (if CHR ''='' \<in> set e
      then Some (takeWhile (\<lambda>c. c \<noteq> CHR ''='') e, tl (dropWhile (\<lambda>c. c \<noteq> CHR ''='') e))
      else None)"

definition env_of :: "service \<Rightarrow> string \<Rightarrow> string option" where
  "env_of svc = map_of (rev (List.map_filter env_entry (svc_environment svc)))"

subsection \<open>The health test\<close>

datatype http_answer = Refused | Http_Status nat

definition sh_words :: "string \<Rightarrow> string list" where
  "sh_words cmd = filter (\<lambda>w. w \<noteq> []) (py_split CHR '' '' cmd)"

fun split_or :: "string list \<Rightarrow> string list list" where
  "split_or [] = [[]]"
| "split_or (w # ws) =
     (let r = split_or ws in if w = ''||'' then [] # r else (w # hd r) # tl r)"

definition curl_exit :: "(string \<Rightarrow> http_answer) \<Rightarrow> string list \<Rightarrow> nat option" where
  "curl_exit get args =
     (let fail = (''--fail'' \<in> set args \<or> ''-f'' \<in> set args);
          urls = filter (\<lambda>a. take 1 a \<noteq> ''-'') args
      in case urls of
           [url] \<Rightarrow> Some (case get url of
                             Refused \<Rightarrow> 7
                           | Http_Status st \<Rightarrow> if fail \<and> 400 \<le> st then 22 else 0)
         | _ \<Rightarrow> None)"

definition sh_simple :: "(string \<Rightarrow> http_answer) \<Rightarrow> string list \<Rightarrow> nat option" where
  "sh_simple get ws =
     (case ws of
        [] \<Rightarrow> None
      | cmd # args \<Rightarrow>
          if cmd = ''curl'' then curl_exit get args
          else if cmd = ''exit'' then
            (case args of [n] \<Rightarrow> map_option (\<lambda>k. k mod 256) (read_nat n) | _ \<Rightarrow> None)
          else None)"

fun sh_or :: "(string \<Rightarrow> http_answer) \<Rightarrow> string list list \<Rightarrow> nat option" where
  "sh_or get [] = None"
| "sh_or get [c] = sh_simple get c"
| "sh_or get (c # d # cs) =
     (case sh_simple get c of Some 0 \<Rightarrow> Some 0 | Some _ \<Rightarrow> sh_or get (d # cs) | None \<Rightarrow> None)"

definition sh_run :: "(string \<Rightarrow> http_answer) \<Rightarrow> string \<Rightarrow> nat option" where
  "sh_run get cmd = sh_or get (split_or (sh_words cmd))"

definition probe_exit :: "(string \<Rightarrow> http_answer) \<Rightarrow> string list \<Rightarrow> nat option" where
  "probe_exit get test =
     (if length test = 2 \<and> hd test = ''CMD-SHELL'' then sh_run get (test ! 1)
      else if test \<noteq> [] \<and> hd test = ''CMD'' then sh_simple get (tl test)
      else None)"

definition probe_ok :: "(string \<Rightarrow> http_answer) \<Rightarrow> string list \<Rightarrow> bool" where
  "probe_ok get test \<longleftrightarrow> probe_exit get test = Some 0"

subsection \<open>The health state\<close>

datatype health_status = Starting | Healthy | Unhealthy

record health_state =
  h_status :: health_status
  h_failing_streak :: nat

definition health_init :: health_state where
  "health_init = \<lparr>h_status = Starting, h_failing_streak = 0\<rparr>"

definition effective_retries :: "nat \<Rightarrow> nat" where
  "effective_retries r = (if r = 0 then 3 else r)"

definition health_step :: "nat \<Rightarrow> health_state \<Rightarrow> bool \<Rightarrow> health_state" where
  "health_step retries h ok =
     (if ok then h\<lparr>h_status := Healthy, h_failing_streak := 0\<rparr>
      else let fs = Suc (h_failing_streak h) in
        h\<lparr>h_status := (if effective_retries retries \<le> fs then Unhealthy else h_status h),
          h_failing_streak := fs\<rparr>)"

definition health_run :: "healthcheck \<Rightarrow> (string \<Rightarrow> http_answer) list \<Rightarrow> health_state" where
  "health_run hc answers =
     foldl (health_step (hc_retries hc)) health_init (map (\<lambda>get. probe_ok get (hc_test hc)) answers)"

lemmas compose_simps [model_simps] =
  elasticsearch_def compose_def digit_val_def read_nat_def valid_port_def read_port_def
  parse_port_def parse_duration_def env_entry_def env_of_def sh_words_def
  curl_exit_def sh_simple_def sh_run_def probe_exit_def probe_ok_def
  health_init_def effective_retries_def health_step_def health_run_def

lemma es_security_disabled: "env_of elasticsearch ''xpack.security.enabled'' = Some ''false''"
  by (simp add: env_of_def elasticsearch_def env_entry_def map_filter_def)

subsection \<open>The health state machine\<close>

lemma health_fails:
  "foldl (health_step r) h (replicate (Suc n) False) =
   h\<lparr>h_status := (if effective_retries r \<le> h_failing_streak h + Suc n then Unhealthy else h_status h),
     h_failing_streak := h_failing_streak h + Suc n\<rparr>"
proof (induction n arbitrary: h)
  case 0
  then show ?case by (simp add: health_step_def)
next
  case (Suc n)
  have "foldl (health_step r) h (replicate (Suc (Suc n)) False) =
        foldl (health_step r) (health_step r h False) (replicate (Suc n) False)"
    by simp
  also have "\<dots> = (health_step r h False)\<lparr>h_status :=
        (if effective_retries r \<le> h_failing_streak (health_step r h False) + Suc n then Unhealthy
         else h_status (health_step r h False)),
      h_failing_streak := h_failing_streak (health_step r h False) + Suc n\<rparr>"
    by (rule Suc.IH)
  also have "\<dots> = h\<lparr>h_status := (if effective_retries r \<le> h_failing_streak h + Suc (Suc n) then Unhealthy
         else h_status h), h_failing_streak := h_failing_streak h + Suc (Suc n)\<rparr>"
    by (simp add: health_step_def Let_def)
  finally show ?case .
qed

lemma map_probe_failing:
  "\<forall>g\<in>set gs. \<not> probe_ok g t \<Longrightarrow> map (\<lambda>g. probe_ok g t) gs = replicate (length gs) False"
  by (induction gs) auto


lemma health_after_success:
  "n < effective_retries r \<Longrightarrow>
   h_status (foldl (health_step r) h (oks @ True # replicate n False)) = Healthy"
proof (cases n)
  case 0
  then show ?thesis by (simp add: health_step_def)
next
  case (Suc m)
  moreover assume "n < effective_retries r"
  ultimately show ?thesis
    by (simp del: replicate_Suc add: health_fails) (simp add: health_step_def)
qed

subsection \<open>Properties of the service\<close>

text \<open>C30: The service's health probe checks the port the service publishes: the
  port entry \<open>"9200:9200"\<close> publishes container port 9200 on the same host port,
  and a probe succeeds exactly when an HTTP GET of
  \<open>http://localhost:9200/_cluster/health\<close> is answered with a status below 400;
  a refused connection (curl exit 7) or an HTTP error (exit 22 under \<open>--fail\<close>) makes
  the shell's \<open>|| exit 1\<close> report failure.\<close>

theorem es_probe_checks_published_port:
  "\<exists>pm. parse_port (hd (svc_ports elasticsearch)) = Inr pm \<and>
        pm_published pm = Some (pm_target pm) \<and>
        (\<forall>get. probe_ok get (hc_test (svc_healthcheck elasticsearch)) \<longleftrightarrow>
           (\<exists>st. get (''http://localhost:'' @ py_str_nat (pm_target pm) @ ''/_cluster/health'') =
                   Http_Status st \<and> st < 400))"
proof -
  have p: "parse_port (hd (svc_ports elasticsearch)) = Inr \<lparr>pm_published = Some 9200, pm_target = 9200\<rparr>"
    by (simp add: elasticsearch_def parse_port_def py_split_def read_port_def read_nat_def
        valid_port_def digit_val_def)
  have s: "py_str_nat 9200 = ''9200''"
    by (simp add: py_str_nat.simps digit_char_def)
  have "probe_ok get (hc_test (svc_healthcheck elasticsearch)) \<longleftrightarrow>
        (\<exists>st. get ''http://localhost:9200/_cluster/health'' = Http_Status st \<and> st < 400)" for get
    by (cases "get ''http://localhost:9200/_cluster/health''")
      (simp_all add: elasticsearch_def probe_ok_def probe_exit_def sh_run_def sh_words_def
        py_split_def sh_simple_def curl_exit_def read_nat_def digit_val_def)
  with p s show ?thesis by auto
qed

text \<open>C31: The probe runs every 10 seconds; while the search engine never answers
  successfully the service stays \<open>starting\<close>, and it is reported unhealthy from the
  60th failed probe on, that is 600 seconds after start and not before.\<close>

theorem es_unhealthy_after_600s:
  assumes "\<forall>g\<in>set gs. \<not> probe_ok g (hc_test (svc_healthcheck elasticsearch))"
  shows "parse_duration (hc_interval (svc_healthcheck elasticsearch)) = Some 10 \<and>
         h_status (health_run (svc_healthcheck elasticsearch) gs) =
           (if 600 \<le> 10 * length gs then Unhealthy else Starting)"
proof -
  have d: "parse_duration (hc_interval (svc_healthcheck elasticsearch)) = Some 10"
    by (simp add: elasticsearch_def parse_duration_def read_nat_def digit_val_def)
  have "h_status (health_run (svc_healthcheck elasticsearch) gs) =
        (if 60 \<le> length gs then Unhealthy else Starting)"
  proof (cases "length gs")
    case 0
    then show ?thesis by (simp add: health_run_def health_init_def)
  next
    case (Suc n)
    then show ?thesis
      using map_probe_failing [OF assms]
      by (simp add: health_run_def health_fails del: replicate_Suc)
        (simp add: elasticsearch_def health_init_def effective_retries_def)
  qed
  with d show ?thesis by simp
qed

theorem es_unhealthy_after_600s_witness:
  "h_status (health_run (svc_healthcheck elasticsearch) (replicate 60 (\<lambda>_. Refused))) = Unhealthy \<and>
   h_status (health_run (svc_healthcheck elasticsearch) (replicate 59 (\<lambda>_. Refused))) = Starting"
proof -
  have f: "\<not> probe_ok (\<lambda>_. Refused) (hc_test (svc_healthcheck elasticsearch))"
    by (simp add: elasticsearch_def probe_ok_def probe_exit_def sh_run_def sh_words_def
        py_split_def sh_simple_def curl_exit_def read_nat_def digit_val_def)
  show ?thesis
    using es_unhealthy_after_600s [of "replicate 60 (\<lambda>_. Refused)"]
      es_unhealthy_after_600s [of "replicate 59 (\<lambda>_. Refused)"] f
    by simp
qed

text \<open>C32: One successful probe marks the service healthy whatever came before, and it
  stays healthy through up to 59 failed probes after it (an outage shorter than ten
  minutes); the 60th consecutive failure marks it unhealthy.\<close>

theorem es_healthy_after_success:
  assumes "probe_ok g (hc_test (svc_healthcheck elasticsearch))"
    and "\<forall>f\<in>set fs. \<not> probe_ok f (hc_test (svc_healthcheck elasticsearch))"
  shows "h_status (health_run (svc_healthcheck elasticsearch) (gs @ g # fs)) =
           (if 60 \<le> length fs then Unhealthy else Healthy)"
proof -
  let ?r = "hc_retries (svc_healthcheck elasticsearch)"
  have r: "effective_retries ?r = 60" by (simp add: elasticsearch_def effective_retries_def)
  have m: "map (\<lambda>get. probe_ok get (hc_test (svc_healthcheck elasticsearch))) (gs @ g # fs) =
           map (\<lambda>get. probe_ok get (hc_test (svc_healthcheck elasticsearch))) gs @
           True # replicate (length fs) False"
    using assms(1) map_probe_failing [OF assms(2)] by simp
  show ?thesis
  proof (cases "60 \<le> length fs")
    case True
    then obtain n where n: "length fs = Suc n" by (cases "length fs") auto
    have "h_status (foldl (health_step ?r) health_init
            (map (\<lambda>get. probe_ok get (hc_test (svc_healthcheck elasticsearch))) gs @
             True # replicate (Suc n) False)) = Unhealthy"
      using True n r by (simp del: replicate_Suc add: health_fails)
    with True n show ?thesis unfolding health_run_def m by (simp del: replicate_Suc)
  next
    case False
    then show ?thesis
      using health_after_success [of "length fs" ?r] r unfolding health_run_def m by simp
  qed
qed

theorem es_healthy_after_success_witness:
  "h_status (health_run (svc_healthcheck elasticsearch)
     ([] @ (\<lambda>_. Http_Status 200) # replicate 59 (\<lambda>_. Refused))) = Healthy"
proof -
  have t: "probe_ok (\<lambda>_. Http_Status 200) (hc_test (svc_healthcheck elasticsearch))"
    and f: "\<not> probe_ok (\<lambda>_. Refused) (hc_test (svc_healthcheck elasticsearch))"
    by (simp_all add: elasticsearch_def probe_ok_def probe_exit_def sh_run_def sh_words_def
        py_split_def sh_simple_def curl_exit_def read_nat_def digit_val_def)
  show ?thesis
    using es_healthy_after_success [of "\<lambda>_. Http_Status 200" "replicate 59 (\<lambda>_. Refused)" "[]"] t f
    by simp
qed

end
