(* ===== verification/Spec2Isabelle.thy ===== *)
theory Spec2Isabelle
  imports Notebook_Main Pipeline_Types Executor_Orders Notebook_Transcript Compose_Service
begin

text \<open>
  \<^bold>\<open>A verification model of the query-pipeline-with-memory notebook.\<close>

  The repository's program is one notebook,
  \<open>src/docs/docs/examples/pipeline/query_pipeline_memory.ipynb\<close>. It loads web
  pages into documents, cleans the first document's text, builds a vector index,
  and wires a \<open>QueryPipeline\<close> of eight modules:
  \<^item> \<open>input\<close>;
  \<^item> the \<open>rewrite_template\<close> prompt and the \<open>llm\<close> that rewrites the query;
  \<^item> two retrievers, one on the rewritten query and one on the raw query;
  \<^item> \<open>join\<close> (\<open>ArgPackComponent\<close>), which packs the two node lists;
  \<^item> a ColBERT \<open>reranker\<close>;
  \<^item> the custom \<open>ResponseWithChatHistory\<close> component.
  A chat loop then runs the pipeline once per user message and keeps the
  conversation in a \<open>ChatMemoryBuffer\<close>. The pipeline executor and the memory buffer
  belong to the library; they are modelled from the spec's contracts (Unit
  Registry, Link Table, Graph Validator, Executor, Memory Buffer). The LLM, the
  retrievers and the reranker are opaque collaborators whose calls may fail.

  \<^bold>\<open>Theories and what they model.\<close>
  \<^item> \<open>Prelude\<close>:
    \<^item> \<open>error\<close>, the exceptions of the notebook and the spec's error kinds;
    \<^item> \<open>'a result = error + 'a\<close> and \<open>ebind\<close>, exception propagation;
    \<^item> \<open>py_getitem\<close>, \<open>kwargs[k]\<close> with \<open>KeyError\<close>;
    \<^item> the \<open>model_simps\<close> collection of evaluation rules.
  \<^item> \<open>Py_Str\<close>: the string built-ins the notebook calls. \<open>str.split\<close> with a
    separator (\<open>py_split\<close>), \<open>str.join\<close> (\<open>py_join\<close>) and \<open>str.strip\<close> with
    Python's whitespace set (\<open>py_strip\<close>), and their round trip \<open>py_split_join\<close>.
  \<^item> \<open>Doc_Cleanup\<close>: the clean-up cell (split on newlines, the
    \<open>for idx in range(1, len(lines))\<close> loop as the recursion \<open>fix_loop\<close>, join), and
    \<open>clean_documents\<close> for the update of \<open>documents[0].text\<close>.
  \<^item> \<open>Chat_Types\<close>: \<open>ChatMessage\<close> and its \<open>str\<close> (\<open>message_str\<close>), the
    history text (\<open>history_str\<close>), nodes with scores, and the values passed
    between modules (\<open>val\<close>).
  \<^item> \<open>Templates\<close>: Python's \<open>str.format\<close> called with keyword arguments only, as a
    parser \<open>parse_format\<close> and \<open>render\<close> (an empty or all-digit field raises
    \<open>IndexError\<close>, a missing keyword \<open>KeyError\<close>). Also the notebook's \<open>rewrite\<close> template and
    \<open>DEFAULT_CONTEXT_PROMPT\<close>.
  \<^item> \<open>Response_Component\<close>: the class \<open>ResponseWithChatHistory\<close>, as the
    record \<open>response_with_chat_history\<close>:
    \<^item> \<open>_validate_component_inputs\<close>;
    \<^item> \<open>_prepare_context\<close> (\<open>prepare_context\<close>, with the loop over the nodes);
    \<^item> \<open>_run_component\<close> and \<open>_arun_component\<close>;
    \<^item> the instance \<open>response_component\<close>.
  \<^item> \<open>Pipeline\<close> (spec-modelled): the generic query-pipeline core.
    \<^item> \<open>register\<close>, \<open>get\<close> and \<open>add_link\<close>;
    \<^item> \<open>validate\<close>, which is Kahn's topological sort \<open>topo\<close> with a
      registration-order tie-break, followed by the coverage check;
    \<^item> the sequential executor \<open>run\<close>;
    \<^item> the construction relation \<open>built\<close>.
  \<^item> \<open>Notebook_Pipeline\<close>: the notebook's wiring. It holds the eight module
    contracts, \<open>notebook_modules\<close> (the \<open>QueryPipeline(modules=...)\<close> dictionary),
    \<open>notebook_links\<close> (the twelve \<open>add_link\<close> calls) and \<open>notebook_run\<close> (the
    \<open>pipeline.run(...)\<close> call). The built-in modules get the library's key
    contracts: \<open>ArgPackComponent\<close> requires no key, the reranker requires
    \<open>nodes\<close> and takes \<open>query_str\<close> as optional (ColBERT raises \<open>ValueError\<close>
    without it).
  \<^item> \<open>Memory\<close> (spec-modelled): the memory buffer (\<open>memory_buffer\<close>,
    \<open>mem_put\<close>, \<open>mem_get\<close>). Eviction from the head under a token budget and an
    injected sizing function is \<open>evict\<close>.
  \<^item> \<open>Chat_Session\<close>: the chat loop of the last cell. \<open>chat_turn\<close> is one
    iteration: \<open>get\<close>, the history string, \<open>pipeline.run\<close>, \<open>put\<close> of the user
    message, \<open>put\<close> of the response, the prints. \<open>chat_loop\<close> is the loop; it stops
    at the first exception. It also holds the abstract session \<open>spec_loop\<close> over
    the full conversation log, and \<open>reachable\<close>, the inductive set of session
    states.
  \<^item> \<open>Notebook_Main\<close>: the notebook as one program. The reader, the index built
    with the embedding model, the OpenAI client, the reranker and the tokenizer are
    opaque \<open>services\<close>; \<open>notebook_main\<close> runs load, clean, index, the
    construction of the OpenAI client and the ColBERT reranker (each may raise),
    and the chat session, in the order of the cells.
  \<^item> \<open>Pipeline_Types\<close>: the spec's fixed-shape module contracts with value types
    (\<open>vtype\<close>, ordered by the subtyping of a chat response under \<open>str\<close>), the
    notebook's signatures, the static check \<open>pipeline_typed\<close>, and preservation
    for each module.
  \<^item> \<open>Executor_Orders\<close>: the executor's concurrency-aware mode as execution in
    any topological order. Independent modules commute (\<open>exec_order_swap\<close>),
    and all topological orders have the same outcome (\<open>topo_orders_same_outcome\<close>).
  \<^item> \<open>Notebook_Transcript\<close>: the chat-session cell's saved output as data
    (\<open>recorded_output\<close>, \<open>recorded_answers\<close>), \<open>print\<close> as a line
    writer (\<open>print_lines\<close>), and an LLM double that gives the recorded answers.
  \<^item> \<open>Compose_Service\<close>: the compose file appended to the notebook (its
    \<open>elasticsearch\<close> service) as records; only these translate the file. To give
    the file's values a meaning, the theory also writes down the documented
    behaviour of the engine and the tools the file relies on (not code of the
    repository, and not in the map): the port entry read by \<open>parse_port\<close>, the interval by
    \<open>parse_duration\<close>, the environment by \<open>env_of\<close>, the \<open>CMD-SHELL\<close> test
    run by a small shell (\<open>sh_run\<close>: \<open>||\<close>, \<open>curl\<close> with \<open>--fail\<close>,
    \<open>exit\<close>), and the health state machine \<open>health_step\<close> (a success resets
    the failing streak and marks the container healthy; \<open>retries\<close> consecutive
    failures mark it unhealthy) folded over a sequence of probes.

  \<^bold>\<open>What is proved.\<close>
  \<^item> The pipeline as wired computes exactly the intended composition of
    service calls (\<open>notebook_run_refines\<close>).
  \<^item> Any link that closes a cycle is rejected with \<open>CycleError\<close>.
  \<^item> Which \<open>add_link\<close> calls validation depends on: without one of the nine links
    into a required key it fails with \<open>UnsatisfiedInputError\<close> naming the slot;
    without a link into \<open>join\<close> or the reranker's \<open>query_str\<close> it succeeds. In
    the last case the run fails only in ColBERT, after the LLM and both
    retrievals (\<open>notebook_run_without_reranker_query\<close>).
  \<^item> The history text splits back into the messages' \<open>str\<close> when no message
    contains a newline; with multi-line answers the turn boundaries are lost.
  \<^item> Runs fail only with a service's error.
  \<^item> The clean-up loop equals a structural reference. The cleaned text has no blank
    run, keeps every non-blank line, and cleaning twice changes nothing.
  \<^item> The loop's comment (runs of \<emph>\<open>more than two\<close> blank lines) understates what
    it does: by the reference, it also shortens a run of two.
  \<^item> Whole program: the index is built from the cleaned text, no document gives
    \<open>IndexError\<close>, and with answering services the session completes its four
    turns (liveness). It prints at most twelve lines and keeps at most eight
    messages (bounds).
  \<^item> Typing: the notebook's links are well typed, and every module preserves
    types or fails with a service's error.
  \<^item> Concurrency: any schedule of the notebook's modules that respects the links
    has the outcome of \<open>pipeline.run\<close>.
  \<^item> The response component's prompt, its error on a missing input, its use of
    the global \<open>llm\<close>, and its in-place append to the history argument.
  \<^item> Memory and session:
    \<^item> after each turn the memory is within budget or holds one message;
    \<^item> the newest message is never evicted;
    \<^item> eviction is minimal;
    \<^item> each turn puts the user message, then the response;
    \<^item> the loop refines the abstract session over the whole log, because
      per-append eviction equals one eviction of the whole log (\<open>evict_evict_append\<close>).
  \<^item> Conformance with the saved output: with the recorded answers the session
    prints the notebook's recorded stdout character for character, for every
    tokenizer (\<open>notebook_session_prints_recorded_output\<close>).
  \<^item> Compose service, for the file's values (port 9200, \<open>interval: 10s\<close>,
    \<open>retries: 60\<close>):
    \<^item> the probe checks the published port and passes exactly when
      \<open>/_cluster/health\<close> answers with a status below 400;
    \<^item> if the engine never answers, the service is unhealthy at 600 s, not before;
    \<^item> one successful probe makes it healthy, and it stays so through 59 failures.

  \<^bold>\<open>Termination, fuel and bounds.\<close> No definition needs fuel:
  \<^item> \<open>fix_loop\<close> terminates by the measure \<open>length lines - idx\<close>;
  \<^item> \<open>topo\<close> by the number of unscheduled modules;
  \<^item> \<open>evict\<close>, \<open>chat_loop\<close>, the format parser and the node loop are
    structural.
  The health check is a \<open>foldl\<close> over the list of probe outcomes, one per
  \<open>interval\<close>, so its time bound is a statement about list length.
  Sizes are natural numbers. Token counts never overflow in Python, so the budget
  is a \<open>nat\<close>; \<open>token_limit=8000\<close> is the notebook's value.

  \<^bold>\<open>Not modelled.\<close>
  \<^item> The web reader, the embeddings and the vector index: network I/O and
    external services. Only the resulting nodes enter the model, through the
    retriever collaborator.
  \<^item> The internals of the OpenAI LLM and of ColBERT: opaque collaborators.
  \<^item> Python's dynamic typing of the values passed between modules: they are a
    tagged union here (\<open>val\<close>), and a value of the wrong kind raises
    \<open>TypeError\<close> where it is unpacked, whereas Python would fail later, e.g. with
    \<open>AttributeError\<close> at \<open>chat_history.append\<close>. The notebook passes only
    well-typed values (\<open>notebook_pipeline_well_typed\<close>).
  \<^item> The \<open>pip\<close> and API-key cells.
  \<^item> The container runtime and the search engine behind the compose file: the
    HTTP answer at each probe is an input. Port entries with an IP address, port
    ranges or a protocol suffix, compound durations (\<open>1m30s\<close>), curl options
    that take an argument, and \<open>start_period\<close>/\<open>timeout\<close> (not set in the file)
    are outside the model; \<open>parse_port\<close> rejects the first three, the shell
    model gives no exit status for the others.
  \<^item> Per-unit timeouts and the wall-clock behaviour of the concurrent mode. The
    concurrent mode is modelled by its serialisations, the topological orders.
  \<^item> Characters beyond code point 255: Isabelle's \<open>char\<close> is a byte, so
    \<open>str.strip\<close> and \<open>str.split\<close> are modelled on Latin-1 text.
\<close>

section \<open>Properties of the whole notebook\<close>

text \<open>C4: Liveness of the notebook: when the reader returns a document, the index
  can be built over any documents and its retriever always answers, the OpenAI
  client and the reranker can be constructed and always answer, the program runs the whole chat session,
  all four turns, without an exception, and prints three lines per turn.\<close>

theorem notebook_main_completes:
  assumes "load_documents sv = Inr (d # ds)"
    and "\<forall>docs. \<exists>index. build_index sv docs = Inr index \<and> (\<forall>k q. \<exists>ns. index k q = Inr ns)"
    and "s_openai_init sv notebook_llm = Inr ()" and "s_colbert_init sv 3 = Inr ()"
    and "\<forall>cfg ms. \<exists>r. llm_chat (s_openai sv cfg) ms = Inr r"
    and "\<forall>k q ns. \<exists>ns'. s_colbert sv k q ns = Inr ns'"
  shows "\<exists>st. notebook_main sv = Inr (None, st) \<and> length (stdout st) = 12"
proof -
  obtain t where t: "clean_text (doc_text d) = Inr t" using clean_text_Inr by blast
  obtain index where i: "build_index sv (d\<lparr>doc_text := t\<rparr> # ds) = Inr index"
    and ans: "\<forall>k q. \<exists>ns. index k q = Inr ns"
    using assms(2) by blast
  let ?c = "notebook_collaborators sv index"
  have tr: "\<exists>r. turn_reply ?c h q = Inr r" for h q
    by (rule turn_reply_Inr) (use assms(5,6) ans in \<open>simp_all add: notebook_collaborators_def\<close>)
  have "fst (chat_loop ?c (initial_session (s_tokenizer sv)) user_inputs) = None \<and>
             length (stdout (snd (chat_loop ?c (initial_session (s_tokenizer sv)) user_inputs))) = 12"
  proof -
    have "length user_inputs = 4" "stdout (initial_session (s_tokenizer sv)) = []"
      by (simp_all add: user_inputs_def initial_session_def)
    with chat_loop_completes [of ?c, OF tr, of "initial_session (s_tokenizer sv)" user_inputs]
    show ?thesis by simp
  qed
  moreover have "notebook_main sv = Inr (chat_loop ?c (initial_session (s_tokenizer sv)) user_inputs)"
    using assms(1,3,4) t i by (simp add: notebook_main_def clean_documents_def notebook_session_def)
  ultimately show ?thesis by (metis prod.collapse)
qed

theorem notebook_main_completes_witness:
  "load_documents demo_services = Inr [\<lparr>doc_text = ''a\<newline>\<newline>\<newline>b''\<rparr>] \<and>
   (\<forall>docs. \<exists>index. build_index demo_services docs = Inr index \<and> (\<forall>k q. \<exists>ns. index k q = Inr ns)) \<and>
   s_openai_init demo_services notebook_llm = Inr () \<and> s_colbert_init demo_services 3 = Inr () \<and>
   (\<forall>cfg ms. \<exists>r. llm_chat (s_openai demo_services cfg) ms = Inr r) \<and>
   (\<forall>k q ns. \<exists>ns'. s_colbert demo_services k q ns = Inr ns') \<and>
   (\<exists>st. notebook_main demo_services = Inr (None, st) \<and> length (stdout st) = 12)"
proof -
  have l: "load_documents demo_services = Inr [\<lparr>doc_text = ''a\<newline>\<newline>\<newline>b''\<rparr>]"
    by (simp add: load_documents_def)
  have b: "\<forall>docs. \<exists>index. build_index demo_services docs = Inr index \<and> (\<forall>k q. \<exists>ns. index k q = Inr ns)"
    by (simp add: build_index_def)
  have i: "s_openai_init demo_services notebook_llm = Inr ()" "s_colbert_init demo_services 3 = Inr ()"
    by simp_all
  have o: "\<forall>cfg ms. \<exists>r. llm_chat (s_openai demo_services cfg) ms = Inr r" by simp
  have r: "\<forall>k q ns. \<exists>ns'. s_colbert demo_services k q ns = Inr ns'" by simp
  show ?thesis using l b i o r notebook_main_completes [OF l b i o r] by blast
qed

text \<open>C9: Bounds of the notebook's session, whatever the services answer: it prints
  at most twelve lines (three per user input), and the memory holds at most two
  messages per completed turn, so at most eight messages.\<close>

theorem notebook_session_bounds:
  "length (stdout (snd (notebook_session c tok))) \<le> 12 \<and>
   3 * length (mem_get (pipeline_memory (snd (notebook_session c tok)))) \<le>
     2 * length (stdout (snd (notebook_session c tok))) \<and>
   length (mem_get (pipeline_memory (snd (notebook_session c tok)))) \<le> 8"
proof -
  have o: "length (stdout (snd (notebook_session c tok))) \<le> 12"
    using chat_loop_stdout_le [of c "initial_session tok" user_inputs]
    by (simp add: notebook_session_def initial_session_def user_inputs_def)
  have m: "3 * length (mem_get (pipeline_memory (snd (notebook_session c tok)))) \<le>
             2 * length (stdout (snd (notebook_session c tok)))"
    unfolding notebook_session_def
    by (rule reachable_mem_length [OF chat_loop_reachable [OF reachable.start]])
  from o m show ?thesis by linarith
qed

text \<open>C8: Concurrency-aware execution of the notebook's pipeline: running its
  modules in any order that respects the links (as a schedule that runs the two
  retrievals, or the query retrieval and the rewrite, concurrently does, once
  serialised) fails exactly when \<open>pipeline.run\<close> fails, and otherwise gives the same
  leaf outputs, the response.\<close>

theorem notebook_any_schedule:
  assumes "notebook_pipeline c = Inr p"
    and "mset ns = mset (names p)" and "topo_sorted (edges p) ns"
  shows "same_outcome (map_sum id (filter (\<lambda>(n, _). is_leaf p n)) (exec_order p (run_inputs q h hs) ns [] []))
           (notebook_run c q h hs)"
proof -
  have p: "p = \<lparr>modules = notebook_modules c, links = resolved_links\<rparr>"
    using assms(1) notebook_pipeline_built [of c] by simp
  have reg: "links_registered p"
    using notebook_pipeline_is_built [OF assms(1)] by (rule built_links_registered)
  have v: "validate p (map fst (run_inputs q h hs)) =
           Inr [''input'', ''rewrite_template'', ''llm'', ''rewrite_retriever'', ''query_retriever'',
                ''join'', ''reranker'', ''response_component'']"
    unfolding p by (rule notebook_validate)
  have "notebook_run c q h hs = run p (run_inputs q h hs)"
    using assms(1) by (simp add: notebook_run_def)
  with run_any_topological_order [OF reg v assms(2,3)] show ?thesis by simp
qed

theorem notebook_any_schedule_witness:
  "notebook_pipeline ok_services = Inr \<lparr>modules = notebook_modules ok_services, links = resolved_links\<rparr> \<and>
   mset [''input'', ''query_retriever'', ''rewrite_template'', ''llm'', ''rewrite_retriever'',
         ''join'', ''reranker'', ''response_component''] =
     mset (names \<lparr>modules = notebook_modules ok_services, links = resolved_links\<rparr>) \<and>
   topo_sorted (edges \<lparr>modules = notebook_modules ok_services, links = resolved_links\<rparr>)
     [''input'', ''query_retriever'', ''rewrite_template'', ''llm'', ''rewrite_retriever'',
      ''join'', ''reranker'', ''response_component''] \<and>
   same_outcome
     (map_sum id (filter (\<lambda>(n, _). is_leaf \<lparr>modules = notebook_modules ok_services, links = resolved_links\<rparr> n))
       (exec_order \<lparr>modules = notebook_modules ok_services, links = resolved_links\<rparr> (run_inputs ''Hello!'' [] '''')
          [''input'', ''query_retriever'', ''rewrite_template'', ''llm'', ''rewrite_retriever'',
           ''join'', ''reranker'', ''response_component''] [] []))
     (notebook_run ok_services ''Hello!'' [] '''')"
proof -
  have b: "notebook_pipeline ok_services = Inr \<lparr>modules = notebook_modules ok_services, links = resolved_links\<rparr>"
    by (rule notebook_pipeline_built)
  have m: "mset [''input'', ''query_retriever'', ''rewrite_template'', ''llm'', ''rewrite_retriever'',
         ''join'', ''reranker'', ''response_component''] =
     mset (names \<lparr>modules = notebook_modules ok_services, links = resolved_links\<rparr>)"
    by (simp add: names_def notebook_modules_def)
  have t: "topo_sorted (edges \<lparr>modules = notebook_modules ok_services, links = resolved_links\<rparr>)
     [''input'', ''query_retriever'', ''rewrite_template'', ''llm'', ''rewrite_retriever'',
      ''join'', ''reranker'', ''response_component'']"
    by (simp add: topo_sorted_def edges_def resolved_links_def)
  show ?thesis using b m t notebook_any_schedule [OF b m t, of "''Hello!''" "[]" "''''"] by blast
qed

end
